theory Spec2Isabelle
  imports Main "HOL-Library.Sublist"
begin

section \<open>Data model of \<^verbatim>\<open>sslyze/plugins/openssl_cipher_suites/cipher_suites.py\<close>\<close>

text \<open>
  Modelled from the spec: the enumeration \<^verbatim>\<open>TlsVersionEnum\<close> is imported from
  \<^verbatim>\<open>sslyze.server_connectivity\<close>, which is not part of the sources at hand. Its six
  members are the ones the module names (\<^verbatim>\<open>SSL_2_0\<close> ... \<^verbatim>\<open>TLS_1_3\<close>) and the
  specification's closed enumeration \<^verbatim>\<open>ProtocolVersion\<close>.
\<close>

datatype TlsVersionEnum = SSL_2_0 | SSL_3_0 | TLS_1_0 | TLS_1_1 | TLS_1_2 | TLS_1_3

text \<open>The frozen dataclass \<^verbatim>\<open>CipherSuite\<close> (lines 11-16).\<close>

record CipherSuite =
  name :: string
  openssl_name :: string
  is_anonymous :: bool
  key_size :: int

text \<open>
  Exceptions are values. A failed subscript on a dictionary raises \<^verbatim>\<open>KeyError\<close>;
  the key it carries is left out, because the order in which Python iterates over a set
  (and so which missing key is met first) is not fixed by the language. Whatever the
  external engine (the two \<^verbatim>\<open>nassl\<close> clients) raises is \<open>EngineError\<close>.
\<close>

datatype error = KeyError | EngineError

text \<open>
  A dictionary literal is kept as the list of its items, in source order; subscripting
  it is \<open>getitem\<close>. Python keeps the last item of a repeated key and \<open>map_of\<close> finds
  the first; the literals of this module repeat no key.
\<close>

definition getitem :: "('k \<times> 'v) list \<Rightarrow> 'k \<Rightarrow> error + 'v" where
  "getitem d k = (case map_of d k of None \<Rightarrow> Inl KeyError | Some v \<Rightarrow> Inr v)"

text \<open>Python's \<^verbatim>\<open>sub in s\<close> on strings: \<open>sub\<close> occurs in \<open>s\<close> as a contiguous block.\<close>

fun str_in :: "string \<Rightarrow> string \<Rightarrow> bool" where
  "str_in sub [] = (sub = [])"
| "str_in sub (c # cs) = (prefix sub (c # cs) \<or> str_in sub cs)"

section \<open>The static tables (lines 21-568)\<close>

definition SSLV2_OPENSSL_TO_RFC_NAMES_MAPPING :: "(string \<times> string) list" where
  "SSLV2_OPENSSL_TO_RFC_NAMES_MAPPING = [
    (''RC4-MD5'', ''SSL_CK_RC4_128_WITH_MD5''),
    (''EXP-RC4-MD5'', ''SSL_CK_RC4_128_EXPORT40_WITH_MD5''),
    (''RC2-CBC-MD5'', ''SSL_CK_RC2_128_CBC_WITH_MD5''),
    (''EXP-RC2-CBC-MD5'', ''SSL_CK_RC2_128_CBC_EXPORT40_WITH_MD5''),
    (''IDEA-CBC-MD5'', ''SSL_CK_IDEA_128_CBC_WITH_MD5''),
    (''DES-CBC-MD5'', ''SSL_CK_DES_64_CBC_WITH_MD5''),
    (''DES-CBC3-MD5'', ''SSL_CK_DES_192_EDE3_CBC_WITH_MD5''),
    (''RC4-64-MD5'', ''SSL_CK_RC4_64_WITH_MD5''),
    (''NULL-MD5'', ''TLS_RSA_WITH_NULL_MD5'')
  ]"

definition TLS_OPENSSL_TO_RFC_NAMES_MAPPING :: "(string \<times> string) list" where
  "TLS_OPENSSL_TO_RFC_NAMES_MAPPING = [
    (''NULL-MD5'', ''TLS_RSA_WITH_NULL_MD5''),
    (''NULL-SHA'', ''TLS_RSA_WITH_NULL_SHA''),
    (''EXP-RC4-MD5'', ''TLS_RSA_EXPORT_WITH_RC4_40_MD5''),
    (''RC4-MD5'', ''TLS_RSA_WITH_RC4_128_MD5''),
    (''RC4-SHA'', ''TLS_RSA_WITH_RC4_128_SHA''),
    (''EXP-RC2-CBC-MD5'', ''TLS_RSA_EXPORT_WITH_RC2_CBC_40_MD5''),
    (''IDEA-CBC-SHA'', ''TLS_RSA_WITH_IDEA_CBC_SHA''),
    (''EXP-DES-CBC-SHA'', ''TLS_RSA_EXPORT_WITH_DES40_CBC_SHA''),
    (''DES-CBC-SHA'', ''TLS_RSA_WITH_DES_CBC_SHA''),
    (''DES-CBC3-SHA'', ''TLS_RSA_WITH_3DES_EDE_CBC_SHA''),
    (''EXP-DH-DSS-DES-CBC-SHA'', ''TLS_DH_DSS_EXPORT_WITH_DES40_CBC_SHA''),
    (''DH-DSS-DES-CBC-SHA'', ''TLS_DH_DSS_WITH_DES_CBC_SHA''),
    (''DH-DSS-DES-CBC3-SHA'', ''TLS_DH_DSS_WITH_3DES_EDE_CBC_SHA''),
    (''EXP-DH-RSA-DES-CBC-SHA'', ''TLS_DH_RSA_EXPORT_WITH_DES40_CBC_SHA''),
    (''DH-RSA-DES-CBC-SHA'', ''TLS_DH_RSA_WITH_DES_CBC_SHA''),
    (''DH-RSA-DES-CBC3-SHA'', ''TLS_DH_RSA_WITH_3DES_EDE_CBC_SHA''),
    (''EXP-EDH-DSS-DES-CBC-SHA'', ''TLS_DHE_DSS_EXPORT_WITH_DES40_CBC_SHA''),
    (''EDH-DSS-DES-CBC-SHA'', ''TLS_DHE_DSS_WITH_DES_CBC_SHA''),
    (''EDH-DSS-DES-CBC3-SHA'', ''TLS_DHE_DSS_WITH_3DES_EDE_CBC_SHA''),
    (''EXP-EDH-RSA-DES-CBC-SHA'', ''TLS_DHE_RSA_EXPORT_WITH_DES40_CBC_SHA''),
    (''EDH-RSA-DES-CBC-SHA'', ''TLS_DHE_RSA_WITH_DES_CBC_SHA''),
    (''EDH-RSA-DES-CBC3-SHA'', ''TLS_DHE_RSA_WITH_3DES_EDE_CBC_SHA''),
    (''EXP-ADH-RC4-MD5'', ''TLS_DH_anon_EXPORT_WITH_RC4_40_MD5''),
    (''ADH-RC4-MD5'', ''TLS_DH_anon_WITH_RC4_128_MD5''),
    (''EXP-ADH-DES-CBC-SHA'', ''TLS_DH_anon_EXPORT_WITH_DES40_CBC_SHA''),
    (''ADH-DES-CBC-SHA'', ''TLS_DH_anon_WITH_DES_CBC_SHA''),
    (''ADH-DES-CBC3-SHA'', ''TLS_DH_anon_WITH_3DES_EDE_CBC_SHA''),
    (''KRB5-DES-CBC-SHA'', ''TLS_KRB5_WITH_DES_CBC_SHA''),
    (''KRB5-DES-CBC3-SHA'', ''TLS_KRB5_WITH_3DES_EDE_CBC_SHA''),
    (''KRB5-RC4-SHA'', ''TLS_KRB5_WITH_RC4_128_SHA''),
    (''KRB5-IDEA-CBC-SHA'', ''TLS_KRB5_WITH_IDEA_CBC_SHA''),
    (''KRB5-DES-CBC-MD5'', ''TLS_KRB5_WITH_DES_CBC_MD5''),
    (''KRB5-DES-CBC3-MD5'', ''TLS_KRB5_WITH_3DES_EDE_CBC_MD5''),
    (''KRB5-RC4-MD5'', ''TLS_KRB5_WITH_RC4_128_MD5''),
    (''KRB5-IDEA-CBC-MD5'', ''TLS_KRB5_WITH_IDEA_CBC_MD5''),
    (''EXP-KRB5-DES-CBC-SHA'', ''TLS_KRB5_EXPORT_WITH_DES_CBC_40_SHA''),
    (''EXP-KRB5-RC2-CBC-SHA'', ''TLS_KRB5_EXPORT_WITH_RC2_CBC_40_SHA''),
    (''EXP-KRB5-RC4-SHA'', ''TLS_KRB5_EXPORT_WITH_RC4_40_SHA''),
    (''EXP-KRB5-DES-CBC-MD5'', ''TLS_KRB5_EXPORT_WITH_DES_CBC_40_MD5''),
    (''EXP-KRB5-RC2-CBC-MD5'', ''TLS_KRB5_EXPORT_WITH_RC2_CBC_40_MD5''),
    (''EXP-KRB5-RC4-MD5'', ''TLS_KRB5_EXPORT_WITH_RC4_40_MD5''),
    (''AES128-SHA'', ''TLS_RSA_WITH_AES_128_CBC_SHA''),
    (''DH-DSS-AES128-SHA'', ''TLS_DH_DSS_WITH_AES_128_CBC_SHA''),
    (''DH-RSA-AES128-SHA'', ''TLS_DH_RSA_WITH_AES_128_CBC_SHA''),
    (''DHE-DSS-AES128-SHA'', ''TLS_DHE_DSS_WITH_AES_128_CBC_SHA''),
    (''DHE-RSA-AES128-SHA'', ''TLS_DHE_RSA_WITH_AES_128_CBC_SHA''),
    (''ADH-AES128-SHA'', ''TLS_DH_anon_WITH_AES_128_CBC_SHA''),
    (''AES256-SHA'', ''TLS_RSA_WITH_AES_256_CBC_SHA''),
    (''DH-DSS-AES256-SHA'', ''TLS_DH_DSS_WITH_AES_256_CBC_SHA''),
    (''DH-RSA-AES256-SHA'', ''TLS_DH_RSA_WITH_AES_256_CBC_SHA''),
    (''DHE-DSS-AES256-SHA'', ''TLS_DHE_DSS_WITH_AES_256_CBC_SHA''),
    (''DHE-RSA-AES256-SHA'', ''TLS_DHE_RSA_WITH_AES_256_CBC_SHA''),
    (''ADH-AES256-SHA'', ''TLS_DH_anon_WITH_AES_256_CBC_SHA''),
    (''NULL-SHA256'', ''TLS_RSA_WITH_NULL_SHA256''),
    (''AES128-SHA256'', ''TLS_RSA_WITH_AES_128_CBC_SHA256''),
    (''AES256-SHA256'', ''TLS_RSA_WITH_AES_256_CBC_SHA256''),
    (''DH-DSS-AES128-SHA256'', ''TLS_DH_DSS_WITH_AES_128_CBC_SHA256''),
    (''DH-RSA-AES128-SHA256'', ''TLS_DH_RSA_WITH_AES_128_CBC_SHA256''),
    (''DHE-DSS-AES128-SHA256'', ''TLS_DHE_DSS_WITH_AES_128_CBC_SHA256''),
    (''CAMELLIA128-SHA'', ''TLS_RSA_WITH_CAMELLIA_128_CBC_SHA''),
    (''DH-DSS-CAMELLIA128-SHA'', ''TLS_DH_DSS_WITH_CAMELLIA_128_CBC_SHA''),
    (''DH-RSA-CAMELLIA128-SHA'', ''TLS_DH_RSA_WITH_CAMELLIA_128_CBC_SHA''),
    (''DHE-DSS-CAMELLIA128-SHA'', ''TLS_DHE_DSS_WITH_CAMELLIA_128_CBC_SHA''),
    (''DHE-RSA-CAMELLIA128-SHA'', ''TLS_DHE_RSA_WITH_CAMELLIA_128_CBC_SHA''),
    (''ADH-CAMELLIA128-SHA'', ''TLS_DH_anon_WITH_CAMELLIA_128_CBC_SHA''),
    (''EXP1024-DES-CBC-SHA'', ''TLS_RSA_EXPORT1024_WITH_DES_CBC_SHA''),
    (''EXP1024-DHE-DSS-DES-CBC-SHA'', ''TLS_DHE_DSS_EXPORT1024_WITH_DES_CBC_SHA''),
    (''EXP1024-RC4-SHA'', ''TLS_RSA_EXPORT1024_WITH_RC4_56_SHA''),
    (''EXP1024-RC4-MD5'', ''TLS_RSA_EXPORT1024_WITH_RC4_56_MD5''),
    (''EXP1024-RC2-CBC-MD5'', ''TLS_RSA_EXPORT1024_WITH_RC2_CBC_56_MD5''),
    (''EXP1024-DHE-DSS-RC4-SHA'', ''TLS_DHE_DSS_EXPORT1024_WITH_RC4_56_SHA''),
    (''DHE-DSS-RC4-SHA'', ''TLS_DHE_DSS_WITH_RC4_128_SHA''),
    (''DHE-RSA-AES128-SHA256'', ''TLS_DHE_RSA_WITH_AES_128_CBC_SHA256''),
    (''DH-DSS-AES256-SHA256'', ''TLS_DH_DSS_WITH_AES_256_CBC_SHA256''),
    (''DH-RSA-AES256-SHA256'', ''TLS_DH_RSA_WITH_AES_256_CBC_SHA256''),
    (''DHE-DSS-AES256-SHA256'', ''TLS_DHE_DSS_WITH_AES_256_CBC_SHA256''),
    (''DHE-RSA-AES256-SHA256'', ''TLS_DHE_RSA_WITH_AES_256_CBC_SHA256''),
    (''ADH-AES128-SHA256'', ''TLS_DH_anon_WITH_AES_128_CBC_SHA256''),
    (''ADH-AES256-SHA256'', ''TLS_DH_anon_WITH_AES_256_CBC_SHA256''),
    (''GOST94-GOST89-GOST89'', ''TLS_GOSTR341094_WITH_28147_CNT_IMIT''),
    (''GOST2001-GOST89-GOST89'', ''TLS_GOSTR341001_WITH_28147_CNT_IMIT''),
    (''CAMELLIA256-SHA'', ''TLS_RSA_WITH_CAMELLIA_256_CBC_SHA''),
    (''DH-DSS-CAMELLIA256-SHA'', ''TLS_DH_DSS_WITH_CAMELLIA_256_CBC_SHA''),
    (''DH-RSA-CAMELLIA256-SHA'', ''TLS_DH_RSA_WITH_CAMELLIA_256_CBC_SHA''),
    (''DHE-DSS-CAMELLIA256-SHA'', ''TLS_DHE_DSS_WITH_CAMELLIA_256_CBC_SHA''),
    (''DHE-RSA-CAMELLIA256-SHA'', ''TLS_DHE_RSA_WITH_CAMELLIA_256_CBC_SHA''),
    (''ADH-CAMELLIA256-SHA'', ''TLS_DH_anon_WITH_CAMELLIA_256_CBC_SHA''),
    (''PSK-RC4-SHA'', ''TLS_PSK_WITH_RC4_128_SHA''),
    (''PSK-3DES-EDE-CBC-SHA'', ''TLS_PSK_WITH_3DES_EDE_CBC_SHA''),
    (''PSK-AES128-CBC-SHA'', ''TLS_PSK_WITH_AES_128_CBC_SHA''),
    (''PSK-AES256-CBC-SHA'', ''TLS_PSK_WITH_AES_256_CBC_SHA''),
    (''RSA-PSK-RC4-SHA'', ''TLS_RSA_PSK_WITH_RC4_128_SHA''),
    (''RSA-PSK-3DES-EDE-CBC-SHA'', ''TLS_RSA_PSK_WITH_3DES_EDE_CBC_SHA''),
    (''RSA-PSK-AES128-CBC-SHA'', ''TLS_RSA_PSK_WITH_AES_128_CBC_SHA''),
    (''RSA-PSK-AES256-CBC-SHA'', ''TLS_RSA_PSK_WITH_AES_256_CBC_SHA''),
    (''SEED-SHA'', ''TLS_RSA_WITH_SEED_CBC_SHA''),
    (''DH-DSS-SEED-SHA'', ''TLS_DH_DSS_WITH_SEED_CBC_SHA''),
    (''DH-RSA-SEED-SHA'', ''TLS_DH_RSA_WITH_SEED_CBC_SHA''),
    (''DHE-DSS-SEED-SHA'', ''TLS_DHE_DSS_WITH_SEED_CBC_SHA''),
    (''DHE-RSA-SEED-SHA'', ''TLS_DHE_RSA_WITH_SEED_CBC_SHA''),
    (''ADH-SEED-SHA'', ''TLS_DH_anon_WITH_SEED_CBC_SHA''),
    (''AES128-GCM-SHA256'', ''TLS_RSA_WITH_AES_128_GCM_SHA256''),
    (''AES256-GCM-SHA384'', ''TLS_RSA_WITH_AES_256_GCM_SHA384''),
    (''DHE-RSA-AES128-GCM-SHA256'', ''TLS_DHE_RSA_WITH_AES_128_GCM_SHA256''),
    (''DHE-RSA-AES256-GCM-SHA384'', ''TLS_DHE_RSA_WITH_AES_256_GCM_SHA384''),
    (''DH-RSA-AES128-GCM-SHA256'', ''TLS_DH_RSA_WITH_AES_128_GCM_SHA256''),
    (''DH-RSA-AES256-GCM-SHA384'', ''TLS_DH_RSA_WITH_AES_256_GCM_SHA384''),
    (''DHE-DSS-AES128-GCM-SHA256'', ''TLS_DHE_DSS_WITH_AES_128_GCM_SHA256''),
    (''DHE-DSS-AES256-GCM-SHA384'', ''TLS_DHE_DSS_WITH_AES_256_GCM_SHA384''),
    (''DH-DSS-AES128-GCM-SHA256'', ''TLS_DH_DSS_WITH_AES_128_GCM_SHA256''),
    (''DH-DSS-AES256-GCM-SHA384'', ''TLS_DH_DSS_WITH_AES_256_GCM_SHA384''),
    (''ADH-AES128-GCM-SHA256'', ''TLS_DH_anon_WITH_AES_128_GCM_SHA256''),
    (''ADH-AES256-GCM-SHA384'', ''TLS_DH_anon_WITH_AES_256_GCM_SHA384''),
    (''CAMELLIA128-SHA256'', ''TLS_RSA_WITH_CAMELLIA_128_CBC_SHA256''),
    (''DH-DSS-CAMELLIA128-SHA256'', ''TLS_DH_DSS_WITH_CAMELLIA_128_CBC_SHA256''),
    (''DH-RSA-CAMELLIA128-SHA256'', ''TLS_DH_RSA_WITH_CAMELLIA_128_CBC_SHA256''),
    (''DHE-DSS-CAMELLIA128-SHA256'', ''TLS_DHE_DSS_WITH_CAMELLIA_128_CBC_SHA256''),
    (''DHE-RSA-CAMELLIA128-SHA256'', ''TLS_DHE_RSA_WITH_CAMELLIA_128_CBC_SHA256''),
    (''ADH-CAMELLIA128-SHA256'', ''TLS_DH_anon_WITH_CAMELLIA_128_CBC_SHA256''),
    (''CAMELLIA256-SHA256'', ''TLS_RSA_WITH_CAMELLIA_256_CBC_SHA256''),
    (''DH-DSS-CAMELLIA256-SHA256'', ''TLS_DH_DSS_WITH_CAMELLIA_256_CBC_SHA256''),
    (''DH-RSA-CAMELLIA256-SHA256'', ''TLS_DH_RSA_WITH_CAMELLIA_256_CBC_SHA256''),
    (''DHE-DSS-CAMELLIA256-SHA256'', ''TLS_DHE_DSS_WITH_CAMELLIA_256_CBC_SHA256''),
    (''DHE-RSA-CAMELLIA256-SHA256'', ''TLS_DHE_RSA_WITH_CAMELLIA_256_CBC_SHA256''),
    (''ADH-CAMELLIA256-SHA256'', ''TLS_DH_anon_WITH_CAMELLIA_256_CBC_SHA256''),
    (''TLS_FALLBACK_SCSV'', ''TLS_FALLBACK_SCSV''),
    (''ECDH-ECDSA-NULL-SHA'', ''TLS_ECDH_ECDSA_WITH_NULL_SHA''),
    (''ECDH-ECDSA-RC4-SHA'', ''TLS_ECDH_ECDSA_WITH_RC4_128_SHA''),
    (''ECDH-ECDSA-DES-CBC3-SHA'', ''TLS_ECDH_ECDSA_WITH_3DES_EDE_CBC_SHA''),
    (''ECDH-ECDSA-AES128-SHA'', ''TLS_ECDH_ECDSA_WITH_AES_128_CBC_SHA''),
    (''ECDH-ECDSA-AES256-SHA'', ''TLS_ECDH_ECDSA_WITH_AES_256_CBC_SHA''),
    (''ECDHE-ECDSA-NULL-SHA'', ''TLS_ECDHE_ECDSA_WITH_NULL_SHA''),
    (''ECDHE-ECDSA-RC4-SHA'', ''TLS_ECDHE_ECDSA_WITH_RC4_128_SHA''),
    (''ECDHE-ECDSA-DES-CBC3-SHA'', ''TLS_ECDHE_ECDSA_WITH_3DES_EDE_CBC_SHA''),
    (''ECDHE-ECDSA-AES128-SHA'', ''TLS_ECDHE_ECDSA_WITH_AES_128_CBC_SHA''),
    (''ECDHE-ECDSA-AES256-SHA'', ''TLS_ECDHE_ECDSA_WITH_AES_256_CBC_SHA''),
    (''ECDH-RSA-NULL-SHA'', ''TLS_ECDH_RSA_WITH_NULL_SHA''),
    (''ECDH-RSA-RC4-SHA'', ''TLS_ECDH_RSA_WITH_RC4_128_SHA''),
    (''ECDH-RSA-DES-CBC3-SHA'', ''TLS_ECDH_RSA_WITH_3DES_EDE_CBC_SHA''),
    (''ECDH-RSA-AES128-SHA'', ''TLS_ECDH_RSA_WITH_AES_128_CBC_SHA''),
    (''ECDH-RSA-AES256-SHA'', ''TLS_ECDH_RSA_WITH_AES_256_CBC_SHA''),
    (''ECDHE-RSA-NULL-SHA'', ''TLS_ECDHE_RSA_WITH_NULL_SHA''),
    (''ECDHE-RSA-RC4-SHA'', ''TLS_ECDHE_RSA_WITH_RC4_128_SHA''),
    (''ECDHE-RSA-DES-CBC3-SHA'', ''TLS_ECDHE_RSA_WITH_3DES_EDE_CBC_SHA''),
    (''ECDHE-RSA-AES128-SHA'', ''TLS_ECDHE_RSA_WITH_AES_128_CBC_SHA''),
    (''ECDHE-RSA-AES256-SHA'', ''TLS_ECDHE_RSA_WITH_AES_256_CBC_SHA''),
    (''AECDH-NULL-SHA'', ''TLS_ECDH_anon_WITH_NULL_SHA''),
    (''AECDH-RC4-SHA'', ''TLS_ECDH_anon_WITH_RC4_128_SHA''),
    (''AECDH-DES-CBC3-SHA'', ''TLS_ECDH_anon_WITH_3DES_EDE_CBC_SHA''),
    (''AECDH-AES128-SHA'', ''TLS_ECDH_anon_WITH_AES_128_CBC_SHA''),
    (''AECDH-AES256-SHA'', ''TLS_ECDH_anon_WITH_AES_256_CBC_SHA''),
    (''SRP-3DES-EDE-CBC-SHA'', ''TLS_SRP_SHA_WITH_3DES_EDE_CBC_SHA''),
    (''SRP-RSA-3DES-EDE-CBC-SHA'', ''TLS_SRP_SHA_RSA_WITH_3DES_EDE_CBC_SHA''),
    (''SRP-DSS-3DES-EDE-CBC-SHA'', ''TLS_SRP_SHA_DSS_WITH_3DES_EDE_CBC_SHA''),
    (''SRP-AES-128-CBC-SHA'', ''TLS_SRP_SHA_WITH_AES_128_CBC_SHA''),
    (''SRP-RSA-AES-128-CBC-SHA'', ''TLS_SRP_SHA_RSA_WITH_AES_128_CBC_SHA''),
    (''SRP-DSS-AES-128-CBC-SHA'', ''TLS_SRP_SHA_DSS_WITH_AES_128_CBC_SHA''),
    (''SRP-AES-256-CBC-SHA'', ''TLS_SRP_SHA_WITH_AES_256_CBC_SHA''),
    (''SRP-RSA-AES-256-CBC-SHA'', ''TLS_SRP_SHA_RSA_WITH_AES_256_CBC_SHA''),
    (''SRP-DSS-AES-256-CBC-SHA'', ''TLS_SRP_SHA_DSS_WITH_AES_256_CBC_SHA''),
    (''ECDHE-ECDSA-AES128-SHA256'', ''TLS_ECDHE_ECDSA_WITH_AES_128_CBC_SHA256''),
    (''ECDHE-ECDSA-AES256-SHA384'', ''TLS_ECDHE_ECDSA_WITH_AES_256_CBC_SHA384''),
    (''ECDH-ECDSA-AES128-SHA256'', ''TLS_ECDH_ECDSA_WITH_AES_128_CBC_SHA256''),
    (''ECDH-ECDSA-AES256-SHA384'', ''TLS_ECDH_ECDSA_WITH_AES_256_CBC_SHA384''),
    (''ECDHE-RSA-AES128-SHA256'', ''TLS_ECDHE_RSA_WITH_AES_128_CBC_SHA256''),
    (''ECDHE-RSA-AES256-SHA384'', ''TLS_ECDHE_RSA_WITH_AES_256_CBC_SHA384''),
    (''ECDH-RSA-AES128-SHA256'', ''TLS_ECDH_RSA_WITH_AES_128_CBC_SHA256''),
    (''ECDH-RSA-AES256-SHA384'', ''TLS_ECDH_RSA_WITH_AES_256_CBC_SHA384''),
    (''ECDHE-ECDSA-AES128-GCM-SHA256'', ''TLS_ECDHE_ECDSA_WITH_AES_128_GCM_SHA256''),
    (''ECDHE-ECDSA-AES256-GCM-SHA384'', ''TLS_ECDHE_ECDSA_WITH_AES_256_GCM_SHA384''),
    (''ECDH-ECDSA-AES128-GCM-SHA256'', ''TLS_ECDH_ECDSA_WITH_AES_128_GCM_SHA256''),
    (''ECDH-ECDSA-AES256-GCM-SHA384'', ''TLS_ECDH_ECDSA_WITH_AES_256_GCM_SHA384''),
    (''ECDHE-RSA-AES128-GCM-SHA256'', ''TLS_ECDHE_RSA_WITH_AES_128_GCM_SHA256''),
    (''ECDHE-RSA-AES256-GCM-SHA384'', ''TLS_ECDHE_RSA_WITH_AES_256_GCM_SHA384''),
    (''ECDH-RSA-AES128-GCM-SHA256'', ''TLS_ECDH_RSA_WITH_AES_128_GCM_SHA256''),
    (''ECDH-RSA-AES256-GCM-SHA384'', ''TLS_ECDH_RSA_WITH_AES_256_GCM_SHA384''),
    (''ECDHE-ECDSA-CAMELLIA128-SHA256'', ''TLS_ECDHE_ECDSA_WITH_CAMELLIA_128_CBC_SHA256''),
    (''ECDHE-ECDSA-CAMELLIA256-SHA384'', ''TLS_ECDHE_ECDSA_WITH_CAMELLIA_256_CBC_SHA384''),
    (''ECDH-ECDSA-CAMELLIA128-SHA256'', ''TLS_ECDH_ECDSA_WITH_CAMELLIA_128_CBC_SHA256''),
    (''ECDH-ECDSA-CAMELLIA256-SHA384'', ''TLS_ECDH_ECDSA_WITH_CAMELLIA_256_CBC_SHA384''),
    (''ECDHE-RSA-CAMELLIA128-SHA256'', ''TLS_ECDHE_RSA_WITH_CAMELLIA_128_CBC_SHA256''),
    (''ECDHE-RSA-CAMELLIA256-SHA384'', ''TLS_ECDHE_RSA_WITH_CAMELLIA_256_CBC_SHA384''),
    (''ECDH-RSA-CAMELLIA128-SHA256'', ''TLS_ECDH_RSA_WITH_CAMELLIA_128_CBC_SHA256''),
    (''ECDH-RSA-CAMELLIA256-SHA384'', ''TLS_ECDH_RSA_WITH_CAMELLIA_256_CBC_SHA384''),
    (''ECDHE-RSA-CHACHA20-POLY1305'', ''TLS_ECDHE_RSA_WITH_CHACHA20_POLY1305_SHA256''),
    (''ECDHE-ECDSA-CHACHA20-POLY1305'', ''TLS_ECDHE_ECDSA_WITH_CHACHA20_POLY1305_SHA256''),
    (''DHE-RSA-CHACHA20-POLY1305'', ''TLS_DHE_RSA_WITH_CHACHA20_POLY1305_SHA256''),
    (''ECDHE-RSA-CHACHA20-POLY1305-OLD'', ''OLD_TLS_ECDHE_RSA_WITH_CHACHA20_POLY1305_SHA256''),
    (''ECDHE-ECDSA-CHACHA20-POLY1305-OLD'', ''OLD_TLS_ECDHE_ECDSA_WITH_CHACHA20_POLY1305_SHA256''),
    (''DHE-RSA-CHACHA20-POLY1305-OLD'', ''OLD_TLS_DHE_RSA_WITH_CHACHA20_POLY1305_SHA256''),
    (''DHE-RSA-DES-CBC3-SHA'', ''TLS_DHE_RSA_WITH_3DES_EDE_CBC_SHA''),
    (''DHE-DSS-DES-CBC3-SHA'', ''TLS_DHE_DSS_WITH_3DES_EDE_CBC_SHA''),
    (''AES128-CCM'', ''TLS_RSA_WITH_AES_128_CCM''),
    (''AES256-CCM'', ''TLS_RSA_WITH_AES_256_CCM''),
    (''DHE-RSA-AES128-CCM'', ''TLS_DHE_RSA_WITH_AES_128_CCM''),
    (''DHE-RSA-AES256-CCM'', ''TLS_DHE_RSA_WITH_AES_256_CCM''),
    (''AES128-CCM8'', ''TLS_RSA_WITH_AES_128_CCM_8''),
    (''AES256-CCM8'', ''TLS_RSA_WITH_AES_256_CCM_8''),
    (''DHE-RSA-AES128-CCM8'', ''TLS_DHE_RSA_WITH_AES_128_CCM_8''),
    (''DHE-RSA-AES256-CCM8'', ''TLS_DHE_RSA_WITH_AES_256_CCM_8''),
    (''ECDHE-ECDSA-AES128-CCM'', ''TLS_ECDHE_ECDSA_WITH_AES_128_CCM''),
    (''ECDHE-ECDSA-AES256-CCM'', ''TLS_ECDHE_ECDSA_WITH_AES_256_CCM''),
    (''ECDHE-ECDSA-AES128-CCM8'', ''TLS_ECDHE_ECDSA_WITH_AES_128_CCM_8''),
    (''ECDHE-ECDSA-AES256-CCM8'', ''TLS_ECDHE_ECDSA_WITH_AES_256_CCM_8''),
    (''ARIA128-GCM-SHA256'', ''TLS_RSA_WITH_ARIA_128_GCM_SHA256''),
    (''ARIA256-GCM-SHA384'', ''TLS_RSA_WITH_ARIA_256_GCM_SHA384''),
    (''DHE-DSS-ARIA128-GCM-SHA256'', ''TLS_DHE_DSS_WITH_ARIA_128_GCM_SHA256''),
    (''DHE-DSS-ARIA256-GCM-SHA384'', ''TLS_DHE_DSS_WITH_ARIA_256_GCM_SHA384''),
    (''DHE-PSK-3DES-EDE-CBC-SHA'', ''TLS_DHE_PSK_WITH_3DES_EDE_CBC_SHA''),
    (''DHE-PSK-AES128-CBC-SHA'', ''TLS_DHE_PSK_WITH_AES_128_CBC_SHA''),
    (''DHE-PSK-AES128-CBC-SHA256'', ''TLS_DHE_PSK_WITH_AES_128_CBC_SHA256''),
    (''DHE-PSK-AES128-CCM'', ''TLS_DHE_PSK_WITH_AES_128_CCM''),
    (''DHE-PSK-AES128-CCM8'', ''TLS_PSK_DHE_WITH_AES_128_CCM_8''),
    (''DHE-PSK-AES128-GCM-SHA256'', ''TLS_DHE_PSK_WITH_AES_128_GCM_SHA256''),
    (''DHE-PSK-AES256-CBC-SHA'', ''TLS_DHE_PSK_WITH_AES_256_CBC_SHA''),
    (''DHE-PSK-AES256-CBC-SHA384'', ''TLS_DHE_PSK_WITH_AES_256_CBC_SHA384''),
    (''DHE-PSK-AES256-CCM'', ''TLS_DHE_PSK_WITH_AES_256_CCM''),
    (''DHE-PSK-AES256-CCM8'', ''TLS_PSK_DHE_WITH_AES_256_CCM_8''),
    (''DHE-PSK-AES256-GCM-SHA384'', ''TLS_DHE_PSK_WITH_AES_256_GCM_SHA384''),
    (''DHE-PSK-ARIA128-GCM-SHA256'', ''TLS_DHE_PSK_WITH_ARIA_128_GCM_SHA256''),
    (''DHE-PSK-ARIA256-GCM-SHA384'', ''TLS_DHE_PSK_WITH_ARIA_256_GCM_SHA384''),
    (''DHE-PSK-CAMELLIA128-SHA256'', ''TLS_DHE_PSK_WITH_CAMELLIA_128_CBC_SHA256''),
    (''DHE-PSK-CAMELLIA256-SHA384'', ''TLS_DHE_PSK_WITH_CAMELLIA_256_CBC_SHA384''),
    (''DHE-PSK-CHACHA20-POLY1305'', ''TLS_DHE_PSK_WITH_CHACHA20_POLY1305_SHA256''),
    (''DHE-PSK-NULL-SHA'', ''TLS_DHE_PSK_WITH_NULL_SHA''),
    (''DHE-PSK-NULL-SHA256'', ''TLS_DHE_PSK_WITH_NULL_SHA256''),
    (''DHE-PSK-NULL-SHA384'', ''TLS_DHE_PSK_WITH_NULL_SHA384''),
    (''DHE-PSK-RC4-SHA'', ''TLS_DHE_PSK_WITH_RC4_128_SHA''),
    (''DHE-RSA-ARIA128-GCM-SHA256'', ''TLS_DHE_RSA_WITH_ARIA_128_GCM_SHA256''),
    (''DHE-RSA-ARIA256-GCM-SHA384'', ''TLS_DHE_RSA_WITH_ARIA_256_GCM_SHA384''),
    (''ECDHE-ARIA128-GCM-SHA256'', ''TLS_ECDHE_RSA_WITH_ARIA_128_GCM_SHA256''),
    (''ECDHE-ARIA256-GCM-SHA384'', ''TLS_ECDHE_RSA_WITH_ARIA_256_GCM_SHA384''),
    (''ECDHE-ECDSA-ARIA128-GCM-SHA256'', ''TLS_ECDHE_ECDSA_WITH_ARIA_128_GCM_SHA256''),
    (''ECDHE-ECDSA-ARIA256-GCM-SHA384'', ''TLS_ECDHE_ECDSA_WITH_ARIA_256_GCM_SHA384''),
    (''ECDHE-PSK-3DES-EDE-CBC-SHA'', ''TLS_ECDHE_PSK_WITH_3DES_EDE_CBC_SHA''),
    (''ECDHE-PSK-AES128-CBC-SHA'', ''TLS_ECDHE_PSK_WITH_AES_128_CBC_SHA''),
    (''ECDHE-PSK-AES128-CBC-SHA256'', ''TLS_ECDHE_PSK_WITH_AES_128_CBC_SHA256''),
    (''ECDHE-PSK-AES256-CBC-SHA'', ''TLS_ECDHE_PSK_WITH_AES_256_CBC_SHA''),
    (''ECDHE-PSK-AES256-CBC-SHA384'', ''TLS_ECDHE_PSK_WITH_AES_256_CBC_SHA384''),
    (''ECDHE-PSK-CAMELLIA128-SHA256'', ''TLS_ECDHE_PSK_WITH_CAMELLIA_128_CBC_SHA256''),
    (''ECDHE-PSK-CAMELLIA256-SHA384'', ''TLS_ECDHE_PSK_WITH_CAMELLIA_256_CBC_SHA384''),
    (''ECDHE-PSK-CHACHA20-POLY1305'', ''TLS_ECDHE_PSK_WITH_CHACHA20_POLY1305_SHA256''),
    (''ECDHE-PSK-NULL-SHA'', ''TLS_ECDHE_PSK_WITH_NULL_SHA''),
    (''ECDHE-PSK-NULL-SHA256'', ''TLS_ECDHE_PSK_WITH_NULL_SHA256''),
    (''ECDHE-PSK-NULL-SHA384'', ''TLS_ECDHE_PSK_WITH_NULL_SHA384''),
    (''ECDHE-PSK-RC4-SHA'', ''TLS_ECDHE_PSK_WITH_RC4_128_SHA''),
    (''GOST2001-NULL-GOST94'', ''TLS_GOSTR341001_WITH_NULL_GOSTR3411''),
    (''GOST94-NULL-GOST94'', ''TLS_GOSTR341094_WITH_NULL_GOSTR3411''),
    (''PSK-AES128-CBC-SHA256'', ''TLS_PSK_WITH_AES_128_CBC_SHA256''),
    (''PSK-AES128-CCM'', ''TLS_PSK_WITH_AES_128_CCM''),
    (''PSK-AES128-CCM8'', ''TLS_PSK_WITH_AES_128_CCM_8''),
    (''PSK-AES128-GCM-SHA256'', ''TLS_PSK_WITH_AES_128_GCM_SHA256''),
    (''PSK-AES256-CBC-SHA384'', ''TLS_PSK_WITH_AES_256_CBC_SHA384''),
    (''PSK-AES256-CCM'', ''TLS_PSK_WITH_AES_256_CCM''),
    (''PSK-AES256-CCM8'', ''TLS_PSK_WITH_AES_256_CCM_8''),
    (''PSK-AES256-GCM-SHA384'', ''TLS_PSK_WITH_AES_256_GCM_SHA384''),
    (''PSK-ARIA128-GCM-SHA256'', ''TLS_PSK_WITH_ARIA_128_GCM_SHA256''),
    (''PSK-ARIA256-GCM-SHA384'', ''TLS_PSK_WITH_ARIA_256_GCM_SHA384''),
    (''PSK-CAMELLIA128-SHA256'', ''TLS_PSK_WITH_CAMELLIA_128_CBC_SHA256''),
    (''PSK-CAMELLIA256-SHA384'', ''TLS_PSK_WITH_CAMELLIA_256_CBC_SHA384''),
    (''PSK-CHACHA20-POLY1305'', ''TLS_PSK_WITH_CHACHA20_POLY1305_SHA256''),
    (''PSK-NULL-SHA'', ''TLS_PSK_WITH_NULL_SHA''),
    (''PSK-NULL-SHA256'', ''TLS_PSK_WITH_NULL_SHA256''),
    (''PSK-NULL-SHA384'', ''TLS_PSK_WITH_NULL_SHA384''),
    (''RSA-PSK-AES128-CBC-SHA256'', ''TLS_RSA_PSK_WITH_AES_128_CBC_SHA256''),
    (''RSA-PSK-AES128-GCM-SHA256'', ''TLS_RSA_PSK_WITH_AES_128_GCM_SHA256''),
    (''RSA-PSK-AES256-CBC-SHA384'', ''TLS_RSA_PSK_WITH_AES_256_CBC_SHA384''),
    (''RSA-PSK-AES256-GCM-SHA384'', ''TLS_RSA_PSK_WITH_AES_256_GCM_SHA384''),
    (''RSA-PSK-ARIA128-GCM-SHA256'', ''TLS_RSA_PSK_WITH_ARIA_128_GCM_SHA256''),
    (''RSA-PSK-ARIA256-GCM-SHA384'', ''TLS_RSA_PSK_WITH_ARIA_256_GCM_SHA384''),
    (''RSA-PSK-CAMELLIA128-SHA256'', ''TLS_RSA_PSK_WITH_CAMELLIA_128_CBC_SHA256''),
    (''RSA-PSK-CAMELLIA256-SHA384'', ''TLS_RSA_PSK_WITH_CAMELLIA_256_CBC_SHA384''),
    (''RSA-PSK-CHACHA20-POLY1305'', ''TLS_RSA_PSK_WITH_CHACHA20_POLY1305_SHA256''),
    (''RSA-PSK-NULL-SHA'', ''TLS_RSA_PSK_WITH_NULL_SHA''),
    (''RSA-PSK-NULL-SHA256'', ''TLS_RSA_PSK_WITH_NULL_SHA256''),
    (''RSA-PSK-NULL-SHA384'', ''TLS_RSA_PSK_WITH_NULL_SHA384'')
  ]"

definition RFC_NAME_TO_KEY_SIZE_MAPPING :: "(string \<times> int) list" where
  "RFC_NAME_TO_KEY_SIZE_MAPPING = [
    (''TLS_RSA_WITH_NULL_MD5'', 0),
    (''TLS_RSA_WITH_NULL_SHA'', 0),
    (''TLS_RSA_WITH_AES_128_CBC_SHA'', 128),
    (''TLS_DHE_DSS_WITH_AES_128_CBC_SHA'', 128),
    (''TLS_DHE_RSA_WITH_AES_128_CBC_SHA'', 128),
    (''TLS_DH_anon_WITH_AES_128_CBC_SHA'', 128),
    (''TLS_RSA_WITH_AES_256_CBC_SHA'', 256),
    (''TLS_DHE_DSS_WITH_AES_256_CBC_SHA'', 256),
    (''TLS_DHE_RSA_WITH_AES_256_CBC_SHA'', 256),
    (''TLS_DH_anon_WITH_AES_256_CBC_SHA'', 256),
    (''TLS_RSA_WITH_NULL_SHA256'', 0),
    (''TLS_RSA_WITH_AES_128_CBC_SHA256'', 128),
    (''TLS_RSA_WITH_AES_256_CBC_SHA256'', 256),
    (''TLS_DHE_DSS_WITH_AES_128_CBC_SHA256'', 128),
    (''TLS_RSA_WITH_CAMELLIA_128_CBC_SHA'', 128),
    (''TLS_DHE_DSS_WITH_CAMELLIA_128_CBC_SHA'', 128),
    (''TLS_DHE_RSA_WITH_CAMELLIA_128_CBC_SHA'', 128),
    (''TLS_DH_anon_WITH_CAMELLIA_128_CBC_SHA'', 128),
    (''TLS_DHE_RSA_WITH_AES_128_CBC_SHA256'', 128),
    (''TLS_DHE_DSS_WITH_AES_256_CBC_SHA256'', 256),
    (''TLS_DHE_RSA_WITH_AES_256_CBC_SHA256'', 256),
    (''TLS_DH_anon_WITH_AES_128_CBC_SHA256'', 128),
    (''TLS_DH_anon_WITH_AES_256_CBC_SHA256'', 256),
    (''TLS_RSA_WITH_CAMELLIA_256_CBC_SHA'', 256),
    (''TLS_DHE_DSS_WITH_CAMELLIA_256_CBC_SHA'', 256),
    (''TLS_DHE_RSA_WITH_CAMELLIA_256_CBC_SHA'', 256),
    (''TLS_DH_anon_WITH_CAMELLIA_256_CBC_SHA'', 256),
    (''TLS_PSK_WITH_AES_128_CBC_SHA'', 128),
    (''TLS_PSK_WITH_AES_256_CBC_SHA'', 256),
    (''TLS_RSA_PSK_WITH_AES_128_CBC_SHA'', 128),
    (''TLS_RSA_PSK_WITH_AES_256_CBC_SHA'', 256),
    (''TLS_RSA_WITH_SEED_CBC_SHA'', 128),
    (''TLS_DHE_DSS_WITH_SEED_CBC_SHA'', 128),
    (''TLS_DHE_RSA_WITH_SEED_CBC_SHA'', 128),
    (''TLS_DH_anon_WITH_SEED_CBC_SHA'', 128),
    (''TLS_RSA_WITH_AES_128_GCM_SHA256'', 128),
    (''TLS_RSA_WITH_AES_256_GCM_SHA384'', 256),
    (''TLS_DHE_RSA_WITH_AES_128_GCM_SHA256'', 128),
    (''TLS_DHE_RSA_WITH_AES_256_GCM_SHA384'', 256),
    (''TLS_DHE_DSS_WITH_AES_128_GCM_SHA256'', 128),
    (''TLS_DHE_DSS_WITH_AES_256_GCM_SHA384'', 256),
    (''TLS_DH_anon_WITH_AES_128_GCM_SHA256'', 128),
    (''TLS_DH_anon_WITH_AES_256_GCM_SHA384'', 256),
    (''TLS_RSA_WITH_CAMELLIA_128_CBC_SHA256'', 128),
    (''TLS_DHE_DSS_WITH_CAMELLIA_128_CBC_SHA256'', 128),
    (''TLS_DHE_RSA_WITH_CAMELLIA_128_CBC_SHA256'', 128),
    (''TLS_DH_anon_WITH_CAMELLIA_128_CBC_SHA256'', 128),
    (''TLS_RSA_WITH_CAMELLIA_256_CBC_SHA256'', 256),
    (''TLS_DHE_DSS_WITH_CAMELLIA_256_CBC_SHA256'', 256),
    (''TLS_DHE_RSA_WITH_CAMELLIA_256_CBC_SHA256'', 256),
    (''TLS_DH_anon_WITH_CAMELLIA_256_CBC_SHA256'', 256),
    (''TLS_ECDHE_ECDSA_WITH_NULL_SHA'', 0),
    (''TLS_ECDHE_ECDSA_WITH_AES_128_CBC_SHA'', 128),
    (''TLS_ECDHE_ECDSA_WITH_AES_256_CBC_SHA'', 256),
    (''TLS_ECDHE_RSA_WITH_NULL_SHA'', 0),
    (''TLS_ECDHE_RSA_WITH_AES_128_CBC_SHA'', 128),
    (''TLS_ECDHE_RSA_WITH_AES_256_CBC_SHA'', 256),
    (''TLS_ECDH_anon_WITH_NULL_SHA'', 0),
    (''TLS_ECDH_anon_WITH_AES_128_CBC_SHA'', 128),
    (''TLS_ECDH_anon_WITH_AES_256_CBC_SHA'', 256),
    (''TLS_SRP_SHA_WITH_AES_128_CBC_SHA'', 128),
    (''TLS_SRP_SHA_RSA_WITH_AES_128_CBC_SHA'', 128),
    (''TLS_SRP_SHA_DSS_WITH_AES_128_CBC_SHA'', 128),
    (''TLS_SRP_SHA_WITH_AES_256_CBC_SHA'', 256),
    (''TLS_SRP_SHA_RSA_WITH_AES_256_CBC_SHA'', 256),
    (''TLS_SRP_SHA_DSS_WITH_AES_256_CBC_SHA'', 256),
    (''TLS_ECDHE_ECDSA_WITH_AES_128_CBC_SHA256'', 128),
    (''TLS_ECDHE_ECDSA_WITH_AES_256_CBC_SHA384'', 256),
    (''TLS_ECDHE_RSA_WITH_AES_128_CBC_SHA256'', 128),
    (''TLS_ECDHE_RSA_WITH_AES_256_CBC_SHA384'', 256),
    (''TLS_ECDHE_ECDSA_WITH_AES_128_GCM_SHA256'', 128),
    (''TLS_ECDHE_ECDSA_WITH_AES_256_GCM_SHA384'', 256),
    (''TLS_ECDHE_RSA_WITH_AES_128_GCM_SHA256'', 128),
    (''TLS_ECDHE_RSA_WITH_AES_256_GCM_SHA384'', 256),
    (''TLS_ECDHE_ECDSA_WITH_CAMELLIA_128_CBC_SHA256'', 128),
    (''TLS_ECDHE_ECDSA_WITH_CAMELLIA_256_CBC_SHA384'', 256),
    (''TLS_ECDHE_RSA_WITH_CAMELLIA_128_CBC_SHA256'', 128),
    (''TLS_ECDHE_RSA_WITH_CAMELLIA_256_CBC_SHA384'', 256),
    (''TLS_ECDHE_RSA_WITH_CHACHA20_POLY1305_SHA256'', 256),
    (''TLS_ECDHE_ECDSA_WITH_CHACHA20_POLY1305_SHA256'', 256),
    (''TLS_DHE_RSA_WITH_CHACHA20_POLY1305_SHA256'', 256),
    (''RSA_WITH_AES_128_CCM'', 128),
    (''RSA_WITH_AES_256_CCM'', 256),
    (''DHE_RSA_WITH_AES_128_CCM'', 128),
    (''TLS_DHE_RSA_WITH_AES_256_CCM'', 256),
    (''RSA_WITH_AES_128_CCM_8'', 128),
    (''RSA_WITH_AES_256_CCM_8'', 256),
    (''DHE_RSA_WITH_AES_128_CCM_8'', 128),
    (''DHE_RSA_WITH_AES_256_CCM_8'', 256),
    (''ECDHE_ECDSA_WITH_AES_128_CCM'', 128),
    (''ECDHE_ECDSA_WITH_AES_256_CCM'', 256),
    (''ECDHE_ECDSA_WITH_AES_128_CCM_8'', 128),
    (''ECDHE_ECDSA_WITH_AES_256_CCM_8'', 256),
    (''TLS_RSA_WITH_RC4_128_SHA'', 128),
    (''TLS_RSA_WITH_IDEA_CBC_SHA'', 128),
    (''TLS_RSA_EXPORT_WITH_DES40_CBC_SHA'', 40),
    (''TLS_RSA_WITH_DES_CBC_SHA'', 56),
    (''TLS_RSA_WITH_3DES_EDE_CBC_SHA'', 168),
    (''TLS_DH_DSS_WITH_DES_CBC_SHA'', 56),
    (''TLS_DH_DSS_WITH_3DES_EDE_CBC_SHA'', 168),
    (''TLS_DH_RSA_WITH_DES_CBC_SHA'', 56),
    (''TLS_DH_RSA_WITH_3DES_EDE_CBC_SHA'', 168),
    (''TLS_DHE_DSS_EXPORT_WITH_DES40_CBC_SHA'', 40),
    (''TLS_DHE_DSS_WITH_DES_CBC_SHA'', 56),
    (''TLS_DHE_DSS_WITH_3DES_EDE_CBC_SHA'', 168),
    (''TLS_DHE_RSA_EXPORT_WITH_DES40_CBC_SHA'', 40),
    (''TLS_DHE_RSA_WITH_DES_CBC_SHA'', 56),
    (''TLS_DHE_RSA_WITH_3DES_EDE_CBC_SHA'', 168),
    (''TLS_DH_anon_EXPORT_WITH_RC4_40_MD5'', 40),
    (''TLS_DH_anon_WITH_RC4_128_MD5'', 128),
    (''TLS_DH_anon_EXPORT_WITH_DES40_CBC_SHA'', 40),
    (''TLS_DH_anon_WITH_DES_CBC_SHA'', 56),
    (''TLS_DH_anon_WITH_3DES_EDE_CBC_SHA'', 168),
    (''TLS_DH_DSS_WITH_AES_128_CBC_SHA'', 128),
    (''TLS_DH_RSA_WITH_AES_128_CBC_SHA'', 128),
    (''TLS_DH_DSS_WITH_AES_256_CBC_SHA'', 256),
    (''TLS_DH_RSA_WITH_AES_256_CBC_SHA'', 256),
    (''TLS_DH_DSS_WITH_AES_128_CBC_SHA256'', 128),
    (''TLS_DH_RSA_WITH_AES_128_CBC_SHA256'', 128),
    (''TLS_DH_DSS_WITH_CAMELLIA_128_CBC_SHA'', 128),
    (''TLS_DH_RSA_WITH_CAMELLIA_128_CBC_SHA'', 128),
    (''TLS_DH_DSS_WITH_AES_256_CBC_SHA256'', 256),
    (''TLS_DH_RSA_WITH_AES_256_CBC_SHA256'', 256),
    (''TLS_DH_DSS_WITH_CAMELLIA_256_CBC_SHA'', 256),
    (''TLS_DH_RSA_WITH_CAMELLIA_256_CBC_SHA'', 256),
    (''TLS_PSK_WITH_RC4_128_SHA'', 128),
    (''TLS_PSK_WITH_3DES_EDE_CBC_SHA'', 168),
    (''TLS_DH_DSS_WITH_SEED_CBC_SHA'', 128),
    (''TLS_DH_RSA_WITH_SEED_CBC_SHA'', 128),
    (''TLS_DH_RSA_WITH_AES_128_GCM_SHA256'', 128),
    (''TLS_DH_RSA_WITH_AES_256_GCM_SHA384'', 256),
    (''TLS_DH_DSS_WITH_AES_128_GCM_SHA256'', 128),
    (''TLS_DH_DSS_WITH_AES_256_GCM_SHA384'', 256),
    (''TLS_ECDH_ECDSA_WITH_NULL_SHA'', 0),
    (''TLS_ECDH_ECDSA_WITH_RC4_128_SHA'', 128),
    (''TLS_ECDH_ECDSA_WITH_3DES_EDE_CBC_SHA'', 168),
    (''TLS_ECDH_ECDSA_WITH_AES_128_CBC_SHA'', 128),
    (''TLS_ECDH_ECDSA_WITH_AES_256_CBC_SHA'', 256),
    (''TLS_ECDHE_ECDSA_WITH_RC4_128_SHA'', 128),
    (''TLS_ECDHE_ECDSA_WITH_3DES_EDE_CBC_SHA'', 168),
    (''TLS_ECDH_RSA_WITH_NULL_SHA'', 0),
    (''TLS_ECDH_RSA_WITH_RC4_128_SHA'', 128),
    (''TLS_ECDH_RSA_WITH_3DES_EDE_CBC_SHA'', 168),
    (''TLS_ECDH_RSA_WITH_AES_128_CBC_SHA'', 128),
    (''TLS_ECDH_RSA_WITH_AES_256_CBC_SHA'', 256),
    (''TLS_ECDHE_RSA_WITH_RC4_128_SHA'', 128),
    (''TLS_ECDHE_RSA_WITH_3DES_EDE_CBC_SHA'', 168),
    (''TLS_ECDH_anon_WITH_RC4_128_SHA'', 128),
    (''TLS_ECDH_anon_WITH_3DES_EDE_CBC_SHA'', 168),
    (''TLS_SRP_SHA_WITH_3DES_EDE_CBC_SHA'', 168),
    (''TLS_SRP_SHA_RSA_WITH_3DES_EDE_CBC_SHA'', 168),
    (''TLS_SRP_SHA_DSS_WITH_3DES_EDE_CBC_SHA'', 168),
    (''TLS_ECDH_ECDSA_WITH_AES_128_CBC_SHA256'', 128),
    (''TLS_ECDH_ECDSA_WITH_AES_256_CBC_SHA384'', 256),
    (''TLS_ECDH_RSA_WITH_AES_128_CBC_SHA256'', 128),
    (''TLS_ECDH_RSA_WITH_AES_256_CBC_SHA384'', 256),
    (''TLS_ECDH_ECDSA_WITH_AES_128_GCM_SHA256'', 128),
    (''TLS_ECDH_ECDSA_WITH_AES_256_GCM_SHA384'', 256),
    (''TLS_ECDH_RSA_WITH_AES_128_GCM_SHA256'', 128),
    (''TLS_ECDH_RSA_WITH_AES_256_GCM_SHA384'', 256),
    (''TLS_RSA_EXPORT_WITH_RC4_40_MD5'', 40),
    (''TLS_RSA_WITH_RC4_128_MD5'', 128),
    (''TLS_RSA_EXPORT_WITH_RC2_CBC_40_MD5'', 40),
    (''TLS_DH_DSS_EXPORT_WITH_DES40_CBC_SHA'', 40),
    (''TLS_DH_RSA_EXPORT_WITH_DES40_CBC_SHA'', 40),
    (''TLS_KRB5_WITH_RC4_128_SHA'', 128),
    (''TLS_KRB5_WITH_RC4_128_MD5'', 128),
    (''TLS_KRB5_EXPORT_WITH_DES_CBC_40_SHA'', 40),
    (''TLS_KRB5_EXPORT_WITH_RC2_CBC_40_SHA'', 40),
    (''TLS_KRB5_EXPORT_WITH_RC4_40_SHA'', 40),
    (''TLS_KRB5_EXPORT_WITH_DES_CBC_40_MD5'', 40),
    (''TLS_KRB5_EXPORT_WITH_RC2_CBC_40_MD5'', 40),
    (''TLS_KRB5_EXPORT_WITH_RC4_40_MD5'', 40),
    (''TLS_RSA_EXPORT1024_WITH_RC4_56_SHA'', 56),
    (''TLS_RSA_EXPORT1024_WITH_RC4_56_MD5'', 56),
    (''TLS_RSA_EXPORT1024_WITH_RC2_CBC_56_MD5'', 56),
    (''TLS_DHE_DSS_EXPORT1024_WITH_RC4_56_SHA'', 56),
    (''TLS_DHE_DSS_WITH_RC4_128_SHA'', 128),
    (''TLS_RSA_PSK_WITH_RC4_128_SHA'', 128),
    (''TLS_DH_DSS_WITH_CAMELLIA_128_CBC_SHA256'', 128),
    (''TLS_DH_RSA_WITH_CAMELLIA_128_CBC_SHA256'', 128),
    (''TLS_DH_DSS_WITH_CAMELLIA_256_CBC_SHA256'', 256),
    (''TLS_DH_RSA_WITH_CAMELLIA_256_CBC_SHA256'', 256),
    (''TLS_ECDH_ECDSA_WITH_CAMELLIA_128_CBC_SHA256'', 128),
    (''TLS_ECDH_ECDSA_WITH_CAMELLIA_256_CBC_SHA384'', 256),
    (''TLS_ECDH_RSA_WITH_CAMELLIA_128_CBC_SHA256'', 128),
    (''TLS_ECDH_RSA_WITH_CAMELLIA_256_CBC_SHA384'', 256),
    (''OLD_TLS_ECDHE_RSA_WITH_CHACHA20_POLY1305_SHA256'', 256),
    (''OLD_TLS_ECDHE_ECDSA_WITH_CHACHA20_POLY1305_SHA256'', 256),
    (''OLD_TLS_DHE_RSA_WITH_CHACHA20_POLY1305_SHA256'', 256),
    (''TLS_KRB5_WITH_DES_CBC_SHA'', 56),
    (''TLS_KRB5_WITH_3DES_EDE_CBC_SHA'', 168),
    (''TLS_KRB5_WITH_IDEA_CBC_SHA'', 128),
    (''TLS_KRB5_WITH_DES_CBC_MD5'', 56),
    (''TLS_KRB5_WITH_3DES_EDE_CBC_MD5'', 168),
    (''TLS_KRB5_WITH_IDEA_CBC_MD5'', 128),
    (''TLS_RSA_EXPORT1024_WITH_DES_CBC_SHA'', 56),
    (''TLS_DHE_DSS_EXPORT1024_WITH_DES_CBC_SHA'', 56),
    (''TLS_GOSTR341094_WITH_28147_CNT_IMIT'', 256),
    (''TLS_GOSTR341001_WITH_28147_CNT_IMIT'', 256),
    (''TLS_RSA_PSK_WITH_3DES_EDE_CBC_SHA'', 168),
    (''TLS_AES_256_GCM_SHA384'', 256),
    (''TLS_CHACHA20_POLY1305_SHA256'', 256),
    (''TLS_AES_128_GCM_SHA256'', 128),
    (''TLS_ECDHE_ECDSA_WITH_ARIA_256_GCM_SHA384'', 256),
    (''TLS_ECDHE_RSA_WITH_ARIA_256_GCM_SHA384'', 256),
    (''TLS_DHE_DSS_WITH_ARIA_256_GCM_SHA384'', 256),
    (''TLS_DHE_RSA_WITH_ARIA_256_GCM_SHA384'', 256),
    (''TLS_ECDHE_ECDSA_WITH_ARIA_128_GCM_SHA256'', 128),
    (''TLS_ECDHE_RSA_WITH_ARIA_128_GCM_SHA256'', 128),
    (''TLS_DHE_DSS_WITH_ARIA_128_GCM_SHA256'', 128),
    (''TLS_DHE_RSA_WITH_ARIA_128_GCM_SHA256'', 256),
    (''TLS_RSA_WITH_ARIA_256_GCM_SHA384'', 256),
    (''TLS_RSA_WITH_ARIA_128_GCM_SHA256'', 128),
    (''TLS_RSA_WITH_AES_256_CCM'', 256),
    (''TLS_ECDHE_ECDSA_WITH_AES_128_CCM'', 128),
    (''TLS_DHE_RSA_WITH_AES_128_CCM'', 128),
    (''TLS_RSA_WITH_AES_128_CCM'', 128),
    (''TLS_RSA_WITH_AES_256_CCM_8'', 128),
    (''TLS_ECDHE_ECDSA_WITH_AES_256_CCM'', 256),
    (''TLS_ECDHE_ECDSA_WITH_AES_256_CCM_8'', 256),
    (''TLS_DHE_RSA_WITH_AES_128_CCM_8'', 128),
    (''TLS_DHE_RSA_WITH_AES_256_CCM_8'', 256),
    (''TLS_RSA_WITH_AES_128_CCM_8'', 128),
    (''TLS_ECDHE_ECDSA_WITH_AES_128_CCM_8'', 128),
    (''TLS_AES_128_CCM_8_SHA256'', 128),
    (''TLS_AES_128_CCM_SHA256'', 128),
    (''SSL_CK_RC4_128_WITH_MD5'', 128),
    (''SSL_CK_RC4_128_EXPORT40_WITH_MD5'', 40),
    (''SSL_CK_RC2_128_CBC_WITH_MD5'', 128),
    (''SSL_CK_RC2_128_CBC_EXPORT40_WITH_MD5'', 40),
    (''SSL_CK_IDEA_128_CBC_WITH_MD5'', 128),
    (''SSL_CK_DES_64_CBC_WITH_MD5'', 56),
    (''SSL_CK_DES_192_EDE3_CBC_WITH_MD5'', 168),
    (''SSL_CK_RC4_64_WITH_MD5'', 64)
  ]"

definition TLS_1_3_CIPHER_SUITES :: "string list" where
  "TLS_1_3_CIPHER_SUITES = [
    ''TLS_AES_128_GCM_SHA256'',
    ''TLS_AES_128_CCM_SHA256'',
    ''TLS_AES_256_GCM_SHA384'',
    ''TLS_AES_128_CCM_8_SHA256'',
    ''TLS_CHACHA20_POLY1305_SHA256''
  ]"

text \<open>\<^verbatim>\<open>_OPENSSL_TO_RFC_NAMES_MAPPING\<close> (lines 313-319): TLS 1.3 has no entry.\<close>

definition OPENSSL_TO_RFC_NAMES_MAPPING :: "(TlsVersionEnum \<times> (string \<times> string) list) list" where
  "OPENSSL_TO_RFC_NAMES_MAPPING = [
    (SSL_2_0, SSLV2_OPENSSL_TO_RFC_NAMES_MAPPING),
    (SSL_3_0, TLS_OPENSSL_TO_RFC_NAMES_MAPPING),
    (TLS_1_0, TLS_OPENSSL_TO_RFC_NAMES_MAPPING),
    (TLS_1_1, TLS_OPENSSL_TO_RFC_NAMES_MAPPING),
    (TLS_1_2, TLS_OPENSSL_TO_RFC_NAMES_MAPPING)
  ]"

section \<open>Translation of one native name\<close>

text \<open>
  The body of the two translation loops (lines 590-598 and 615-623, the same text up to
  the version): look the OpenSSL name up in the version's table, then build the record;
  the keyword arguments are evaluated in order, so the key-size subscript comes last.
\<close>

definition translate :: "TlsVersionEnum \<Rightarrow> string \<Rightarrow> error + CipherSuite" where
  "translate tls_version cipher_suite_openssl_name =
     (case getitem OPENSSL_TO_RFC_NAMES_MAPPING tls_version of
        Inl e \<Rightarrow> Inl e
      | Inr mapping \<Rightarrow>
          (case getitem mapping cipher_suite_openssl_name of
             Inl e \<Rightarrow> Inl e
           | Inr cipher_suite_rfc_name \<Rightarrow>
               (case getitem RFC_NAME_TO_KEY_SIZE_MAPPING cipher_suite_rfc_name of
                  Inl e \<Rightarrow> Inl e
                | Inr bits \<Rightarrow>
                    Inr \<lparr> name = cipher_suite_rfc_name,
                          openssl_name = cipher_suite_openssl_name,
                          is_anonymous = (if str_in ''anon'' cipher_suite_rfc_name then True else False),
                          key_size = bits \<rparr>)))"

section \<open>The external engine and the trace of a run\<close>

text \<open>
  The two \<^verbatim>\<open>nassl\<close> clients are external: \<^verbatim>\<open>LegacySslClient\<close> and \<^verbatim>\<open>SslClient\<close> are
  constructed for a protocol version, given a cipher string with \<^verbatim>\<open>set_cipher_list\<close> and
  asked for \<^verbatim>\<open>get_cipher_list()\<close>. The engine is a parameter of the model: a function of
  client, version and cipher string that returns the list of OpenSSL names or raises.
\<close>

datatype ssl_client = LegacySslClient | SslClient

type_synonym engine = "ssl_client \<Rightarrow> TlsVersionEnum \<Rightarrow> string \<Rightarrow> error + string list"

text \<open>
  What a run does besides computing its result: each query of the engine, and each
  assignment \<^verbatim>\<open>tls_version_to_cipher_suites[v] = ...\<close>. A computation returns the
  events it performed together with its result or the exception that ended it.
\<close>

datatype event = GetCipherList ssl_client TlsVersionEnum string | SetItem TlsVersionEnum

type_synonym 'a run = "event list \<times> (error + 'a)"

definition ret :: "'a \<Rightarrow> 'a run" where
  "ret x = ([], Inr x)"

definition lift :: "error + 'a \<Rightarrow> 'a run" where
  "lift r = ([], r)"

definition and_then :: "'a run \<Rightarrow> ('a \<Rightarrow> 'b run) \<Rightarrow> 'b run" where
  "and_then m f =
     (case m of
        (es, Inl e) \<Rightarrow> (es, Inl e)
      | (es, Inr x) \<Rightarrow> (case f x of (es', r) \<Rightarrow> (es @ es', r)))"

definition get_cipher_list :: "engine \<Rightarrow> ssl_client \<Rightarrow> TlsVersionEnum \<Rightarrow> string \<Rightarrow> string list run" where
  "get_cipher_list eng client tls_version cipher_string =
     ([GetCipherList client tls_version cipher_string], eng client tls_version cipher_string)"

text \<open>
  A Python \<^verbatim>\<open>set\<close> of strings that the code iterates over is a duplicate-free list,
  in some iteration order: \<^verbatim>\<open>set(xs)\<close> is \<open>remdups xs\<close> and \<^verbatim>\<open>a.union(b)\<close> is
  \<open>remdups (a @ b)\<close>. The sets of records, which are only built and returned, are HOL
  sets.
\<close>

definition cipher_string :: string where
  "cipher_string = ''ALL:COMPLEMENTOFALL:-PSK:-SRP''"

text \<open>\<^verbatim>\<open>_parse_all_cipher_suites_with_legacy_openssl\<close> (lines 571-575).\<close>

definition parse_all_cipher_suites_with_legacy_openssl :: "engine \<Rightarrow> TlsVersionEnum \<Rightarrow> string list run" where
  "parse_all_cipher_suites_with_legacy_openssl eng tls_version =
     and_then (get_cipher_list eng LegacySslClient tls_version cipher_string)
       (\<lambda>cipher_list. ret (remdups cipher_list))"

section \<open>The catalog builder \<^verbatim>\<open>_parse_all_cipher_suites\<close> (lines 578-637)\<close>

type_synonym catalog = "TlsVersionEnum \<rightharpoonup> CipherSuite set"

definition setitem :: "catalog \<Rightarrow> TlsVersionEnum \<Rightarrow> CipherSuite set \<Rightarrow> catalog run" where
  "setitem d tls_version s = ([SetItem tls_version], Inr (d(tls_version \<mapsto> s)))"

text \<open>\<^verbatim>\<open>tls_version_to_cipher_suites[tls_version].add(suite)\<close>.\<close>

definition add_suite :: "catalog \<Rightarrow> TlsVersionEnum \<Rightarrow> CipherSuite \<Rightarrow> error + catalog" where
  "add_suite d tls_version suite =
     (case d tls_version of
        None \<Rightarrow> Inl KeyError
      | Some s \<Rightarrow> Inr (d(tls_version \<mapsto> insert suite s)))"

text \<open>The inner loop of lines 589-598, for the versions enumerated with the legacy client.\<close>

fun translate_all :: "TlsVersionEnum \<Rightarrow> string list \<Rightarrow> catalog \<Rightarrow> error + catalog" where
  "translate_all tls_version [] d = Inr d"
| "translate_all tls_version (cipher_suite_openssl_name # rest) d =
     (case translate tls_version cipher_suite_openssl_name of
        Inl e \<Rightarrow> Inl e
      | Inr suite \<Rightarrow>
          (case add_suite d tls_version suite of
             Inl e \<Rightarrow> Inl e
           | Inr d' \<Rightarrow> translate_all tls_version rest d'))"

text \<open>The inner loop of lines 610-623, for TLS 1.2: the names of the TLS 1.3 list are
  skipped before any table is consulted.\<close>

fun translate_all_tls_1_2 :: "string list \<Rightarrow> catalog \<Rightarrow> error + catalog" where
  "translate_all_tls_1_2 [] d = Inr d"
| "translate_all_tls_1_2 (cipher_suite_openssl_name # rest) d =
     (if cipher_suite_openssl_name \<in> set TLS_1_3_CIPHER_SUITES then translate_all_tls_1_2 rest d
      else
        (case translate TLS_1_2 cipher_suite_openssl_name of
           Inl e \<Rightarrow> Inl e
         | Inr suite \<Rightarrow>
             (case add_suite d TLS_1_2 suite of
                Inl e \<Rightarrow> Inl e
              | Inr d' \<Rightarrow> translate_all_tls_1_2 rest d')))"

text \<open>The set comprehension of lines 626-635 over the hardcoded TLS 1.3 names.\<close>

fun tls_1_3_suites :: "string list \<Rightarrow> error + CipherSuite set" where
  "tls_1_3_suites [] = Inr {}"
| "tls_1_3_suites (cipher_suite_name # rest) =
     (case getitem RFC_NAME_TO_KEY_SIZE_MAPPING cipher_suite_name of
        Inl e \<Rightarrow> Inl e
      | Inr bits \<Rightarrow>
          (case tls_1_3_suites rest of
             Inl e \<Rightarrow> Inl e
           | Inr s \<Rightarrow>
               Inr (insert \<lparr> name = cipher_suite_name,
                               openssl_name = cipher_suite_name,
                               is_anonymous = False,
                               key_size = bits \<rparr> s)))"

text \<open>
  One iteration of the loop of line 581. Everything down to line 635 is indented under
  the \<^verbatim>\<open>for\<close>, so the TLS 1.2 and TLS 1.3 parts belong to the body and run in every
  iteration.
\<close>

definition loop_body :: "engine \<Rightarrow> catalog \<Rightarrow> TlsVersionEnum \<Rightarrow> catalog run" where
  "loop_body eng d0 tls_version =
     and_then (parse_all_cipher_suites_with_legacy_openssl eng tls_version)
       (\<lambda>openssl_cipher_strings.
     and_then (setitem d0 tls_version {})
       (\<lambda>d1.
     and_then (lift (translate_all tls_version openssl_cipher_strings d1))
       (\<lambda>d2.
     and_then (parse_all_cipher_suites_with_legacy_openssl eng TLS_1_2)
       (\<lambda>cipher_suites_from_legacy_openssl.
     and_then (get_cipher_list eng SslClient TLS_1_2 cipher_string)
       (\<lambda>cipher_list.
     and_then (ret (remdups cipher_list))
       (\<lambda>cipher_suites_from_modern_openssl.
     and_then (ret (remdups (cipher_suites_from_legacy_openssl @ cipher_suites_from_modern_openssl)))
       (\<lambda>openssl_cipher_strings.
     and_then (setitem d2 TLS_1_2 {})
       (\<lambda>d3.
     and_then (lift (translate_all_tls_1_2 openssl_cipher_strings d3))
       (\<lambda>d4.
     and_then (lift (tls_1_3_suites TLS_1_3_CIPHER_SUITES))
       (\<lambda>suites.
     setitem d4 TLS_1_3 suites))))))))))"

fun for_tls_version :: "engine \<Rightarrow> TlsVersionEnum list \<Rightarrow> catalog \<Rightarrow> catalog run" where
  "for_tls_version eng [] d = ret d"
| "for_tls_version eng (tls_version # rest) d =
     and_then (loop_body eng d tls_version) (for_tls_version eng rest)"

definition parse_all_cipher_suites :: "engine \<Rightarrow> catalog run" where
  "parse_all_cipher_suites eng =
     for_tls_version eng [SSL_2_0, SSL_3_0, TLS_1_0, TLS_1_1] Map.empty"

section \<open>The repository \<^verbatim>\<open>CipherSuitesRepository\<close> (lines 640-648)\<close>

text \<open>
  The class attribute \<^verbatim>\<open>_ALL_CIPHER_SUITES\<close> is computed when the class body is
  executed; an exception there leaves no class behind. The accessor only subscripts the
  attribute: it takes no engine and performs no event.
\<close>

record CipherSuitesRepository =
  ALL_CIPHER_SUITES :: catalog

definition create_repository :: "engine \<Rightarrow> CipherSuitesRepository run" where
  "create_repository eng =
     and_then (parse_all_cipher_suites eng) (\<lambda>d. ret \<lparr> ALL_CIPHER_SUITES = d \<rparr>)"

definition get_all_cipher_suites :: "CipherSuitesRepository \<Rightarrow> TlsVersionEnum \<Rightarrow> CipherSuite set run" where
  "get_all_cipher_suites cls tls_version =
     lift (case ALL_CIPHER_SUITES cls tls_version of
             None \<Rightarrow> Inl KeyError
           | Some s \<Rightarrow> Inr s)"

section \<open>Running computations\<close>

lemma and_then_Inl [simp]: "and_then (es, Inl e) f = (es, Inl e)"
  by (simp add: and_then_def)

lemma and_then_Inr [simp]: "and_then (es, Inr x) f = (es @ fst (f x), snd (f x))"
  by (simp add: and_then_def split: prod.splits)

lemma and_then_ret [simp]: "and_then (ret x) f = f x"
  by (simp add: ret_def)

lemma and_then_lift_Inl [simp]: "and_then (lift (Inl e)) f = ([], Inl e)"
  by (simp add: lift_def)

lemma and_then_lift_Inr [simp]: "and_then (lift (Inr x)) f = f x"
  by (simp add: lift_def)

section \<open>Subscripts and translation\<close>

lemma getitem_error: "getitem d k = Inl e \<Longrightarrow> e = KeyError"
  by (simp add: getitem_def split: option.splits)

lemma getitem_Inr: "getitem d k = Inr v \<longleftrightarrow> map_of d k = Some v"
  by (simp add: getitem_def split: option.splits)

lemma getitem_Inl: "getitem d k = Inl e \<longleftrightarrow> e = KeyError \<and> map_of d k = None"
  by (auto simp add: getitem_def split: option.splits)

lemma translate_error: "translate v n = Inl e \<Longrightarrow> e = KeyError"
  by (auto simp add: translate_def split: sum.splits dest: getitem_error)

lemma translate_Inr:
  "translate v n = Inr cs \<longleftrightarrow>
     (\<exists>m c b. getitem OPENSSL_TO_RFC_NAMES_MAPPING v = Inr m \<and> getitem m n = Inr c \<and>
        getitem RFC_NAME_TO_KEY_SIZE_MAPPING c = Inr b \<and>
        cs = \<lparr> name = c, openssl_name = n, is_anonymous = str_in ''anon'' c, key_size = b \<rparr>)"
  by (auto simp add: translate_def split: sum.splits)

lemma translate_openssl_name: "translate v n = Inr cs \<Longrightarrow> openssl_name cs = n"
  by (auto simp add: translate_Inr)

lemma translate_is_anonymous: "translate v n = Inr cs \<Longrightarrow> is_anonymous cs = str_in ''anon'' (name cs)"
  by (auto simp add: translate_Inr)

lemma translate_key_size:
  "translate v n = Inr cs \<Longrightarrow> map_of RFC_NAME_TO_KEY_SIZE_MAPPING (name cs) = Some (key_size cs)"
  by (auto simp add: translate_Inr getitem_Inr)

section \<open>The translation loops depend only on the set of names\<close>

lemma translate_all_eq:
  "d v = Some S \<Longrightarrow>
   translate_all v ns d =
     (if \<exists>n\<in>set ns. isl (translate v n) then Inl KeyError
      else Inr (d(v \<mapsto> S \<union> (\<lambda>n. projr (translate v n)) ` set ns)))"
proof (induction ns arbitrary: d S)
  case Nil
  then show ?case by (simp add: map_upd_triv)
next
  case (Cons n ns)
  show ?case
  proof (cases "translate v n")
    case (Inl e)
    then show ?thesis using translate_error[OF Inl] by simp
  next
    case (Inr cs)
    let ?d = "d(v \<mapsto> insert cs S)"
    have IH: "translate_all v ns ?d =
      (if \<exists>n\<in>set ns. isl (translate v n) then Inl KeyError
       else Inr (?d(v \<mapsto> insert cs S \<union> (\<lambda>n. projr (translate v n)) ` set ns)))"
      by (rule Cons.IH) simp
    have step: "translate_all v (n # ns) d = translate_all v ns ?d"
      using Inr Cons.prems by (simp add: add_suite_def)
    have s: "insert cs S \<union> (\<lambda>n. projr (translate v n)) ` set ns =
             S \<union> (\<lambda>n. projr (translate v n)) ` set (n # ns)"
      using Inr by auto
    have upd: "?d(v \<mapsto> insert cs S \<union> (\<lambda>n. projr (translate v n)) ` set ns) =
               d(v \<mapsto> S \<union> (\<lambda>n. projr (translate v n)) ` set (n # ns))"
      by (simp only: s fun_upd_upd)
    have ex: "(\<exists>m\<in>set (n # ns). isl (translate v m)) = (\<exists>m\<in>set ns. isl (translate v m))"
      using Inr by simp
    show ?thesis by (simp only: step IH upd ex)
  qed
qed

lemma translate_all_tls_1_2_eq:
  "d TLS_1_2 = Some S \<Longrightarrow>
   translate_all_tls_1_2 ns d =
     (if \<exists>n\<in>set ns - set TLS_1_3_CIPHER_SUITES. isl (translate TLS_1_2 n) then Inl KeyError
      else Inr (d(TLS_1_2 \<mapsto> S \<union> (\<lambda>n. projr (translate TLS_1_2 n)) ` (set ns - set TLS_1_3_CIPHER_SUITES))))"
proof (induction ns arbitrary: d S)
  case Nil
  then show ?case by (simp add: map_upd_triv)
next
  case (Cons n ns)
  show ?case
  proof (cases "n \<in> set TLS_1_3_CIPHER_SUITES")
    case True
    then have "set (n # ns) - set TLS_1_3_CIPHER_SUITES = set ns - set TLS_1_3_CIPHER_SUITES"
      by auto
    moreover have "translate_all_tls_1_2 (n # ns) d = translate_all_tls_1_2 ns d"
      using True by simp
    moreover have "translate_all_tls_1_2 ns d =
        (if \<exists>n\<in>set ns - set TLS_1_3_CIPHER_SUITES. isl (translate TLS_1_2 n) then Inl KeyError
         else Inr (d(TLS_1_2 \<mapsto> S \<union>
            (\<lambda>n. projr (translate TLS_1_2 n)) ` (set ns - set TLS_1_3_CIPHER_SUITES))))"
      by (rule Cons.IH) (rule Cons.prems)
    ultimately show ?thesis by (simp only:)
  next
    case False
    then have *: "set (n # ns) - set TLS_1_3_CIPHER_SUITES = insert n (set ns - set TLS_1_3_CIPHER_SUITES)"
      by auto
    show ?thesis
    proof (cases "translate TLS_1_2 n")
      case (Inl e)
      then have "\<exists>m\<in>set (n # ns) - set TLS_1_3_CIPHER_SUITES. isl (translate TLS_1_2 m)"
        using False by (intro bexI[of _ n]) auto
      then show ?thesis using translate_error[OF Inl] Inl False by simp
    next
      case (Inr cs)
      let ?d = "d(TLS_1_2 \<mapsto> insert cs S)"
      let ?img = "\<lambda>A. (\<lambda>n. projr (translate TLS_1_2 n)) ` (A - set TLS_1_3_CIPHER_SUITES)"
      have IH: "translate_all_tls_1_2 ns ?d =
        (if \<exists>n\<in>set ns - set TLS_1_3_CIPHER_SUITES. isl (translate TLS_1_2 n) then Inl KeyError
         else Inr (?d(TLS_1_2 \<mapsto> insert cs S \<union> ?img (set ns))))"
        by (rule Cons.IH) simp
      have step: "translate_all_tls_1_2 (n # ns) d = translate_all_tls_1_2 ns ?d"
        using Inr Cons.prems False by (simp add: add_suite_def)
      have s: "insert cs S \<union> ?img (set ns) = S \<union> ?img (set (n # ns))"
        using Inr by (simp only: *) auto
      have upd: "?d(TLS_1_2 \<mapsto> insert cs S \<union> ?img (set ns)) = d(TLS_1_2 \<mapsto> S \<union> ?img (set (n # ns)))"
        by (simp only: s fun_upd_upd)
      have ex: "(\<exists>m\<in>set (n # ns) - set TLS_1_3_CIPHER_SUITES. isl (translate TLS_1_2 m)) =
                (\<exists>m\<in>set ns - set TLS_1_3_CIPHER_SUITES. isl (translate TLS_1_2 m))"
        using Inr by (simp only: *) simp
      show ?thesis by (simp only: step IH upd ex)
    qed
  qed
qed

section \<open>Facts read off the tables\<close>

text \<open>
  A subscript of a long literal is settled by walking down the literal, one entry a step
  and comparing only the keys.
\<close>

lemma map_of_hit: "map_of ((k, b) # ps) k = Some b"
  by simp

lemma map_of_skip: "k \<noteq> a \<Longrightarrow> map_of ps k = r \<Longrightarrow> map_of ((a, b) # ps) k = r"
  by simp

lemma map_of_miss: "map_of [] k = None"
  by simp

lemma list_all_weak_cong: "P = Q \<Longrightarrow> list_all P xs = list_all Q xs"
  by simp

lemma key_size_TLS_AES_128_GCM_SHA256:
  "map_of RFC_NAME_TO_KEY_SIZE_MAPPING ''TLS_AES_128_GCM_SHA256'' = Some 128"
  unfolding RFC_NAME_TO_KEY_SIZE_MAPPING_def
  by (rule map_of_hit | (rule map_of_skip, (simp only: list.inject char.inject simp_thms)[1]))+

lemma key_size_TLS_AES_128_CCM_SHA256:
  "map_of RFC_NAME_TO_KEY_SIZE_MAPPING ''TLS_AES_128_CCM_SHA256'' = Some 128"
  unfolding RFC_NAME_TO_KEY_SIZE_MAPPING_def
  by (rule map_of_hit | (rule map_of_skip, (simp only: list.inject char.inject simp_thms)[1]))+

lemma key_size_TLS_AES_256_GCM_SHA384:
  "map_of RFC_NAME_TO_KEY_SIZE_MAPPING ''TLS_AES_256_GCM_SHA384'' = Some 256"
  unfolding RFC_NAME_TO_KEY_SIZE_MAPPING_def
  by (rule map_of_hit | (rule map_of_skip, (simp only: list.inject char.inject simp_thms)[1]))+

lemma key_size_TLS_AES_128_CCM_8_SHA256:
  "map_of RFC_NAME_TO_KEY_SIZE_MAPPING ''TLS_AES_128_CCM_8_SHA256'' = Some 128"
  unfolding RFC_NAME_TO_KEY_SIZE_MAPPING_def
  by (rule map_of_hit | (rule map_of_skip, (simp only: list.inject char.inject simp_thms)[1]))+

lemma key_size_TLS_CHACHA20_POLY1305_SHA256:
  "map_of RFC_NAME_TO_KEY_SIZE_MAPPING ''TLS_CHACHA20_POLY1305_SHA256'' = Some 256"
  unfolding RFC_NAME_TO_KEY_SIZE_MAPPING_def
  by (rule map_of_hit | (rule map_of_skip, (simp only: list.inject char.inject simp_thms)[1]))+

lemmas key_size_tls_1_3 =
  key_size_TLS_AES_128_GCM_SHA256 key_size_TLS_AES_128_CCM_SHA256 key_size_TLS_AES_256_GCM_SHA384
  key_size_TLS_AES_128_CCM_8_SHA256 key_size_TLS_CHACHA20_POLY1305_SHA256

lemma tls_1_3_suites_value:
  "tls_1_3_suites TLS_1_3_CIPHER_SUITES =
     Inr {\<lparr> name = ''TLS_AES_128_GCM_SHA256'', openssl_name = ''TLS_AES_128_GCM_SHA256'',
             is_anonymous = False, key_size = 128 \<rparr>,
          \<lparr> name = ''TLS_AES_128_CCM_SHA256'', openssl_name = ''TLS_AES_128_CCM_SHA256'',
             is_anonymous = False, key_size = 128 \<rparr>,
          \<lparr> name = ''TLS_AES_256_GCM_SHA384'', openssl_name = ''TLS_AES_256_GCM_SHA384'',
             is_anonymous = False, key_size = 256 \<rparr>,
          \<lparr> name = ''TLS_AES_128_CCM_8_SHA256'', openssl_name = ''TLS_AES_128_CCM_8_SHA256'',
             is_anonymous = False, key_size = 128 \<rparr>,
          \<lparr> name = ''TLS_CHACHA20_POLY1305_SHA256'', openssl_name = ''TLS_CHACHA20_POLY1305_SHA256'',
             is_anonymous = False, key_size = 256 \<rparr>}"
  by (simp add: TLS_1_3_CIPHER_SUITES_def getitem_def key_size_tls_1_3)

lemma key_size_values:
  "list_all (\<lambda>(k, v). v \<in> {0, 40, 56, 64, 128, 168, 256}) RFC_NAME_TO_KEY_SIZE_MAPPING"
  unfolding RFC_NAME_TO_KEY_SIZE_MAPPING_def
  by (simp cong: list_all_weak_cong)

lemma tls_names_not_tls_1_3:
  "list_all (\<lambda>(n, c). c \<notin> set TLS_1_3_CIPHER_SUITES) TLS_OPENSSL_TO_RFC_NAMES_MAPPING"
  unfolding TLS_OPENSSL_TO_RFC_NAMES_MAPPING_def TLS_1_3_CIPHER_SUITES_def
  by (simp cong: list_all_weak_cong)

section \<open>One iteration, and the whole loop\<close>

lemma loop_body_eq:
  "loop_body eng d v =
    (case eng LegacySslClient v cipher_string of
       Inl e \<Rightarrow> ([GetCipherList LegacySslClient v cipher_string], Inl e)
     | Inr l \<Rightarrow>
        if \<exists>n\<in>set l. isl (translate v n)
        then ([GetCipherList LegacySslClient v cipher_string, SetItem v], Inl KeyError)
        else
         (case eng LegacySslClient TLS_1_2 cipher_string of
            Inl e \<Rightarrow> ([GetCipherList LegacySslClient v cipher_string, SetItem v,
                        GetCipherList LegacySslClient TLS_1_2 cipher_string], Inl e)
          | Inr leg \<Rightarrow>
             (case eng SslClient TLS_1_2 cipher_string of
                Inl e \<Rightarrow> ([GetCipherList LegacySslClient v cipher_string, SetItem v,
                            GetCipherList LegacySslClient TLS_1_2 cipher_string,
                            GetCipherList SslClient TLS_1_2 cipher_string], Inl e)
              | Inr mdn \<Rightarrow>
                 if \<exists>n\<in>(set leg \<union> set mdn) - set TLS_1_3_CIPHER_SUITES. isl (translate TLS_1_2 n)
                 then ([GetCipherList LegacySslClient v cipher_string, SetItem v,
                        GetCipherList LegacySslClient TLS_1_2 cipher_string,
                        GetCipherList SslClient TLS_1_2 cipher_string, SetItem TLS_1_2], Inl KeyError)
                 else
                   ([GetCipherList LegacySslClient v cipher_string, SetItem v,
                     GetCipherList LegacySslClient TLS_1_2 cipher_string,
                     GetCipherList SslClient TLS_1_2 cipher_string, SetItem TLS_1_2, SetItem TLS_1_3],
                    Inr (d(v \<mapsto> (\<lambda>n. projr (translate v n)) ` set l,
                           TLS_1_2 \<mapsto> (\<lambda>n. projr (translate TLS_1_2 n)) `
                                        ((set leg \<union> set mdn) - set TLS_1_3_CIPHER_SUITES),
                           TLS_1_3 \<mapsto> projr (tls_1_3_suites TLS_1_3_CIPHER_SUITES)))))))"
proof (cases "eng LegacySslClient v cipher_string")
  case (Inl e)
  then show ?thesis
    by (simp add: loop_body_def parse_all_cipher_suites_with_legacy_openssl_def get_cipher_list_def ret_def lift_def)
next
  case l: (Inr l)
  have t1: "translate_all v (remdups l) (d(v \<mapsto> {})) =
      (if \<exists>n\<in>set l. isl (translate v n) then Inl KeyError
       else Inr (d(v \<mapsto> (\<lambda>n. projr (translate v n)) ` set l)))"
    using translate_all_eq[of "d(v \<mapsto> {})" v "{}" "remdups l"] by simp
  show ?thesis
  proof (cases "\<exists>n\<in>set l. isl (translate v n)")
    case True
    then show ?thesis using l t1
      by (simp add: loop_body_def parse_all_cipher_suites_with_legacy_openssl_def
          get_cipher_list_def setitem_def ret_def lift_def)
  next
    case ok1: False
    show ?thesis
    proof (cases "eng LegacySslClient TLS_1_2 cipher_string")
      case (Inl e)
      then show ?thesis using l t1 ok1
        by (simp add: loop_body_def parse_all_cipher_suites_with_legacy_openssl_def
            get_cipher_list_def setitem_def ret_def lift_def)
    next
      case leg: (Inr leg)
      show ?thesis
      proof (cases "eng SslClient TLS_1_2 cipher_string")
        case (Inl e)
        then show ?thesis using l t1 ok1 leg
          by (simp add: loop_body_def parse_all_cipher_suites_with_legacy_openssl_def
              get_cipher_list_def setitem_def ret_def lift_def)
      next
        case mdn: (Inr mdn)
        let ?d2 = "d(v \<mapsto> (\<lambda>n. projr (translate v n)) ` set l)"
        have t2: "translate_all_tls_1_2 (remdups (remdups leg @ remdups mdn)) (?d2(TLS_1_2 \<mapsto> {})) =
          (if \<exists>n\<in>(set leg \<union> set mdn) - set TLS_1_3_CIPHER_SUITES. isl (translate TLS_1_2 n)
           then Inl KeyError
           else Inr (?d2(TLS_1_2 \<mapsto> (\<lambda>n. projr (translate TLS_1_2 n)) `
                                        ((set leg \<union> set mdn) - set TLS_1_3_CIPHER_SUITES))))"
          using translate_all_tls_1_2_eq[of "?d2(TLS_1_2 \<mapsto> {})" "{}" "remdups (remdups leg @ remdups mdn)"]
          by simp
        show ?thesis using l t1 ok1 leg mdn t2
          by (simp add: loop_body_def parse_all_cipher_suites_with_legacy_openssl_def
              get_cipher_list_def setitem_def ret_def lift_def tls_1_3_suites_value)
      qed
    qed
  qed
qed

lemma and_then_InrD:
  assumes "and_then m f = (es, Inr y)"
  obtains es1 x es2 where "m = (es1, Inr x)" "f x = (es2, Inr y)" "es = es1 @ es2"
  using assms by (cases m; cases "snd m") (auto simp add: and_then_def split: prod.splits)

lemma loop_body_InrD:
  assumes "loop_body eng d v = (es, Inr d')"
  shows "\<exists>l leg mdn.
     eng LegacySslClient v cipher_string = Inr l \<and>
     eng LegacySslClient TLS_1_2 cipher_string = Inr leg \<and>
     eng SslClient TLS_1_2 cipher_string = Inr mdn \<and>
     \<not> (\<exists>n\<in>set l. isl (translate v n)) \<and>
     \<not> (\<exists>n\<in>(set leg \<union> set mdn) - set TLS_1_3_CIPHER_SUITES. isl (translate TLS_1_2 n)) \<and>
     es = [GetCipherList LegacySslClient v cipher_string, SetItem v,
           GetCipherList LegacySslClient TLS_1_2 cipher_string,
           GetCipherList SslClient TLS_1_2 cipher_string, SetItem TLS_1_2, SetItem TLS_1_3] \<and>
     d' = d(v \<mapsto> (\<lambda>n. projr (translate v n)) ` set l,
            TLS_1_2 \<mapsto> (\<lambda>n. projr (translate TLS_1_2 n)) `
                         ((set leg \<union> set mdn) - set TLS_1_3_CIPHER_SUITES),
            TLS_1_3 \<mapsto> projr (tls_1_3_suites TLS_1_3_CIPHER_SUITES))"
  using assms unfolding loop_body_eq
  by (simp split: sum.splits if_splits)

lemma parse_all_cipher_suites_InrD:
  assumes "parse_all_cipher_suites eng = (es, Inr cat)"
  shows "\<exists>l2 l3 l10 l11 leg mdn.
     eng LegacySslClient SSL_2_0 cipher_string = Inr l2 \<and>
     eng LegacySslClient SSL_3_0 cipher_string = Inr l3 \<and>
     eng LegacySslClient TLS_1_0 cipher_string = Inr l10 \<and>
     eng LegacySslClient TLS_1_1 cipher_string = Inr l11 \<and>
     eng LegacySslClient TLS_1_2 cipher_string = Inr leg \<and>
     eng SslClient TLS_1_2 cipher_string = Inr mdn \<and>
     \<not> (\<exists>n\<in>set l2. isl (translate SSL_2_0 n)) \<and>
     \<not> (\<exists>n\<in>set l3. isl (translate SSL_3_0 n)) \<and>
     \<not> (\<exists>n\<in>set l10. isl (translate TLS_1_0 n)) \<and>
     \<not> (\<exists>n\<in>set l11. isl (translate TLS_1_1 n)) \<and>
     \<not> (\<exists>n\<in>(set leg \<union> set mdn) - set TLS_1_3_CIPHER_SUITES. isl (translate TLS_1_2 n)) \<and>
     es = concat (map (\<lambda>v. [GetCipherList LegacySslClient v cipher_string, SetItem v,
                             GetCipherList LegacySslClient TLS_1_2 cipher_string,
                             GetCipherList SslClient TLS_1_2 cipher_string,
                             SetItem TLS_1_2, SetItem TLS_1_3])
                   [SSL_2_0, SSL_3_0, TLS_1_0, TLS_1_1]) \<and>
     cat SSL_2_0 = Some ((\<lambda>n. projr (translate SSL_2_0 n)) ` set l2) \<and>
     cat SSL_3_0 = Some ((\<lambda>n. projr (translate SSL_3_0 n)) ` set l3) \<and>
     cat TLS_1_0 = Some ((\<lambda>n. projr (translate TLS_1_0 n)) ` set l10) \<and>
     cat TLS_1_1 = Some ((\<lambda>n. projr (translate TLS_1_1 n)) ` set l11) \<and>
     cat TLS_1_2 = Some ((\<lambda>n. projr (translate TLS_1_2 n)) `
                          ((set leg \<union> set mdn) - set TLS_1_3_CIPHER_SUITES)) \<and>
     cat TLS_1_3 = Some (projr (tls_1_3_suites TLS_1_3_CIPHER_SUITES))"
proof -
  from assms obtain e1 e2 e3 e4 d1 d2 d3 d4 where
    b1: "loop_body eng Map.empty SSL_2_0 = (e1, Inr d1)" and
    b2: "loop_body eng d1 SSL_3_0 = (e2, Inr d2)" and
    b3: "loop_body eng d2 TLS_1_0 = (e3, Inr d3)" and
    b4: "loop_body eng d3 TLS_1_1 = (e4, Inr d4)" and
    es: "es = e1 @ e2 @ e3 @ e4" and cat: "cat = d4"
    unfolding parse_all_cipher_suites_def for_tls_version.simps
    by (elim and_then_InrD) (simp add: ret_def)
  from loop_body_InrD[OF b1] loop_body_InrD[OF b2] loop_body_InrD[OF b3] loop_body_InrD[OF b4]
  show ?thesis
    unfolding es cat
    by (elim exE conjE) simp
qed

lemma set_equal_answers:
  assumes "map_sum id set (a :: error + string list) = map_sum id set b"
  shows "(\<exists>e. a = Inl e \<and> b = Inl e) \<or> (\<exists>l m. a = Inr l \<and> b = Inr m \<and> set l = set m)"
  using assms by (cases a; cases b) simp_all

lemma loop_body_set_equal:
  assumes "\<And>c v s. map_sum id set (eng1 c v s) = map_sum id set (eng2 c v s)"
  shows "loop_body eng1 d v = loop_body eng2 d v"
proof -
  note q1 = set_equal_answers[OF assms[of LegacySslClient v cipher_string]]
  note q2 = set_equal_answers[OF assms[of LegacySslClient TLS_1_2 cipher_string]]
  note q3 = set_equal_answers[OF assms[of SslClient TLS_1_2 cipher_string]]
  from q1 q2 q3 show ?thesis
    unfolding loop_body_eq by (elim disjE exE conjE) simp_all
qed

lemma for_tls_version_set_equal:
  assumes "\<And>c v s. map_sum id set (eng1 c v s) = map_sum id set (eng2 c v s)"
  shows "for_tls_version eng1 vs d = for_tls_version eng2 vs d"
proof (induction vs arbitrary: d)
  case Nil
  show ?case by simp
next
  case (Cons v vs)
  have "for_tls_version eng1 vs = for_tls_version eng2 vs"
    by (rule ext) (rule Cons.IH)
  then show ?case
    by (simp add: loop_body_set_equal[OF assms])
qed

lemma parse_all_cipher_suites_KeyError:
  assumes "eng LegacySslClient SSL_2_0 cipher_string = Inr l2"
    and "eng LegacySslClient SSL_3_0 cipher_string = Inr l3"
    and "eng LegacySslClient TLS_1_0 cipher_string = Inr l10"
    and "eng LegacySslClient TLS_1_1 cipher_string = Inr l11"
    and "eng LegacySslClient TLS_1_2 cipher_string = Inr leg"
    and "eng SslClient TLS_1_2 cipher_string = Inr mdn"
  shows "snd (parse_all_cipher_suites eng) = Inl KeyError \<longleftrightarrow>
     (\<exists>n\<in>set l2. isl (translate SSL_2_0 n)) \<or>
     (\<exists>n\<in>set l3. isl (translate SSL_3_0 n)) \<or>
     (\<exists>n\<in>set l10. isl (translate TLS_1_0 n)) \<or>
     (\<exists>n\<in>set l11. isl (translate TLS_1_1 n)) \<or>
     (\<exists>n\<in>(set leg \<union> set mdn) - set TLS_1_3_CIPHER_SUITES. isl (translate TLS_1_2 n))"
    and "isl (snd (parse_all_cipher_suites eng)) \<longleftrightarrow> snd (parse_all_cipher_suites eng) = Inl KeyError"
  unfolding parse_all_cipher_suites_def for_tls_version.simps loop_body_eq
  by (simp_all add: assms ret_def)

section \<open>Members of a built catalog\<close>

lemma translated_set:
  assumes "\<not> (\<exists>n\<in>X. isl (translate v n))"
  shows "(\<lambda>n. projr (translate v n)) ` X = {cs. \<exists>n\<in>X. translate v n = Inr cs}"
proof -
  have "\<And>n. n \<in> X \<Longrightarrow> translate v n = Inr (projr (translate v n))"
    using assms by (metis sum.collapse(2))
  then show ?thesis by (auto simp add: image_iff) (metis sum.sel(2))
qed

lemma parse_all_cipher_suites_snd:
  assumes "snd (parse_all_cipher_suites eng) = Inr cat"
  shows "parse_all_cipher_suites eng = (fst (parse_all_cipher_suites eng), Inr cat)"
  using assms by (metis prod.collapse)

lemma catalog_memberD:
  assumes "snd (parse_all_cipher_suites eng) = Inr cat" and "cat v = Some S" and "cs \<in> S"
  shows "(v \<noteq> TLS_1_3 \<and> (\<exists>n. translate v n = Inr cs)) \<or>
         (v = TLS_1_3 \<and> cs \<in> projr (tls_1_3_suites TLS_1_3_CIPHER_SUITES))"
proof -
  from parse_all_cipher_suites_InrD[OF parse_all_cipher_suites_snd[OF assms(1)]]
  obtain l2 l3 l10 l11 leg mdn where
    ok: "\<not> (\<exists>n\<in>set l2. isl (translate SSL_2_0 n))"
        "\<not> (\<exists>n\<in>set l3. isl (translate SSL_3_0 n))"
        "\<not> (\<exists>n\<in>set l10. isl (translate TLS_1_0 n))"
        "\<not> (\<exists>n\<in>set l11. isl (translate TLS_1_1 n))"
        "\<not> (\<exists>n\<in>(set leg \<union> set mdn) - set TLS_1_3_CIPHER_SUITES. isl (translate TLS_1_2 n))"
    and cat: "cat SSL_2_0 = Some ((\<lambda>n. projr (translate SSL_2_0 n)) ` set l2)"
        "cat SSL_3_0 = Some ((\<lambda>n. projr (translate SSL_3_0 n)) ` set l3)"
        "cat TLS_1_0 = Some ((\<lambda>n. projr (translate TLS_1_0 n)) ` set l10)"
        "cat TLS_1_1 = Some ((\<lambda>n. projr (translate TLS_1_1 n)) ` set l11)"
        "cat TLS_1_2 = Some ((\<lambda>n. projr (translate TLS_1_2 n)) `
                          ((set leg \<union> set mdn) - set TLS_1_3_CIPHER_SUITES))"
        "cat TLS_1_3 = Some (projr (tls_1_3_suites TLS_1_3_CIPHER_SUITES))"
    by blast
  note sets = ok[THEN translated_set]
  show ?thesis
    using assms(2,3) cat unfolding sets
    by (cases v) auto
qed

lemma key_size_valuesD:
  assumes "map_of RFC_NAME_TO_KEY_SIZE_MAPPING c = Some b"
  shows "b \<in> {0, 40, 56, 64, 128, 168, 256}"
proof -
  from assms have "(c, b) \<in> set RFC_NAME_TO_KEY_SIZE_MAPPING" by (rule map_of_SomeD)
  with key_size_values show ?thesis
    unfolding list_all_iff by blast
qed

lemma tls_1_3_suite_fields:
  assumes "cs \<in> projr (tls_1_3_suites TLS_1_3_CIPHER_SUITES)"
  shows "name cs \<in> set TLS_1_3_CIPHER_SUITES" and "openssl_name cs = name cs"
    and "\<not> is_anonymous cs"
    and "map_of RFC_NAME_TO_KEY_SIZE_MAPPING (name cs) = Some (key_size cs)"
  using assms[unfolded tls_1_3_suites_value]
  by (auto simp add: TLS_1_3_CIPHER_SUITES_def key_size_tls_1_3)

lemma create_repository_InrD:
  assumes "snd (create_repository eng) = Inr cls"
  shows "snd (parse_all_cipher_suites eng) = Inr (ALL_CIPHER_SUITES cls)"
  using assms unfolding create_repository_def
  by (cases "parse_all_cipher_suites eng"; cases "snd (parse_all_cipher_suites eng)")
     (auto simp add: ret_def)

lemma get_all_cipher_suites_InrD:
  assumes "snd (get_all_cipher_suites cls v) = Inr S"
  shows "ALL_CIPHER_SUITES cls v = Some S"
  using assms unfolding get_all_cipher_suites_def lift_def
  by (simp split: option.splits)

section \<open>A concrete engine: every query answers \<^verbatim>\<open>["NULL-MD5"]\<close>\<close>

lemma version_tables:
  "getitem OPENSSL_TO_RFC_NAMES_MAPPING SSL_2_0 = Inr SSLV2_OPENSSL_TO_RFC_NAMES_MAPPING"
  "getitem OPENSSL_TO_RFC_NAMES_MAPPING SSL_3_0 = Inr TLS_OPENSSL_TO_RFC_NAMES_MAPPING"
  "getitem OPENSSL_TO_RFC_NAMES_MAPPING TLS_1_0 = Inr TLS_OPENSSL_TO_RFC_NAMES_MAPPING"
  "getitem OPENSSL_TO_RFC_NAMES_MAPPING TLS_1_1 = Inr TLS_OPENSSL_TO_RFC_NAMES_MAPPING"
  "getitem OPENSSL_TO_RFC_NAMES_MAPPING TLS_1_2 = Inr TLS_OPENSSL_TO_RFC_NAMES_MAPPING"
  "getitem OPENSSL_TO_RFC_NAMES_MAPPING TLS_1_3 = Inl KeyError"
  by (simp_all add: getitem_def OPENSSL_TO_RFC_NAMES_MAPPING_def)

lemma translateI:
  assumes "getitem OPENSSL_TO_RFC_NAMES_MAPPING v = Inr m" and "map_of m n = Some c"
    and "map_of RFC_NAME_TO_KEY_SIZE_MAPPING c = Some b"
  shows "translate v n = Inr \<lparr> name = c, openssl_name = n, is_anonymous = str_in ''anon'' c, key_size = b \<rparr>"
  using assms by (simp add: translate_def getitem_def)

lemma sslv2_NULL_MD5:
  "map_of SSLV2_OPENSSL_TO_RFC_NAMES_MAPPING ''NULL-MD5'' = Some ''TLS_RSA_WITH_NULL_MD5''"
  unfolding SSLV2_OPENSSL_TO_RFC_NAMES_MAPPING_def
  by (rule map_of_hit | (rule map_of_skip, (simp only: list.inject char.inject simp_thms)[1]))+

lemma tls_NULL_MD5:
  "map_of TLS_OPENSSL_TO_RFC_NAMES_MAPPING ''NULL-MD5'' = Some ''TLS_RSA_WITH_NULL_MD5''"
  unfolding TLS_OPENSSL_TO_RFC_NAMES_MAPPING_def
  by (rule map_of_hit)

lemma key_size_TLS_RSA_WITH_NULL_MD5:
  "map_of RFC_NAME_TO_KEY_SIZE_MAPPING ''TLS_RSA_WITH_NULL_MD5'' = Some 0"
  unfolding RFC_NAME_TO_KEY_SIZE_MAPPING_def
  by (rule map_of_hit)

lemma translate_NULL_MD5:
  assumes "v \<noteq> TLS_1_3"
  shows "translate v ''NULL-MD5'' =
    Inr \<lparr> name = ''TLS_RSA_WITH_NULL_MD5'', openssl_name = ''NULL-MD5'',
           is_anonymous = False, key_size = 0 \<rparr>"
proof -
  have a: "str_in ''anon'' ''TLS_RSA_WITH_NULL_MD5'' = False" by simp
  show ?thesis
    using assms
    by (cases v)
       (simp_all only: translateI[OF version_tables(1) sslv2_NULL_MD5 key_size_TLS_RSA_WITH_NULL_MD5]
          translateI[OF version_tables(2) tls_NULL_MD5 key_size_TLS_RSA_WITH_NULL_MD5]
          translateI[OF version_tables(3) tls_NULL_MD5 key_size_TLS_RSA_WITH_NULL_MD5]
          translateI[OF version_tables(4) tls_NULL_MD5 key_size_TLS_RSA_WITH_NULL_MD5]
          translateI[OF version_tables(5) tls_NULL_MD5 key_size_TLS_RSA_WITH_NULL_MD5] a,
        simp_all)
qed

lemma NULL_MD5_not_tls_1_3: "''NULL-MD5'' \<notin> set TLS_1_3_CIPHER_SUITES"
  by (simp add: TLS_1_3_CIPHER_SUITES_def)

lemma NULL_MD5_run_ok:
  "\<not> isl (snd (parse_all_cipher_suites (\<lambda>c v s. Inr [''NULL-MD5''])))"
proof -
  let ?eng = "\<lambda>(c :: ssl_client) (v :: TlsVersionEnum) (s :: string). (Inr [''NULL-MD5''] :: error + string list)"
  have q: "\<And>c v. ?eng c v cipher_string = Inr [''NULL-MD5'']" by simp
  show ?thesis
    unfolding parse_all_cipher_suites_KeyError(2)[OF q q q q q q]
      parse_all_cipher_suites_KeyError(1)[OF q q q q q q]
    by (simp add: translate_NULL_MD5 NULL_MD5_not_tls_1_3)
qed

lemma NULL_MD5_run:
  "snd (parse_all_cipher_suites (\<lambda>c v s. Inr [''NULL-MD5''])) =
     Inr (projr (snd (parse_all_cipher_suites (\<lambda>c v s. Inr [''NULL-MD5'']))))"
  using NULL_MD5_run_ok by simp

lemma NULL_MD5_catalog:
  "v \<noteq> TLS_1_3 \<Longrightarrow> projr (snd (parse_all_cipher_suites (\<lambda>c v s. Inr [''NULL-MD5'']))) v =
     Some {\<lparr> name = ''TLS_RSA_WITH_NULL_MD5'', openssl_name = ''NULL-MD5'',
              is_anonymous = False, key_size = 0 \<rparr>}"
  using parse_all_cipher_suites_InrD[OF parse_all_cipher_suites_snd[OF NULL_MD5_run]]
  by (cases v) (auto simp add: translate_NULL_MD5 NULL_MD5_not_tls_1_3)

lemma create_repository_InrI:
  assumes "snd (parse_all_cipher_suites eng) = Inr cat"
  shows "snd (create_repository eng) = Inr \<lparr> ALL_CIPHER_SUITES = cat \<rparr>"
proof -
  obtain es where "parse_all_cipher_suites eng = (es, Inr cat)"
    using assms by (metis prod.collapse)
  then show ?thesis by (simp add: create_repository_def ret_def)
qed

lemmas NULL_MD5_repository = create_repository_InrI[OF NULL_MD5_run]

section \<open>Events of a run, substrings, and concrete engines\<close>

lemma fst_and_then:
  "fst (and_then m f) = fst m @ (case snd m of Inl e \<Rightarrow> [] | Inr x \<Rightarrow> fst (f x))"
  by (cases m; cases "snd m") (auto simp add: and_then_def split: prod.splits)

lemma loop_body_events:
  "set (fst (loop_body eng d v)) \<subseteq>
     {GetCipherList LegacySslClient v cipher_string, SetItem v,
      GetCipherList LegacySslClient TLS_1_2 cipher_string,
      GetCipherList SslClient TLS_1_2 cipher_string, SetItem TLS_1_2, SetItem TLS_1_3}"
  unfolding loop_body_eq by (simp split: sum.splits)

lemma for_tls_version_events:
  assumes "ev \<in> set (fst (for_tls_version eng vs d))"
  shows "ev \<in> {GetCipherList LegacySslClient TLS_1_2 cipher_string,
               GetCipherList SslClient TLS_1_2 cipher_string, SetItem TLS_1_2, SetItem TLS_1_3} \<or>
         (\<exists>v\<in>set vs. ev = GetCipherList LegacySslClient v cipher_string \<or> ev = SetItem v)"
  using assms
proof (induction vs arbitrary: d)
  case Nil
  then show ?case by (simp add: ret_def)
next
  case (Cons v vs)
  from Cons.prems have
    "ev \<in> set (fst (loop_body eng d v)) \<or> (\<exists>d'. ev \<in> set (fst (for_tls_version eng vs d')))"
    by (auto simp add: fst_and_then split: sum.splits)
  then show ?case
  proof
    assume "ev \<in> set (fst (loop_body eng d v))"
    with loop_body_events[of eng d v] show ?thesis by auto
  next
    assume "\<exists>d'. ev \<in> set (fst (for_tls_version eng vs d'))"
    then obtain d' where "ev \<in> set (fst (for_tls_version eng vs d'))" ..
    from Cons.IH[OF this] show ?thesis by auto
  qed
qed

lemma no_tls_1_3_query:
  "GetCipherList client TLS_1_3 s \<notin> set (fst (parse_all_cipher_suites eng))"
proof
  assume "GetCipherList client TLS_1_3 s \<in> set (fst (parse_all_cipher_suites eng))"
  from for_tls_version_events[OF this[unfolded parse_all_cipher_suites_def]]
  show False by auto
qed

lemma str_in_sublist: "str_in sub s \<longleftrightarrow> sublist sub s"
  by (induction s) (simp_all add: sublist_Cons_right)

lemma str_in_trans: "str_in a b \<Longrightarrow> str_in b c \<Longrightarrow> str_in a c"
  unfolding str_in_sublist by (rule sublist_order.order_trans)

lemma anon_in_DH_anon: "str_in ''anon'' ''DH_anon''"
  by simp

lemma tls_1_0_run:
  fixes xs :: "string list"
  assumes "\<not> (\<exists>n\<in>set xs. isl (translate TLS_1_0 n))"
  shows "snd (parse_all_cipher_suites (\<lambda>c v s. if v = TLS_1_0 then Inr xs else Inr [])) =
           Inr (projr (snd (parse_all_cipher_suites (\<lambda>c v s. if v = TLS_1_0 then Inr xs else Inr []))))"
proof -
  let ?eng = "\<lambda>(c :: ssl_client) v (s :: string). if v = TLS_1_0 then Inr xs else (Inr [] :: error + string list)"
  have q: "?eng LegacySslClient SSL_2_0 cipher_string = Inr []"
    "?eng LegacySslClient SSL_3_0 cipher_string = Inr []"
    "?eng LegacySslClient TLS_1_0 cipher_string = Inr xs"
    "?eng LegacySslClient TLS_1_1 cipher_string = Inr []"
    "?eng LegacySslClient TLS_1_2 cipher_string = Inr []"
    "?eng SslClient TLS_1_2 cipher_string = Inr []"
    by simp_all
  have "\<not> isl (snd (parse_all_cipher_suites ?eng))"
    unfolding parse_all_cipher_suites_KeyError(2)[OF q] parse_all_cipher_suites_KeyError(1)[OF q]
    using assms by simp
  then show ?thesis by simp
qed

lemma tls_1_0_catalog:
  fixes xs :: "string list"
  assumes "\<not> (\<exists>n\<in>set xs. isl (translate TLS_1_0 n))"
  shows "projr (snd (parse_all_cipher_suites (\<lambda>c v s. if v = TLS_1_0 then Inr xs else Inr []))) TLS_1_0 =
           Some ((\<lambda>n. projr (translate TLS_1_0 n)) ` set xs)"
  using parse_all_cipher_suites_InrD[OF parse_all_cipher_suites_snd[OF tls_1_0_run[OF assms]]]
  by auto

lemma tls_EDH_RSA_DES_CBC3_SHA:
  "map_of TLS_OPENSSL_TO_RFC_NAMES_MAPPING ''EDH-RSA-DES-CBC3-SHA'' = Some ''TLS_DHE_RSA_WITH_3DES_EDE_CBC_SHA''"
  unfolding TLS_OPENSSL_TO_RFC_NAMES_MAPPING_def
  by (rule map_of_hit | (rule map_of_skip, (simp only: list.inject char.inject simp_thms)[1]))+

lemma tls_DHE_RSA_DES_CBC3_SHA:
  "map_of TLS_OPENSSL_TO_RFC_NAMES_MAPPING ''DHE-RSA-DES-CBC3-SHA'' = Some ''TLS_DHE_RSA_WITH_3DES_EDE_CBC_SHA''"
  unfolding TLS_OPENSSL_TO_RFC_NAMES_MAPPING_def
  by (rule map_of_hit | (rule map_of_skip, (simp only: list.inject char.inject simp_thms)[1]))+

lemma tls_AES128_SHA:
  "map_of TLS_OPENSSL_TO_RFC_NAMES_MAPPING ''AES128-SHA'' = Some ''TLS_RSA_WITH_AES_128_CBC_SHA''"
  unfolding TLS_OPENSSL_TO_RFC_NAMES_MAPPING_def
  by (rule map_of_hit | (rule map_of_skip, (simp only: list.inject char.inject simp_thms)[1]))+

lemma tls_ADH_AES128_SHA:
  "map_of TLS_OPENSSL_TO_RFC_NAMES_MAPPING ''ADH-AES128-SHA'' = Some ''TLS_DH_anon_WITH_AES_128_CBC_SHA''"
  unfolding TLS_OPENSSL_TO_RFC_NAMES_MAPPING_def
  by (rule map_of_hit | (rule map_of_skip, (simp only: list.inject char.inject simp_thms)[1]))+

lemma tls_TLS_FALLBACK_SCSV:
  "map_of TLS_OPENSSL_TO_RFC_NAMES_MAPPING ''TLS_FALLBACK_SCSV'' = Some ''TLS_FALLBACK_SCSV''"
  unfolding TLS_OPENSSL_TO_RFC_NAMES_MAPPING_def
  by (rule map_of_hit | (rule map_of_skip, (simp only: list.inject char.inject simp_thms)[1]))+

lemma tls_NO_SUCH_CIPHER:
  "map_of TLS_OPENSSL_TO_RFC_NAMES_MAPPING ''NO-SUCH-CIPHER'' = None"
  unfolding TLS_OPENSSL_TO_RFC_NAMES_MAPPING_def
  by (rule map_of_miss | (rule map_of_skip, (simp only: list.inject char.inject simp_thms)[1]))+

lemma key_size_TLS_DHE_RSA_WITH_3DES_EDE_CBC_SHA:
  "map_of RFC_NAME_TO_KEY_SIZE_MAPPING ''TLS_DHE_RSA_WITH_3DES_EDE_CBC_SHA'' = Some 168"
  unfolding RFC_NAME_TO_KEY_SIZE_MAPPING_def
  by (rule map_of_hit | (rule map_of_skip, (simp only: list.inject char.inject simp_thms)[1]))+

lemma key_size_TLS_RSA_WITH_AES_128_CBC_SHA:
  "map_of RFC_NAME_TO_KEY_SIZE_MAPPING ''TLS_RSA_WITH_AES_128_CBC_SHA'' = Some 128"
  unfolding RFC_NAME_TO_KEY_SIZE_MAPPING_def
  by (rule map_of_hit | (rule map_of_skip, (simp only: list.inject char.inject simp_thms)[1]))+

lemma key_size_TLS_DH_anon_WITH_AES_128_CBC_SHA:
  "map_of RFC_NAME_TO_KEY_SIZE_MAPPING ''TLS_DH_anon_WITH_AES_128_CBC_SHA'' = Some 128"
  unfolding RFC_NAME_TO_KEY_SIZE_MAPPING_def
  by (rule map_of_hit | (rule map_of_skip, (simp only: list.inject char.inject simp_thms)[1]))+

lemma key_size_TLS_FALLBACK_SCSV:
  "map_of RFC_NAME_TO_KEY_SIZE_MAPPING ''TLS_FALLBACK_SCSV'' = None"
  unfolding RFC_NAME_TO_KEY_SIZE_MAPPING_def
  by (rule map_of_miss | (rule map_of_skip, (simp only: list.inject char.inject simp_thms)[1]))+

lemma translate_EDH_RSA_DES_CBC3_SHA:
  "translate TLS_1_0 ''EDH-RSA-DES-CBC3-SHA'' =
     Inr \<lparr> name = ''TLS_DHE_RSA_WITH_3DES_EDE_CBC_SHA'', openssl_name = ''EDH-RSA-DES-CBC3-SHA'',
            is_anonymous = False, key_size = 168 \<rparr>"
  unfolding translateI[OF version_tables(3) tls_EDH_RSA_DES_CBC3_SHA key_size_TLS_DHE_RSA_WITH_3DES_EDE_CBC_SHA]
  by simp

lemma translate_DHE_RSA_DES_CBC3_SHA:
  "translate TLS_1_0 ''DHE-RSA-DES-CBC3-SHA'' =
     Inr \<lparr> name = ''TLS_DHE_RSA_WITH_3DES_EDE_CBC_SHA'', openssl_name = ''DHE-RSA-DES-CBC3-SHA'',
            is_anonymous = False, key_size = 168 \<rparr>"
  unfolding translateI[OF version_tables(3) tls_DHE_RSA_DES_CBC3_SHA key_size_TLS_DHE_RSA_WITH_3DES_EDE_CBC_SHA]
  by simp

lemma translate_AES128_SHA:
  "translate TLS_1_0 ''AES128-SHA'' =
     Inr \<lparr> name = ''TLS_RSA_WITH_AES_128_CBC_SHA'', openssl_name = ''AES128-SHA'',
            is_anonymous = False, key_size = 128 \<rparr>"
  unfolding translateI[OF version_tables(3) tls_AES128_SHA key_size_TLS_RSA_WITH_AES_128_CBC_SHA]
  by simp

lemma translate_ADH_AES128_SHA:
  "translate TLS_1_0 ''ADH-AES128-SHA'' =
     Inr \<lparr> name = ''TLS_DH_anon_WITH_AES_128_CBC_SHA'', openssl_name = ''ADH-AES128-SHA'',
            is_anonymous = True, key_size = 128 \<rparr>"
  unfolding translateI[OF version_tables(3) tls_ADH_AES128_SHA key_size_TLS_DH_anon_WITH_AES_128_CBC_SHA]
  by simp

lemma translate_no_key_size:
  assumes "getitem OPENSSL_TO_RFC_NAMES_MAPPING v = Inr m" and "map_of m n = Some c"
    and "map_of RFC_NAME_TO_KEY_SIZE_MAPPING c = None"
  shows "translate v n = Inl KeyError"
  using assms by (simp add: translate_def getitem_def)

lemma translate_no_name:
  assumes "getitem OPENSSL_TO_RFC_NAMES_MAPPING v = Inr m" and "map_of m n = None"
  shows "translate v n = Inl KeyError"
  using assms by (simp add: translate_def getitem_def)

lemmas translate_TLS_FALLBACK_SCSV =
  translate_no_key_size[OF version_tables(3) tls_TLS_FALLBACK_SCSV key_size_TLS_FALLBACK_SCSV]

lemmas translate_NO_SUCH_CIPHER = translate_no_name[OF version_tables(3) tls_NO_SUCH_CIPHER]

lemma tls_1_3_names:
  "set TLS_1_3_CIPHER_SUITES =
     {''TLS_AES_128_GCM_SHA256'', ''TLS_AES_128_CCM_SHA256'', ''TLS_AES_256_GCM_SHA384'',
      ''TLS_AES_128_CCM_8_SHA256'', ''TLS_CHACHA20_POLY1305_SHA256''}"
  by (simp add: TLS_1_3_CIPHER_SUITES_def)

lemma translate_tls_not_tls_1_3:
  assumes "translate TLS_1_2 n = Inr cs"
  shows "name cs \<notin> set TLS_1_3_CIPHER_SUITES"
proof -
  from assms have "map_of TLS_OPENSSL_TO_RFC_NAMES_MAPPING n = Some (name cs)"
    by (auto simp add: translate_Inr version_tables getitem_Inr)
  then have "(n, name cs) \<in> set TLS_OPENSSL_TO_RFC_NAMES_MAPPING" by (rule map_of_SomeD)
  with tls_names_not_tls_1_3 show ?thesis
    unfolding list_all_iff by blast
qed

lemma legacy_modern_run:
  "snd (parse_all_cipher_suites
         (\<lambda>c v s. case c of LegacySslClient \<Rightarrow> Inr [''NULL-MD5'']
                           | SslClient \<Rightarrow> Inr [''TLS_AES_128_GCM_SHA256''])) =
   Inr (projr (snd (parse_all_cipher_suites
         (\<lambda>c v s. case c of LegacySslClient \<Rightarrow> Inr [''NULL-MD5'']
                           | SslClient \<Rightarrow> Inr [''TLS_AES_128_GCM_SHA256'']))))"
proof -
  let ?eng = "\<lambda>c (v :: TlsVersionEnum) (s :: string).
     case c of LegacySslClient \<Rightarrow> (Inr [''NULL-MD5''] :: error + string list)
             | SslClient \<Rightarrow> Inr [''TLS_AES_128_GCM_SHA256'']"
  have q: "\<And>v. ?eng LegacySslClient v cipher_string = Inr [''NULL-MD5'']"
    and m: "?eng SslClient TLS_1_2 cipher_string = Inr [''TLS_AES_128_GCM_SHA256'']"
    by simp_all
  have "\<not> isl (snd (parse_all_cipher_suites ?eng))"
    unfolding parse_all_cipher_suites_KeyError(2)[OF q q q q q m]
      parse_all_cipher_suites_KeyError(1)[OF q q q q q m]
    by (simp add: translate_NULL_MD5 tls_1_3_names)
  then show ?thesis by simp
qed

lemma tls_1_3_names_not_anon:
  assumes "c \<in> set TLS_1_3_CIPHER_SUITES"
  shows "\<not> str_in ''anon'' c"
  using assms unfolding tls_1_3_names by auto

lemma key_size_SSL_CK_RC4_128_WITH_MD5:
  "map_of RFC_NAME_TO_KEY_SIZE_MAPPING ''SSL_CK_RC4_128_WITH_MD5'' = Some 128"
  unfolding RFC_NAME_TO_KEY_SIZE_MAPPING_def
  by (rule map_of_hit | (rule map_of_skip, (simp only: list.inject char.inject simp_thms)[1]))+

lemma key_size_SSL_CK_RC4_128_EXPORT40_WITH_MD5:
  "map_of RFC_NAME_TO_KEY_SIZE_MAPPING ''SSL_CK_RC4_128_EXPORT40_WITH_MD5'' = Some 40"
  unfolding RFC_NAME_TO_KEY_SIZE_MAPPING_def
  by (rule map_of_hit | (rule map_of_skip, (simp only: list.inject char.inject simp_thms)[1]))+

lemma key_size_SSL_CK_RC2_128_CBC_WITH_MD5:
  "map_of RFC_NAME_TO_KEY_SIZE_MAPPING ''SSL_CK_RC2_128_CBC_WITH_MD5'' = Some 128"
  unfolding RFC_NAME_TO_KEY_SIZE_MAPPING_def
  by (rule map_of_hit | (rule map_of_skip, (simp only: list.inject char.inject simp_thms)[1]))+

lemma key_size_SSL_CK_RC2_128_CBC_EXPORT40_WITH_MD5:
  "map_of RFC_NAME_TO_KEY_SIZE_MAPPING ''SSL_CK_RC2_128_CBC_EXPORT40_WITH_MD5'' = Some 40"
  unfolding RFC_NAME_TO_KEY_SIZE_MAPPING_def
  by (rule map_of_hit | (rule map_of_skip, (simp only: list.inject char.inject simp_thms)[1]))+

lemma key_size_SSL_CK_IDEA_128_CBC_WITH_MD5:
  "map_of RFC_NAME_TO_KEY_SIZE_MAPPING ''SSL_CK_IDEA_128_CBC_WITH_MD5'' = Some 128"
  unfolding RFC_NAME_TO_KEY_SIZE_MAPPING_def
  by (rule map_of_hit | (rule map_of_skip, (simp only: list.inject char.inject simp_thms)[1]))+

lemma key_size_SSL_CK_DES_64_CBC_WITH_MD5:
  "map_of RFC_NAME_TO_KEY_SIZE_MAPPING ''SSL_CK_DES_64_CBC_WITH_MD5'' = Some 56"
  unfolding RFC_NAME_TO_KEY_SIZE_MAPPING_def
  by (rule map_of_hit | (rule map_of_skip, (simp only: list.inject char.inject simp_thms)[1]))+

lemma key_size_SSL_CK_DES_192_EDE3_CBC_WITH_MD5:
  "map_of RFC_NAME_TO_KEY_SIZE_MAPPING ''SSL_CK_DES_192_EDE3_CBC_WITH_MD5'' = Some 168"
  unfolding RFC_NAME_TO_KEY_SIZE_MAPPING_def
  by (rule map_of_hit | (rule map_of_skip, (simp only: list.inject char.inject simp_thms)[1]))+

lemma key_size_SSL_CK_RC4_64_WITH_MD5:
  "map_of RFC_NAME_TO_KEY_SIZE_MAPPING ''SSL_CK_RC4_64_WITH_MD5'' = Some 64"
  unfolding RFC_NAME_TO_KEY_SIZE_MAPPING_def
  by (rule map_of_hit | (rule map_of_skip, (simp only: list.inject char.inject simp_thms)[1]))+

lemmas key_size_sslv2 =
  key_size_TLS_RSA_WITH_NULL_MD5
  key_size_SSL_CK_RC4_128_WITH_MD5
  key_size_SSL_CK_RC4_128_EXPORT40_WITH_MD5
  key_size_SSL_CK_RC2_128_CBC_WITH_MD5
  key_size_SSL_CK_RC2_128_CBC_EXPORT40_WITH_MD5
  key_size_SSL_CK_IDEA_128_CBC_WITH_MD5
  key_size_SSL_CK_DES_64_CBC_WITH_MD5
  key_size_SSL_CK_DES_192_EDE3_CBC_WITH_MD5
  key_size_SSL_CK_RC4_64_WITH_MD5

lemma sslv2_entries:
  "list_all (\<lambda>(n, c). map_of SSLV2_OPENSSL_TO_RFC_NAMES_MAPPING n = Some c \<and>
       \<not> str_in ''anon'' c \<and>
       (\<exists>b. map_of RFC_NAME_TO_KEY_SIZE_MAPPING c = Some b \<and> b \<in> {0, 40, 56, 64, 128, 168} \<and>
            (b = 0 \<longleftrightarrow> n = ''NULL-MD5'')))
     SSLV2_OPENSSL_TO_RFC_NAMES_MAPPING"
  unfolding SSLV2_OPENSSL_TO_RFC_NAMES_MAPPING_def
  by (simp add: key_size_sslv2)

lemma sslv2_names_distinct: "distinct (map snd SSLV2_OPENSSL_TO_RFC_NAMES_MAPPING)"
  unfolding SSLV2_OPENSSL_TO_RFC_NAMES_MAPPING_def by simp

lemma sslv2_injective:
  assumes "map_of SSLV2_OPENSSL_TO_RFC_NAMES_MAPPING n1 = Some c"
    and "map_of SSLV2_OPENSSL_TO_RFC_NAMES_MAPPING n2 = Some c"
  shows "n1 = n2"
proof -
  from assms have "(n1, c) \<in> set SSLV2_OPENSSL_TO_RFC_NAMES_MAPPING"
    "(n2, c) \<in> set SSLV2_OPENSSL_TO_RFC_NAMES_MAPPING"
    by (auto dest: map_of_SomeD)
  with sslv2_names_distinct show ?thesis
    by (metis Pair_inject distinct_map inj_on_def snd_conv)
qed

lemma translate_determined:
  assumes "translate v n = Inr a" and "translate v n = Inr b"
  shows "a = b"
  using assms by simp

lemma tls_1_3_suites_names_distinct:
  assumes "a \<in> projr (tls_1_3_suites TLS_1_3_CIPHER_SUITES)"
    and "b \<in> projr (tls_1_3_suites TLS_1_3_CIPHER_SUITES)" and "name a = name b"
  shows "a = b"
proof -
  note fa = tls_1_3_suite_fields[OF assms(1)] and fb = tls_1_3_suite_fields[OF assms(2)]
  have "openssl_name a = openssl_name b" using fa(2) fb(2) assms(3) by simp
  moreover have "is_anonymous a = is_anonymous b" using fa(3) fb(3) by simp
  moreover have "key_size a = key_size b" using fa(4) fb(4) assms(3) by simp
  ultimately show ?thesis using assms(3) by simp
qed

lemma two_spellings_ok:
  "\<not> (\<exists>n\<in>set [''EDH-RSA-DES-CBC3-SHA'', ''DHE-RSA-DES-CBC3-SHA'']. isl (translate TLS_1_0 n))"
  by (simp add: translate_EDH_RSA_DES_CBC3_SHA translate_DHE_RSA_DES_CBC3_SHA)

lemma two_spellings_catalog:
  "projr (snd (parse_all_cipher_suites
      (\<lambda>c v s. if v = TLS_1_0 then Inr [''EDH-RSA-DES-CBC3-SHA'', ''DHE-RSA-DES-CBC3-SHA''] else Inr [])))
      TLS_1_0 =
     Some {\<lparr> name = ''TLS_DHE_RSA_WITH_3DES_EDE_CBC_SHA'', openssl_name = ''EDH-RSA-DES-CBC3-SHA'',
              is_anonymous = False, key_size = 168 \<rparr>,
           \<lparr> name = ''TLS_DHE_RSA_WITH_3DES_EDE_CBC_SHA'', openssl_name = ''DHE-RSA-DES-CBC3-SHA'',
              is_anonymous = False, key_size = 168 \<rparr>}"
  unfolding tls_1_0_catalog[OF two_spellings_ok]
  by (simp add: translate_EDH_RSA_DES_CBC3_SHA translate_DHE_RSA_DES_CBC3_SHA)

lemma translate_tls_1_2_EDH_RSA_DES_CBC3_SHA:
  "translate TLS_1_2 ''EDH-RSA-DES-CBC3-SHA'' =
     Inr \<lparr> name = ''TLS_DHE_RSA_WITH_3DES_EDE_CBC_SHA'', openssl_name = ''EDH-RSA-DES-CBC3-SHA'',
            is_anonymous = False, key_size = 168 \<rparr>"
  unfolding translateI[OF version_tables(5) tls_EDH_RSA_DES_CBC3_SHA key_size_TLS_DHE_RSA_WITH_3DES_EDE_CBC_SHA]
  by simp

lemma translate_tls_1_2_DHE_RSA_DES_CBC3_SHA:
  "translate TLS_1_2 ''DHE-RSA-DES-CBC3-SHA'' =
     Inr \<lparr> name = ''TLS_DHE_RSA_WITH_3DES_EDE_CBC_SHA'', openssl_name = ''DHE-RSA-DES-CBC3-SHA'',
            is_anonymous = False, key_size = 168 \<rparr>"
  unfolding translateI[OF version_tables(5) tls_DHE_RSA_DES_CBC3_SHA key_size_TLS_DHE_RSA_WITH_3DES_EDE_CBC_SHA]
  by simp

lemma two_spellings_names:
  "(set [''EDH-RSA-DES-CBC3-SHA''] \<union> set [''DHE-RSA-DES-CBC3-SHA'']) - set TLS_1_3_CIPHER_SUITES =
     {''EDH-RSA-DES-CBC3-SHA'', ''DHE-RSA-DES-CBC3-SHA''}"
  by (simp add: tls_1_3_names insert_commute)

lemma two_spellings_tls_1_2_run:
  "snd (parse_all_cipher_suites
     (\<lambda>c v s. if v = TLS_1_2
        then (case c of LegacySslClient \<Rightarrow> Inr [''EDH-RSA-DES-CBC3-SHA'']
                      | SslClient \<Rightarrow> Inr [''DHE-RSA-DES-CBC3-SHA''])
        else Inr [])) =
   Inr (projr (snd (parse_all_cipher_suites
     (\<lambda>c v s. if v = TLS_1_2
        then (case c of LegacySslClient \<Rightarrow> Inr [''EDH-RSA-DES-CBC3-SHA'']
                      | SslClient \<Rightarrow> Inr [''DHE-RSA-DES-CBC3-SHA''])
        else Inr []))))"
proof -
  let ?eng = "\<lambda>c v (s :: string). if v = TLS_1_2
        then (case c of LegacySslClient \<Rightarrow> Inr [''EDH-RSA-DES-CBC3-SHA'']
                      | SslClient \<Rightarrow> Inr [''DHE-RSA-DES-CBC3-SHA''])
        else (Inr [] :: error + string list)"
  have q: "?eng LegacySslClient SSL_2_0 cipher_string = Inr []"
    "?eng LegacySslClient SSL_3_0 cipher_string = Inr []"
    "?eng LegacySslClient TLS_1_0 cipher_string = Inr []"
    "?eng LegacySslClient TLS_1_1 cipher_string = Inr []"
    "?eng LegacySslClient TLS_1_2 cipher_string = Inr [''EDH-RSA-DES-CBC3-SHA'']"
    "?eng SslClient TLS_1_2 cipher_string = Inr [''DHE-RSA-DES-CBC3-SHA'']"
    by simp_all
  have "\<not> isl (snd (parse_all_cipher_suites ?eng))"
    unfolding parse_all_cipher_suites_KeyError(2)[where eng="?eng", OF q]
      parse_all_cipher_suites_KeyError(1)[where eng="?eng", OF q] two_spellings_names
    by (simp add: translate_tls_1_2_EDH_RSA_DES_CBC3_SHA translate_tls_1_2_DHE_RSA_DES_CBC3_SHA)
  then show ?thesis by simp
qed

lemma two_spellings_tls_1_2_catalog:
  "projr (snd (parse_all_cipher_suites
     (\<lambda>c v s. if v = TLS_1_2
        then (case c of LegacySslClient \<Rightarrow> Inr [''EDH-RSA-DES-CBC3-SHA'']
                      | SslClient \<Rightarrow> Inr [''DHE-RSA-DES-CBC3-SHA''])
        else Inr []))) TLS_1_2 =
     Some {\<lparr> name = ''TLS_DHE_RSA_WITH_3DES_EDE_CBC_SHA'', openssl_name = ''EDH-RSA-DES-CBC3-SHA'',
              is_anonymous = False, key_size = 168 \<rparr>,
           \<lparr> name = ''TLS_DHE_RSA_WITH_3DES_EDE_CBC_SHA'', openssl_name = ''DHE-RSA-DES-CBC3-SHA'',
              is_anonymous = False, key_size = 168 \<rparr>}"
proof -
  let ?eng = "\<lambda>c v (s :: string). if v = TLS_1_2
        then (case c of LegacySslClient \<Rightarrow> Inr [''EDH-RSA-DES-CBC3-SHA'']
                      | SslClient \<Rightarrow> Inr [''DHE-RSA-DES-CBC3-SHA''])
        else (Inr [] :: error + string list)"
  from parse_all_cipher_suites_InrD[OF parse_all_cipher_suites_snd[OF two_spellings_tls_1_2_run]]
  obtain leg mdn where
    l: "?eng LegacySslClient TLS_1_2 cipher_string = Inr leg" and
    m: "?eng SslClient TLS_1_2 cipher_string = Inr mdn" and
    c: "projr (snd (parse_all_cipher_suites ?eng)) TLS_1_2 =
          Some ((\<lambda>n. projr (translate TLS_1_2 n)) `
                  ((set leg \<union> set mdn) - set TLS_1_3_CIPHER_SUITES))"
    by (elim exE conjE)
  from l have leg: "leg = [''EDH-RSA-DES-CBC3-SHA'']" by simp
  from m have mdn: "mdn = [''DHE-RSA-DES-CBC3-SHA'']" by simp
  show ?thesis
    unfolding c leg mdn two_spellings_names
    by (simp add: translate_tls_1_2_EDH_RSA_DES_CBC3_SHA translate_tls_1_2_DHE_RSA_DES_CBC3_SHA)
qed

lemma list_all_fst_mem: "xs = ys \<Longrightarrow> list_all (\<lambda>p. fst p \<in> fst ` set xs) ys"
  by (simp add: list_all_iff)

lemmas key_size_keys =
  list_all_fst_mem[OF RFC_NAME_TO_KEY_SIZE_MAPPING_def, unfolded list.pred_inject fst_conv]

lemma tls_entries_have_key_size:
  "list_all (\<lambda>(n, c). str_in ''PSK'' n \<or>
        n \<in> {''TLS_FALLBACK_SCSV'', ''GOST2001-NULL-GOST94'', ''GOST94-NULL-GOST94''} \<or>
        c \<in> fst ` set RFC_NAME_TO_KEY_SIZE_MAPPING)
     TLS_OPENSSL_TO_RFC_NAMES_MAPPING"
  unfolding TLS_OPENSSL_TO_RFC_NAMES_MAPPING_def
  by (simp add: key_size_keys cong: list_all_weak_cong)

lemma key_size_keyD:
  assumes "c \<in> fst ` set RFC_NAME_TO_KEY_SIZE_MAPPING"
  shows "\<exists>b. getitem RFC_NAME_TO_KEY_SIZE_MAPPING c = Inr b"
proof -
  from assms have "map_of RFC_NAME_TO_KEY_SIZE_MAPPING c \<noteq> None"
    by (simp add: map_of_eq_None_iff)
  then show ?thesis by (auto simp add: getitem_def)
qed

lemma table_keyD:
  assumes "n \<in> fst ` set m"
  shows "\<exists>c. map_of m n = Some c \<and> (n, c) \<in> set m"
proof -
  from assms have "map_of m n \<noteq> None" by (simp add: map_of_eq_None_iff)
  then obtain c where "map_of m n = Some c" by blast
  then show ?thesis by (blast dest: map_of_SomeD)
qed

lemma translate_isl:
  "isl (translate v n) \<longleftrightarrow>
     (case map_of OPENSSL_TO_RFC_NAMES_MAPPING v of
        None \<Rightarrow> True
      | Some m \<Rightarrow>
          (case map_of m n of
             None \<Rightarrow> True
           | Some c \<Rightarrow> map_of RFC_NAME_TO_KEY_SIZE_MAPPING c = None))"
  by (simp add: translate_def getitem_def split: option.splits)

lemma translate_isl_KeyError: "isl (translate v n) \<longleftrightarrow> translate v n = Inl KeyError"
  by (cases "translate v n") (auto dest: translate_error)

lemma translate_tls_1_3: "translate TLS_1_3 n = Inl KeyError"
  by (simp add: translate_def version_tables)

lemma create_repository_snd:
  "snd (create_repository eng) =
     (case snd (parse_all_cipher_suites eng) of
        Inl e \<Rightarrow> Inl e
      | Inr d \<Rightarrow> Inr \<lparr> ALL_CIPHER_SUITES = d \<rparr>)"
  unfolding create_repository_def
  by (cases "parse_all_cipher_suites eng"; cases "snd (parse_all_cipher_suites eng)")
     (simp_all add: ret_def)

lemma empty_answers_run:
  "parse_all_cipher_suites (\<lambda>c v s. Inr []) =
     (fst (parse_all_cipher_suites (\<lambda>c v s. Inr [])),
      Inr (projr (snd (parse_all_cipher_suites (\<lambda>c v s. Inr [])))))"
proof -
  let ?eng = "\<lambda>(c :: ssl_client) (v :: TlsVersionEnum) (s :: string). (Inr [] :: error + string list)"
  have q: "\<And>c v. ?eng c v cipher_string = Inr []" by simp
  have "\<not> isl (snd (parse_all_cipher_suites ?eng))"
    unfolding parse_all_cipher_suites_KeyError(2)[where eng="?eng", OF q q q q q q]
      parse_all_cipher_suites_KeyError(1)[where eng="?eng", OF q q q q q q]
    by simp
  then show ?thesis by (simp add: prod_eq_iff)
qed

lemma empty_answers_trace:
  "fst (parse_all_cipher_suites (\<lambda>c v s. Inr [])) =
     concat (map (\<lambda>v. [GetCipherList LegacySslClient v cipher_string, SetItem v,
                         GetCipherList LegacySslClient TLS_1_2 cipher_string,
                         GetCipherList SslClient TLS_1_2 cipher_string,
                         SetItem TLS_1_2, SetItem TLS_1_3])
               [SSL_2_0, SSL_3_0, TLS_1_0, TLS_1_1])"
  using parse_all_cipher_suites_InrD[OF empty_answers_run] by (elim exE conjE)

lemma catalog_total:
  assumes "snd (parse_all_cipher_suites eng) = Inr cat"
  shows "\<exists>S. cat v = Some S"
  using parse_all_cipher_suites_InrD[OF parse_all_cipher_suites_snd[OF assms]]
  by (cases v) auto

section \<open>The TLS 1.3 entry\<close>

text \<open>
  C1. In every catalog the builder returns, the TLS 1.3 entry is exactly the set of five
  records named after the hardcoded list; in each of them the OpenSSL name is the RFC
  name, the suite is not anonymous, and the key size is the one the key-size table gives
  to the name (128 for \<^verbatim>\<open>TLS_AES_128_GCM_SHA256\<close>, 256 for
  \<^verbatim>\<open>TLS_CHACHA20_POLY1305_SHA256\<close>). No run, successful or not, queries the engine
  for TLS 1.3.
\<close>

theorem tls_1_3_entry_is_hardcoded:
  assumes "snd (parse_all_cipher_suites eng) = Inr cat"
  shows "\<exists>S. cat TLS_1_3 = Some S \<and>
     S = {\<lparr> name = ''TLS_AES_128_GCM_SHA256'', openssl_name = ''TLS_AES_128_GCM_SHA256'',
             is_anonymous = False, key_size = 128 \<rparr>,
          \<lparr> name = ''TLS_AES_128_CCM_SHA256'', openssl_name = ''TLS_AES_128_CCM_SHA256'',
             is_anonymous = False, key_size = 128 \<rparr>,
          \<lparr> name = ''TLS_AES_256_GCM_SHA384'', openssl_name = ''TLS_AES_256_GCM_SHA384'',
             is_anonymous = False, key_size = 256 \<rparr>,
          \<lparr> name = ''TLS_AES_128_CCM_8_SHA256'', openssl_name = ''TLS_AES_128_CCM_8_SHA256'',
             is_anonymous = False, key_size = 128 \<rparr>,
          \<lparr> name = ''TLS_CHACHA20_POLY1305_SHA256'', openssl_name = ''TLS_CHACHA20_POLY1305_SHA256'',
             is_anonymous = False, key_size = 256 \<rparr>} \<and>
     name ` S = {''TLS_AES_128_GCM_SHA256'', ''TLS_AES_128_CCM_SHA256'', ''TLS_AES_256_GCM_SHA384'',
                 ''TLS_AES_128_CCM_8_SHA256'', ''TLS_CHACHA20_POLY1305_SHA256''} \<and>
     (\<forall>cs\<in>S. openssl_name cs = name cs \<and> \<not> is_anonymous cs \<and>
        getitem RFC_NAME_TO_KEY_SIZE_MAPPING (name cs) = Inr (key_size cs)) \<and>
     (\<forall>client s. GetCipherList client TLS_1_3 s \<notin> set (fst (parse_all_cipher_suites eng)))"
proof -
  from parse_all_cipher_suites_InrD[OF parse_all_cipher_suites_snd[OF assms]]
  have c: "cat TLS_1_3 = Some (projr (tls_1_3_suites TLS_1_3_CIPHER_SUITES))"
    by blast
  have f: "\<forall>cs\<in>projr (tls_1_3_suites TLS_1_3_CIPHER_SUITES).
      openssl_name cs = name cs \<and> \<not> is_anonymous cs \<and>
      getitem RFC_NAME_TO_KEY_SIZE_MAPPING (name cs) = Inr (key_size cs)"
    using tls_1_3_suite_fields by (simp add: getitem_Inr)
  show ?thesis
    using c f no_tls_1_3_query[of _ _ eng] unfolding tls_1_3_suites_value
    by simp
qed

theorem tls_1_3_entry_is_hardcoded_witness:
  "projr (snd (parse_all_cipher_suites (\<lambda>c v s. Inr [''NULL-MD5'']))) TLS_1_3 =
     Some {\<lparr> name = ''TLS_AES_128_GCM_SHA256'', openssl_name = ''TLS_AES_128_GCM_SHA256'',
             is_anonymous = False, key_size = 128 \<rparr>,
          \<lparr> name = ''TLS_AES_128_CCM_SHA256'', openssl_name = ''TLS_AES_128_CCM_SHA256'',
             is_anonymous = False, key_size = 128 \<rparr>,
          \<lparr> name = ''TLS_AES_256_GCM_SHA384'', openssl_name = ''TLS_AES_256_GCM_SHA384'',
             is_anonymous = False, key_size = 256 \<rparr>,
          \<lparr> name = ''TLS_AES_128_CCM_8_SHA256'', openssl_name = ''TLS_AES_128_CCM_8_SHA256'',
             is_anonymous = False, key_size = 128 \<rparr>,
          \<lparr> name = ''TLS_CHACHA20_POLY1305_SHA256'', openssl_name = ''TLS_CHACHA20_POLY1305_SHA256'',
             is_anonymous = False, key_size = 256 \<rparr>} \<and>
   GetCipherList LegacySslClient TLS_1_3 ''ALL:COMPLEMENTOFALL:-PSK:-SRP''
     \<notin> set (fst (parse_all_cipher_suites (\<lambda>c v s. Inr [''NULL-MD5''])))"
  using tls_1_3_entry_is_hardcoded[OF NULL_MD5_run] by blast

section \<open>The TLS 1.2 entry\<close>

text \<open>
  C2. In every catalog the builder returns, the TLS 1.2 entry is obtained from the answers
  of the legacy and of the modern client for TLS 1.2, both asked with the cipher string
  \<^verbatim>\<open>ALL:COMPLEMENTOFALL:-PSK:-SRP\<close>: the union of the two sets of names, without the
  names of the five-element TLS 1.3 list, each remaining name translated. No suite of the
  entry has one of the five TLS 1.3 names as its RFC name.
\<close>

theorem tls_1_2_entry_is_filtered_union:
  assumes "snd (parse_all_cipher_suites eng) = Inr cat"
  shows "\<exists>leg mdn S.
     eng LegacySslClient TLS_1_2 ''ALL:COMPLEMENTOFALL:-PSK:-SRP'' = Inr leg \<and>
     eng SslClient TLS_1_2 ''ALL:COMPLEMENTOFALL:-PSK:-SRP'' = Inr mdn \<and>
     cat TLS_1_2 = Some S \<and>
     S = {cs. \<exists>n\<in>(set leg \<union> set mdn) - set TLS_1_3_CIPHER_SUITES. translate TLS_1_2 n = Inr cs} \<and>
     set TLS_1_3_CIPHER_SUITES =
       {''TLS_AES_128_GCM_SHA256'', ''TLS_AES_128_CCM_SHA256'', ''TLS_AES_256_GCM_SHA384'',
        ''TLS_AES_128_CCM_8_SHA256'', ''TLS_CHACHA20_POLY1305_SHA256''} \<and>
     (\<forall>cs\<in>S. name cs \<notin> set TLS_1_3_CIPHER_SUITES)"
proof -
  from parse_all_cipher_suites_InrD[OF parse_all_cipher_suites_snd[OF assms]]
  obtain leg mdn where
    q: "eng LegacySslClient TLS_1_2 cipher_string = Inr leg"
       "eng SslClient TLS_1_2 cipher_string = Inr mdn"
    and ok: "\<not> (\<exists>n\<in>(set leg \<union> set mdn) - set TLS_1_3_CIPHER_SUITES. isl (translate TLS_1_2 n))"
    and c: "cat TLS_1_2 = Some ((\<lambda>n. projr (translate TLS_1_2 n)) `
                          ((set leg \<union> set mdn) - set TLS_1_3_CIPHER_SUITES))"
    by blast
  let ?S = "{cs. \<exists>n\<in>(set leg \<union> set mdn) - set TLS_1_3_CIPHER_SUITES. translate TLS_1_2 n = Inr cs}"
  have c': "cat TLS_1_2 = Some ?S"
    using c unfolding translated_set[OF ok] .
  have n: "\<forall>cs\<in>?S. name cs \<notin> set TLS_1_3_CIPHER_SUITES"
  proof
    fix cs assume "cs \<in> ?S"
    then obtain n where "translate TLS_1_2 n = Inr cs" by blast
    then show "name cs \<notin> set TLS_1_3_CIPHER_SUITES" by (rule translate_tls_not_tls_1_3)
  qed
  show ?thesis
    apply (rule exI[of _ leg], rule exI[of _ mdn], rule exI[of _ ?S])
    apply (intro conjI)
         apply (rule q(1)[unfolded cipher_string_def])
        apply (rule q(2)[unfolded cipher_string_def])
       apply (rule c')
      apply (rule refl)
     apply (rule tls_1_3_names)
    apply (rule n)
    done
qed

theorem tls_1_2_entry_is_filtered_union_witness:
  "projr (snd (parse_all_cipher_suites
         (\<lambda>c v s. case c of LegacySslClient \<Rightarrow> Inr [''NULL-MD5'']
                           | SslClient \<Rightarrow> Inr [''TLS_AES_128_GCM_SHA256'']))) TLS_1_2 =
     Some {\<lparr> name = ''TLS_RSA_WITH_NULL_MD5'', openssl_name = ''NULL-MD5'',
              is_anonymous = False, key_size = 0 \<rparr>}"
proof -
  let ?eng = "\<lambda>c (v :: TlsVersionEnum) (s :: string).
     case c of LegacySslClient \<Rightarrow> (Inr [''NULL-MD5''] :: error + string list)
             | SslClient \<Rightarrow> Inr [''TLS_AES_128_GCM_SHA256'']"
  from tls_1_2_entry_is_filtered_union[OF legacy_modern_run]
  obtain leg mdn S where
    l: "?eng LegacySslClient TLS_1_2 ''ALL:COMPLEMENTOFALL:-PSK:-SRP'' = Inr leg" and
    m: "?eng SslClient TLS_1_2 ''ALL:COMPLEMENTOFALL:-PSK:-SRP'' = Inr mdn" and
    c: "projr (snd (parse_all_cipher_suites ?eng)) TLS_1_2 = Some S" and
    S: "S = {cs. \<exists>n\<in>(set leg \<union> set mdn) - set TLS_1_3_CIPHER_SUITES. translate TLS_1_2 n = Inr cs}"
    by (elim exE conjE)
  from l have leg: "leg = [''NULL-MD5'']" by simp
  from m have mdn: "mdn = [''TLS_AES_128_GCM_SHA256'']" by simp
  have d: "(set leg \<union> set mdn) - set TLS_1_3_CIPHER_SUITES = {''NULL-MD5''}"
    unfolding leg mdn by (simp add: tls_1_3_names)
  have "S = {\<lparr> name = ''TLS_RSA_WITH_NULL_MD5'', openssl_name = ''NULL-MD5'',
              is_anonymous = False, key_size = 0 \<rparr>}"
    unfolding S d by (auto simp add: translate_NULL_MD5)
  with c show ?thesis by (simp only:)
qed

section \<open>SSL 2.0 suites\<close>

text \<open>
  C3, as amended. Every OpenSSL name of the SSLv2 table translates, under SSL 2.0, to the
  RFC name the table gives; every suite translated under SSL 2.0 is not anonymous and
  has a key size among 0, 40, 56, 64, 128 and 168, the size 0 exactly for
  \<^verbatim>\<open>NULL-MD5\<close>. So no name of the table has key size 256, but one has key size 0.
\<close>

theorem sslv2_suites_not_anonymous_key_sizes:
  "(\<forall>(n, c) \<in> set SSLV2_OPENSSL_TO_RFC_NAMES_MAPPING.
      \<exists>cs. translate SSL_2_0 n = Inr cs \<and> name cs = c) \<and>
   (\<forall>n cs. translate SSL_2_0 n = Inr cs \<longrightarrow>
      (n, name cs) \<in> set SSLV2_OPENSSL_TO_RFC_NAMES_MAPPING \<and>
      \<not> is_anonymous cs \<and>
      key_size cs \<in> {0, 40, 56, 64, 128, 168} \<and>
      (key_size cs = 0 \<longleftrightarrow> n = ''NULL-MD5''))"
proof (intro conjI allI impI ballI)
  fix p assume p: "p \<in> set SSLV2_OPENSSL_TO_RFC_NAMES_MAPPING"
  obtain n c where nc: "p = (n, c)" by (cases p)
  from sslv2_entries p nc obtain b where
    "map_of SSLV2_OPENSSL_TO_RFC_NAMES_MAPPING n = Some c" "map_of RFC_NAME_TO_KEY_SIZE_MAPPING c = Some b"
    unfolding list_all_iff by blast
  from translateI[OF version_tables(1) this]
  show "case p of (n, c) \<Rightarrow> \<exists>cs. translate SSL_2_0 n = Inr cs \<and> name cs = c"
    unfolding nc by simp
next
  fix n cs assume t: "translate SSL_2_0 n = Inr cs"
  then have m: "map_of SSLV2_OPENSSL_TO_RFC_NAMES_MAPPING n = Some (name cs)"
    by (auto simp add: translate_Inr version_tables getitem_Inr)
  then have mem: "(n, name cs) \<in> set SSLV2_OPENSSL_TO_RFC_NAMES_MAPPING" by (rule map_of_SomeD)
  with sslv2_entries obtain b where
    b: "\<not> str_in ''anon'' (name cs)" "map_of RFC_NAME_TO_KEY_SIZE_MAPPING (name cs) = Some b"
       "b \<in> {0, 40, 56, 64, 128, 168}" "b = 0 \<longleftrightarrow> n = ''NULL-MD5''"
    unfolding list_all_iff by blast
  from translate_key_size[OF t] b(2) have k: "key_size cs = b" by simp
  from mem show "(n, name cs) \<in> set SSLV2_OPENSSL_TO_RFC_NAMES_MAPPING" .
  from b(1) translate_is_anonymous[OF t] show "\<not> is_anonymous cs" by simp
  from b(3) k show "key_size cs \<in> {0, 40, 56, 64, 128, 168}" by simp
  from b(4) k show "key_size cs = 0 \<longleftrightarrow> n = ''NULL-MD5''" by simp
qed

theorem sslv2_suites_not_anonymous_key_sizes_witness:
  "translate SSL_2_0 ''RC4-MD5'' =
     Inr \<lparr> name = ''SSL_CK_RC4_128_WITH_MD5'', openssl_name = ''RC4-MD5'',
            is_anonymous = False, key_size = 128 \<rparr> \<and>
   (''RC4-MD5'', ''SSL_CK_RC4_128_WITH_MD5'') \<in> set SSLV2_OPENSSL_TO_RFC_NAMES_MAPPING \<and>
   key_size \<lparr> name = ''SSL_CK_RC4_128_WITH_MD5'', openssl_name = ''RC4-MD5'',
              is_anonymous = False, key_size = 128 \<rparr> \<in> {0, 40, 56, 64, 128, 168}"
proof -
  have m: "map_of SSLV2_OPENSSL_TO_RFC_NAMES_MAPPING ''RC4-MD5'' = Some ''SSL_CK_RC4_128_WITH_MD5''"
    unfolding SSLV2_OPENSSL_TO_RFC_NAMES_MAPPING_def by (rule map_of_hit)
  have t: "translate SSL_2_0 ''RC4-MD5'' =
     Inr \<lparr> name = ''SSL_CK_RC4_128_WITH_MD5'', openssl_name = ''RC4-MD5'',
            is_anonymous = False, key_size = 128 \<rparr>"
    unfolding translateI[OF version_tables(1) m key_size_SSL_CK_RC4_128_WITH_MD5] by simp
  from sslv2_suites_not_anonymous_key_sizes
  have "translate SSL_2_0 ''RC4-MD5'' = Inr \<lparr> name = ''SSL_CK_RC4_128_WITH_MD5'', openssl_name = ''RC4-MD5'',
            is_anonymous = False, key_size = 128 \<rparr> \<longrightarrow>
      (''RC4-MD5'', name \<lparr> name = ''SSL_CK_RC4_128_WITH_MD5'', openssl_name = ''RC4-MD5'',
            is_anonymous = False, key_size = 128 \<rparr>) \<in> set SSLV2_OPENSSL_TO_RFC_NAMES_MAPPING \<and>
      key_size \<lparr> name = ''SSL_CK_RC4_128_WITH_MD5'', openssl_name = ''RC4-MD5'',
            is_anonymous = False, key_size = 128 \<rparr> \<in> {0, 40, 56, 64, 128, 168}"
    by blast
  with t show ?thesis by simp
qed

text \<open>
  The claim as stated excludes key size 0 for SSL 2.0. The SSLv2 table maps
  \<^verbatim>\<open>NULL-MD5\<close> to \<^verbatim>\<open>TLS_RSA_WITH_NULL_MD5\<close>, whose key size is 0.
\<close>

theorem sslv2_null_cipher_counterexample:
  "map_of SSLV2_OPENSSL_TO_RFC_NAMES_MAPPING ''NULL-MD5'' = Some ''TLS_RSA_WITH_NULL_MD5'' \<and>
   map_of RFC_NAME_TO_KEY_SIZE_MAPPING ''TLS_RSA_WITH_NULL_MD5'' = Some 0 \<and>
   translate SSL_2_0 ''NULL-MD5'' =
     Inr \<lparr> name = ''TLS_RSA_WITH_NULL_MD5'', openssl_name = ''NULL-MD5'',
            is_anonymous = False, key_size = 0 \<rparr> \<and>
   key_size \<lparr> name = ''TLS_RSA_WITH_NULL_MD5'', openssl_name = ''NULL-MD5'',
              is_anonymous = False, key_size = 0 \<rparr> \<notin> {40, 56, 64, 128, 168}"
  using sslv2_NULL_MD5 key_size_TLS_RSA_WITH_NULL_MD5 translate_NULL_MD5[of SSL_2_0]
  by simp

section \<open>Uniqueness of names within a version\<close>

text \<open>
  C4, as amended. Two distinct records of one version's set always differ in their OpenSSL
  name, and each has the RFC name that the version's table gives to its OpenSSL name; so
  two records share an RFC name only where the table maps two OpenSSL spellings to one RFC
  name. In the sets of SSL 2.0 and TLS 1.3 the RFC names are pairwise distinct.
\<close>

theorem distinct_records_distinct_native_names:
  assumes "snd (parse_all_cipher_suites eng) = Inr cat" and "cat v = Some S"
    and "S1 \<in> S" and "S2 \<in> S" and "S1 \<noteq> S2"
  shows "openssl_name S1 \<noteq> openssl_name S2 \<and>
         (v = TLS_1_3 \<or> v = SSL_2_0 \<longrightarrow> name S1 \<noteq> name S2) \<and>
         (\<forall>m. getitem OPENSSL_TO_RFC_NAMES_MAPPING v = Inr m \<longrightarrow>
            map_of m (openssl_name S1) = Some (name S1) \<and>
            map_of m (openssl_name S2) = Some (name S2))"
proof (cases "v = TLS_1_3")
  case True
  from catalog_memberD[OF assms(1,2,3)] catalog_memberD[OF assms(1,2,4)] True
  have m: "S1 \<in> projr (tls_1_3_suites TLS_1_3_CIPHER_SUITES)"
    "S2 \<in> projr (tls_1_3_suites TLS_1_3_CIPHER_SUITES)" by simp_all
  from tls_1_3_suites_names_distinct[OF m] assms(5) have n: "name S1 \<noteq> name S2" by blast
  with tls_1_3_suite_fields(2)[OF m(1)] tls_1_3_suite_fields(2)[OF m(2)]
  have "openssl_name S1 \<noteq> openssl_name S2" by simp
  with n True show ?thesis by (simp add: version_tables)
next
  case False
  from catalog_memberD[OF assms(1,2,3)] catalog_memberD[OF assms(1,2,4)] False
  obtain n1 n2 where t: "translate v n1 = Inr S1" "translate v n2 = Inr S2" by blast
  have o: "openssl_name S1 = n1" "openssl_name S2 = n2"
    using t by (simp_all add: translate_openssl_name)
  have d: "n1 \<noteq> n2" using t assms(5) by auto
  have tab: "\<forall>m. getitem OPENSSL_TO_RFC_NAMES_MAPPING v = Inr m \<longrightarrow>
            map_of m n1 = Some (name S1) \<and> map_of m n2 = Some (name S2)"
    using t by (auto simp add: translate_Inr getitem_Inr)
  have "v = SSL_2_0 \<longrightarrow> name S1 \<noteq> name S2"
  proof (intro impI notI)
    assume v: "v = SSL_2_0" and e: "name S1 = name S2"
    from tab v e version_tables(1) have
      "map_of SSLV2_OPENSSL_TO_RFC_NAMES_MAPPING n1 = Some (name S2)"
      "map_of SSLV2_OPENSSL_TO_RFC_NAMES_MAPPING n2 = Some (name S2)" by simp_all
    from sslv2_injective[OF this] d show False by simp
  qed
  with d tab False show ?thesis unfolding o by simp
qed

theorem distinct_records_distinct_native_names_witness:
  "openssl_name \<lparr> name = ''TLS_DHE_RSA_WITH_3DES_EDE_CBC_SHA'', openssl_name = ''EDH-RSA-DES-CBC3-SHA'',
              is_anonymous = False, key_size = 168 \<rparr> \<noteq>
   openssl_name \<lparr> name = ''TLS_DHE_RSA_WITH_3DES_EDE_CBC_SHA'', openssl_name = ''DHE-RSA-DES-CBC3-SHA'',
              is_anonymous = False, key_size = 168 \<rparr> \<and>
   map_of TLS_OPENSSL_TO_RFC_NAMES_MAPPING ''EDH-RSA-DES-CBC3-SHA'' = Some ''TLS_DHE_RSA_WITH_3DES_EDE_CBC_SHA'' \<and>
   map_of TLS_OPENSSL_TO_RFC_NAMES_MAPPING ''DHE-RSA-DES-CBC3-SHA'' = Some ''TLS_DHE_RSA_WITH_3DES_EDE_CBC_SHA''"
proof -
  let ?a = "\<lparr> name = ''TLS_DHE_RSA_WITH_3DES_EDE_CBC_SHA'', openssl_name = ''EDH-RSA-DES-CBC3-SHA'',
              is_anonymous = False, key_size = 168 \<rparr>"
  let ?b = "\<lparr> name = ''TLS_DHE_RSA_WITH_3DES_EDE_CBC_SHA'', openssl_name = ''DHE-RSA-DES-CBC3-SHA'',
              is_anonymous = False, key_size = 168 \<rparr>"
  have a: "?a \<in> {?a, ?b}" and b: "?b \<in> {?a, ?b}" and d: "?a \<noteq> ?b" by simp_all
  from distinct_records_distinct_native_names[OF tls_1_0_run[OF two_spellings_ok]
      two_spellings_catalog a b d] version_tables(3)
  show ?thesis by simp
qed

text \<open>
  The claim as stated says that no RFC name occurs twice in a version's set, for every
  answer of the engine. When, for TLS 1.2, the legacy client answers the spelling
  \<^verbatim>\<open>EDH-RSA-DES-CBC3-SHA\<close> and the modern client the spelling \<^verbatim>\<open>DHE-RSA-DES-CBC3-SHA\<close>,
  the TLS 1.2 set holds two different records named \<^verbatim>\<open>TLS_DHE_RSA_WITH_3DES_EDE_CBC_SHA\<close>.
\<close>

theorem canonical_name_twice_counterexample:
  "\<not> isl (snd (parse_all_cipher_suites
     (\<lambda>c v s. if v = TLS_1_2
        then (case c of LegacySslClient \<Rightarrow> Inr [''EDH-RSA-DES-CBC3-SHA'']
                      | SslClient \<Rightarrow> Inr [''DHE-RSA-DES-CBC3-SHA''])
        else Inr []))) \<and>
   projr (snd (parse_all_cipher_suites
     (\<lambda>c v s. if v = TLS_1_2
        then (case c of LegacySslClient \<Rightarrow> Inr [''EDH-RSA-DES-CBC3-SHA'']
                      | SslClient \<Rightarrow> Inr [''DHE-RSA-DES-CBC3-SHA''])
        else Inr []))) TLS_1_2 =
     Some {\<lparr> name = ''TLS_DHE_RSA_WITH_3DES_EDE_CBC_SHA'', openssl_name = ''EDH-RSA-DES-CBC3-SHA'',
              is_anonymous = False, key_size = 168 \<rparr>,
           \<lparr> name = ''TLS_DHE_RSA_WITH_3DES_EDE_CBC_SHA'', openssl_name = ''DHE-RSA-DES-CBC3-SHA'',
              is_anonymous = False, key_size = 168 \<rparr>} \<and>
   \<lparr> name = ''TLS_DHE_RSA_WITH_3DES_EDE_CBC_SHA'', openssl_name = ''EDH-RSA-DES-CBC3-SHA'',
      is_anonymous = False, key_size = 168 \<rparr> \<noteq>
   \<lparr> name = ''TLS_DHE_RSA_WITH_3DES_EDE_CBC_SHA'', openssl_name = ''DHE-RSA-DES-CBC3-SHA'',
      is_anonymous = False, key_size = 168 \<rparr> \<and>
   name \<lparr> name = ''TLS_DHE_RSA_WITH_3DES_EDE_CBC_SHA'', openssl_name = ''EDH-RSA-DES-CBC3-SHA'',
      is_anonymous = False, key_size = 168 \<rparr> =
   name \<lparr> name = ''TLS_DHE_RSA_WITH_3DES_EDE_CBC_SHA'', openssl_name = ''DHE-RSA-DES-CBC3-SHA'',
      is_anonymous = False, key_size = 168 \<rparr>"
proof -
  have "\<not> isl (snd (parse_all_cipher_suites
     (\<lambda>c v s. if v = TLS_1_2
        then (case c of LegacySslClient \<Rightarrow> Inr [''EDH-RSA-DES-CBC3-SHA'']
                      | SslClient \<Rightarrow> Inr [''DHE-RSA-DES-CBC3-SHA''])
        else Inr [])))"
    using two_spellings_tls_1_2_run by (metis sum.disc(2))
  with two_spellings_tls_1_2_catalog show ?thesis by simp
qed

section \<open>Coverage of the key-size table\<close>

text \<open>
  C5, as amended. Every RFC name of the SSLv2 table and of the TLS 1.3 list is a key of the
  key-size table, and so is the RFC name of every entry of the shared TLS table whose
  OpenSSL name does not contain \<^verbatim>\<open>PSK\<close> and is none of \<^verbatim>\<open>TLS_FALLBACK_SCSV\<close>,
  \<^verbatim>\<open>GOST2001-NULL-GOST94\<close> and \<^verbatim>\<open>GOST94-NULL-GOST94\<close>. Translating such an OpenSSL
  name, under a version that has a table, succeeds.
\<close>

theorem catalogued_names_have_key_size:
  "(\<forall>(n, c) \<in> set SSLV2_OPENSSL_TO_RFC_NAMES_MAPPING.
       \<exists>b. getitem RFC_NAME_TO_KEY_SIZE_MAPPING c = Inr b) \<and>
   (\<forall>c \<in> set TLS_1_3_CIPHER_SUITES. \<exists>b. getitem RFC_NAME_TO_KEY_SIZE_MAPPING c = Inr b) \<and>
   (\<forall>(n, c) \<in> set TLS_OPENSSL_TO_RFC_NAMES_MAPPING.
       \<not> str_in ''PSK'' n \<and>
       n \<notin> {''TLS_FALLBACK_SCSV'', ''GOST2001-NULL-GOST94'', ''GOST94-NULL-GOST94''} \<longrightarrow>
       (\<exists>b. getitem RFC_NAME_TO_KEY_SIZE_MAPPING c = Inr b)) \<and>
   (\<forall>v m n. getitem OPENSSL_TO_RFC_NAMES_MAPPING v = Inr m \<and> n \<in> fst ` set m \<and>
       \<not> str_in ''PSK'' n \<and>
       n \<notin> {''TLS_FALLBACK_SCSV'', ''GOST2001-NULL-GOST94'', ''GOST94-NULL-GOST94''} \<longrightarrow>
       (\<exists>cs. translate v n = Inr cs))"
proof -
  have sslv2: "\<forall>(n, c) \<in> set SSLV2_OPENSSL_TO_RFC_NAMES_MAPPING.
       \<exists>b. getitem RFC_NAME_TO_KEY_SIZE_MAPPING c = Inr b"
    using sslv2_entries unfolding list_all_iff by (auto simp add: getitem_Inr)
  have tls13: "\<forall>c \<in> set TLS_1_3_CIPHER_SUITES. \<exists>b. getitem RFC_NAME_TO_KEY_SIZE_MAPPING c = Inr b"
    unfolding tls_1_3_names by (simp add: getitem_Inr key_size_tls_1_3)
  have tls: "\<forall>(n, c) \<in> set TLS_OPENSSL_TO_RFC_NAMES_MAPPING.
       \<not> str_in ''PSK'' n \<and>
       n \<notin> {''TLS_FALLBACK_SCSV'', ''GOST2001-NULL-GOST94'', ''GOST94-NULL-GOST94''} \<longrightarrow>
       (\<exists>b. getitem RFC_NAME_TO_KEY_SIZE_MAPPING c = Inr b)"
  proof (intro ballI)
    fix p assume p: "p \<in> set TLS_OPENSSL_TO_RFC_NAMES_MAPPING"
    obtain n c where nc: "p = (n, c)" by (cases p)
    from tls_entries_have_key_size p nc have
      "str_in ''PSK'' n \<or>
        n \<in> {''TLS_FALLBACK_SCSV'', ''GOST2001-NULL-GOST94'', ''GOST94-NULL-GOST94''} \<or>
        c \<in> fst ` set RFC_NAME_TO_KEY_SIZE_MAPPING"
      unfolding list_all_iff by blast
    then show "case p of (n, c) \<Rightarrow>
       \<not> str_in ''PSK'' n \<and>
       n \<notin> {''TLS_FALLBACK_SCSV'', ''GOST2001-NULL-GOST94'', ''GOST94-NULL-GOST94''} \<longrightarrow>
       (\<exists>b. getitem RFC_NAME_TO_KEY_SIZE_MAPPING c = Inr b)"
      unfolding nc using key_size_keyD[of c] by blast
  qed
  have tr: "\<forall>v m n. getitem OPENSSL_TO_RFC_NAMES_MAPPING v = Inr m \<and> n \<in> fst ` set m \<and>
       \<not> str_in ''PSK'' n \<and>
       n \<notin> {''TLS_FALLBACK_SCSV'', ''GOST2001-NULL-GOST94'', ''GOST94-NULL-GOST94''} \<longrightarrow>
       (\<exists>cs. translate v n = Inr cs)"
  proof (intro allI impI, elim conjE)
    fix v m n
    assume g: "getitem OPENSSL_TO_RFC_NAMES_MAPPING v = Inr m" and k: "n \<in> fst ` set m"
      and e: "\<not> str_in ''PSK'' n"
        "n \<notin> {''TLS_FALLBACK_SCSV'', ''GOST2001-NULL-GOST94'', ''GOST94-NULL-GOST94''}"
    from table_keyD[OF k] obtain c where c: "map_of m n = Some c" "(n, c) \<in> set m" by blast
    have "m = SSLV2_OPENSSL_TO_RFC_NAMES_MAPPING \<or> m = TLS_OPENSSL_TO_RFC_NAMES_MAPPING"
      using g version_tables by (cases v) simp_all
    then have "\<exists>b. getitem RFC_NAME_TO_KEY_SIZE_MAPPING c = Inr b"
    proof
      assume "m = SSLV2_OPENSSL_TO_RFC_NAMES_MAPPING"
      with sslv2 c(2) show ?thesis by blast
    next
      assume "m = TLS_OPENSSL_TO_RFC_NAMES_MAPPING"
      with tls c(2) e show ?thesis by blast
    qed
    then obtain b where "map_of RFC_NAME_TO_KEY_SIZE_MAPPING c = Some b"
      by (auto simp add: getitem_Inr)
    from translateI[OF g c(1) this] show "\<exists>cs. translate v n = Inr cs" by blast
  qed
  from sslv2 tls13 tls tr show ?thesis by (intro conjI)
qed

theorem catalogued_names_have_key_size_witness:
  "(''AES128-SHA'', ''TLS_RSA_WITH_AES_128_CBC_SHA'') \<in> set TLS_OPENSSL_TO_RFC_NAMES_MAPPING \<and>
   \<not> str_in ''PSK'' ''AES128-SHA'' \<and>
   ''AES128-SHA'' \<notin> {''TLS_FALLBACK_SCSV'', ''GOST2001-NULL-GOST94'', ''GOST94-NULL-GOST94''} \<and>
   (\<exists>b. getitem RFC_NAME_TO_KEY_SIZE_MAPPING ''TLS_RSA_WITH_AES_128_CBC_SHA'' = Inr b) \<and>
   (\<exists>cs. translate TLS_1_0 ''AES128-SHA'' = Inr cs)"
proof -
  have mem: "(''AES128-SHA'', ''TLS_RSA_WITH_AES_128_CBC_SHA'') \<in> set TLS_OPENSSL_TO_RFC_NAMES_MAPPING"
    using tls_AES128_SHA by (rule map_of_SomeD)
  have e: "\<not> str_in ''PSK'' ''AES128-SHA''"
    "''AES128-SHA'' \<notin> {''TLS_FALLBACK_SCSV'', ''GOST2001-NULL-GOST94'', ''GOST94-NULL-GOST94''}"
    by simp_all
  from mem have k: "''AES128-SHA'' \<in> fst ` set TLS_OPENSSL_TO_RFC_NAMES_MAPPING"
    by (rule image_eqI[rotated]) simp
  note whole = catalogued_names_have_key_size
  from whole have "\<forall>(n, c) \<in> set TLS_OPENSSL_TO_RFC_NAMES_MAPPING.
       \<not> str_in ''PSK'' n \<and>
       n \<notin> {''TLS_FALLBACK_SCSV'', ''GOST2001-NULL-GOST94'', ''GOST94-NULL-GOST94''} \<longrightarrow>
       (\<exists>b. getitem RFC_NAME_TO_KEY_SIZE_MAPPING c = Inr b)"
    by (elim conjE)
  from bspec[OF this mem] e
  have a: "\<exists>b. getitem RFC_NAME_TO_KEY_SIZE_MAPPING ''TLS_RSA_WITH_AES_128_CBC_SHA'' = Inr b"
    by simp
  from whole have "\<forall>v m n. getitem OPENSSL_TO_RFC_NAMES_MAPPING v = Inr m \<and> n \<in> fst ` set m \<and>
       \<not> str_in ''PSK'' n \<and>
       n \<notin> {''TLS_FALLBACK_SCSV'', ''GOST2001-NULL-GOST94'', ''GOST94-NULL-GOST94''} \<longrightarrow>
       (\<exists>cs. translate v n = Inr cs)"
    by (elim conjE)
  from this[rule_format, of TLS_1_0 TLS_OPENSSL_TO_RFC_NAMES_MAPPING "''AES128-SHA''"]
    version_tables(3) k e
  have b: "\<exists>cs. translate TLS_1_0 ''AES128-SHA'' = Inr cs"
    by simp
  from mem e a b show ?thesis by (intro conjI)
qed

text \<open>
  The claim as stated includes the entry for \<^verbatim>\<open>TLS_FALLBACK_SCSV\<close>. That RFC name is a
  value of the shared TLS table and not a key of the key-size table, so translating it
  raises \<^verbatim>\<open>KeyError\<close>.
\<close>

theorem fallback_scsv_has_no_key_size_counterexample:
  "map_of TLS_OPENSSL_TO_RFC_NAMES_MAPPING ''TLS_FALLBACK_SCSV'' = Some ''TLS_FALLBACK_SCSV'' \<and>
   map_of RFC_NAME_TO_KEY_SIZE_MAPPING ''TLS_FALLBACK_SCSV'' = None \<and>
   getitem RFC_NAME_TO_KEY_SIZE_MAPPING ''TLS_FALLBACK_SCSV'' = Inl KeyError \<and>
   translate TLS_1_0 ''TLS_FALLBACK_SCSV'' = Inl KeyError"
  using tls_TLS_FALLBACK_SCSV key_size_TLS_FALLBACK_SCSV translate_TLS_FALLBACK_SCSV
  by (simp add: getitem_def)

section \<open>The anonymity flag\<close>

text \<open>
  C6. For every version and every suite of the version's set in a built catalog,
  \<open>is_anonymous\<close> holds exactly when the RFC name contains \<^verbatim>\<open>anon\<close>. In particular a
  suite whose RFC name contains \<^verbatim>\<open>DH_anon\<close> is anonymous, a suite named
  \<^verbatim>\<open>TLS_RSA_WITH_AES_128_CBC_SHA\<close> is not, and no TLS 1.3 suite is.
\<close>

theorem is_anonymous_iff_anon_in_name:
  assumes "snd (parse_all_cipher_suites eng) = Inr cat" and "cat v = Some S" and "cs \<in> S"
  shows "(is_anonymous cs \<longleftrightarrow> str_in ''anon'' (name cs)) \<and>
         (str_in ''DH_anon'' (name cs) \<longrightarrow> is_anonymous cs) \<and>
         (name cs = ''TLS_RSA_WITH_AES_128_CBC_SHA'' \<longrightarrow> \<not> is_anonymous cs) \<and>
         (v = TLS_1_3 \<longrightarrow> \<not> is_anonymous cs)"
proof -
  have iff: "is_anonymous cs \<longleftrightarrow> str_in ''anon'' (name cs)"
    using catalog_memberD[OF assms]
  proof (elim disjE conjE exE)
    fix n assume "translate v n = Inr cs"
    then show ?thesis by (rule translate_is_anonymous)
  next
    assume m: "cs \<in> projr (tls_1_3_suites TLS_1_3_CIPHER_SUITES)"
    from tls_1_3_suite_fields(1,3)[OF m] tls_1_3_names_not_anon show ?thesis by blast
  qed
  have dh: "str_in ''DH_anon'' (name cs) \<longrightarrow> is_anonymous cs"
    using iff str_in_trans[OF anon_in_DH_anon] by blast
  have rsa: "name cs = ''TLS_RSA_WITH_AES_128_CBC_SHA'' \<longrightarrow> \<not> is_anonymous cs"
  proof
    assume "name cs = ''TLS_RSA_WITH_AES_128_CBC_SHA''"
    then have "\<not> str_in ''anon'' (name cs)" by simp
    with iff show "\<not> is_anonymous cs" by simp
  qed
  have t13: "v = TLS_1_3 \<longrightarrow> \<not> is_anonymous cs"
    using catalog_memberD[OF assms] tls_1_3_suite_fields(3)[of cs] by blast
  from iff dh rsa t13 show ?thesis by (intro conjI)
qed

theorem is_anonymous_iff_anon_in_name_witness:
  "projr (snd (parse_all_cipher_suites
      (\<lambda>c v s. if v = TLS_1_0 then Inr [''ADH-AES128-SHA'', ''AES128-SHA''] else Inr []))) TLS_1_0 =
     Some {\<lparr> name = ''TLS_DH_anon_WITH_AES_128_CBC_SHA'', openssl_name = ''ADH-AES128-SHA'',
              is_anonymous = True, key_size = 128 \<rparr>,
           \<lparr> name = ''TLS_RSA_WITH_AES_128_CBC_SHA'', openssl_name = ''AES128-SHA'',
              is_anonymous = False, key_size = 128 \<rparr>} \<and>
   is_anonymous \<lparr> name = ''TLS_DH_anon_WITH_AES_128_CBC_SHA'', openssl_name = ''ADH-AES128-SHA'',
                  is_anonymous = True, key_size = 128 \<rparr> \<and>
   str_in ''anon'' ''TLS_DH_anon_WITH_AES_128_CBC_SHA'' \<and>
   \<not> is_anonymous \<lparr> name = ''TLS_RSA_WITH_AES_128_CBC_SHA'', openssl_name = ''AES128-SHA'',
                  is_anonymous = False, key_size = 128 \<rparr> \<and>
   \<not> str_in ''anon'' ''TLS_RSA_WITH_AES_128_CBC_SHA''"
proof -
  let ?xs = "[''ADH-AES128-SHA'', ''AES128-SHA'']"
  let ?a = "\<lparr> name = ''TLS_DH_anon_WITH_AES_128_CBC_SHA'', openssl_name = ''ADH-AES128-SHA'',
              is_anonymous = True, key_size = 128 \<rparr>"
  let ?b = "\<lparr> name = ''TLS_RSA_WITH_AES_128_CBC_SHA'', openssl_name = ''AES128-SHA'',
              is_anonymous = False, key_size = 128 \<rparr>"
  have ok: "\<not> (\<exists>n\<in>set ?xs. isl (translate TLS_1_0 n))"
    by (simp add: translate_ADH_AES128_SHA translate_AES128_SHA)
  have c: "projr (snd (parse_all_cipher_suites
      (\<lambda>c v s. if v = TLS_1_0 then Inr ?xs else Inr []))) TLS_1_0 = Some {?a, ?b}"
    unfolding tls_1_0_catalog[OF ok]
    by (simp add: translate_ADH_AES128_SHA translate_AES128_SHA)
  have a: "?a \<in> {?a, ?b}" and b: "?b \<in> {?a, ?b}" by simp_all
  from is_anonymous_iff_anon_in_name[OF tls_1_0_run[OF ok] c a]
  have "is_anonymous ?a \<and> str_in ''anon'' (name ?a)" by simp
  moreover from is_anonymous_iff_anon_in_name[OF tls_1_0_run[OF ok] c b]
  have "\<not> is_anonymous ?b \<and> \<not> str_in ''anon'' (name ?b)" by simp
  ultimately show ?thesis using c by simp
qed

section \<open>Failed translation aborts the build\<close>

text \<open>
  C7. Translating a name fails exactly when the version has no table, or the name is not
  in the version's table, or its RFC name is not in the key-size table; the failure is
  always \<^verbatim>\<open>KeyError\<close>. When the engine answers all six queries, the build fails with
  \<^verbatim>\<open>KeyError\<close> exactly when some name it has to translate fails to translate, and then
  no repository exists; otherwise a repository exists, and each enumerated version's set
  holds the record of every name that had to be translated: none is skipped or
  defaulted. Each of the five enumerated versions has a table, and in a built catalog a
  version that has no table never has the empty set as its entry.
\<close>

theorem mapping_error_aborts_build:
  fixes eng :: engine and l2 l3 l10 l11 leg mdn :: "string list" and failing :: bool
  defines "failing \<equiv>
     (\<exists>n\<in>set l2. isl (translate SSL_2_0 n)) \<or>
     (\<exists>n\<in>set l3. isl (translate SSL_3_0 n)) \<or>
     (\<exists>n\<in>set l10. isl (translate TLS_1_0 n)) \<or>
     (\<exists>n\<in>set l11. isl (translate TLS_1_1 n)) \<or>
     (\<exists>n\<in>(set leg \<union> set mdn) - set TLS_1_3_CIPHER_SUITES. isl (translate TLS_1_2 n))"
  assumes "eng LegacySslClient SSL_2_0 ''ALL:COMPLEMENTOFALL:-PSK:-SRP'' = Inr l2"
    and "eng LegacySslClient SSL_3_0 ''ALL:COMPLEMENTOFALL:-PSK:-SRP'' = Inr l3"
    and "eng LegacySslClient TLS_1_0 ''ALL:COMPLEMENTOFALL:-PSK:-SRP'' = Inr l10"
    and "eng LegacySslClient TLS_1_1 ''ALL:COMPLEMENTOFALL:-PSK:-SRP'' = Inr l11"
    and "eng LegacySslClient TLS_1_2 ''ALL:COMPLEMENTOFALL:-PSK:-SRP'' = Inr leg"
    and "eng SslClient TLS_1_2 ''ALL:COMPLEMENTOFALL:-PSK:-SRP'' = Inr mdn"
  shows
    "(\<forall>v n. (isl (translate v n) \<longleftrightarrow>
         (case map_of OPENSSL_TO_RFC_NAMES_MAPPING v of
            None \<Rightarrow> True
          | Some m \<Rightarrow>
              (case map_of m n of
                 None \<Rightarrow> True
               | Some c \<Rightarrow> map_of RFC_NAME_TO_KEY_SIZE_MAPPING c = None))) \<and>
        (isl (translate v n) \<longleftrightarrow> translate v n = Inl KeyError)) \<and>
     (failing \<longleftrightarrow> snd (parse_all_cipher_suites eng) = Inl KeyError) \<and>
     (failing \<longleftrightarrow> snd (create_repository eng) = Inl KeyError) \<and>
     (\<not> failing \<longleftrightarrow> (\<exists>cls. snd (create_repository eng) = Inr cls)) \<and>
     (\<forall>cat. snd (parse_all_cipher_suites eng) = Inr cat \<longrightarrow>
        cat SSL_2_0 = Some {cs. \<exists>n\<in>set l2. translate SSL_2_0 n = Inr cs} \<and>
        cat SSL_3_0 = Some {cs. \<exists>n\<in>set l3. translate SSL_3_0 n = Inr cs} \<and>
        cat TLS_1_0 = Some {cs. \<exists>n\<in>set l10. translate TLS_1_0 n = Inr cs} \<and>
        cat TLS_1_1 = Some {cs. \<exists>n\<in>set l11. translate TLS_1_1 n = Inr cs} \<and>
        cat TLS_1_2 = Some {cs. \<exists>n\<in>(set leg \<union> set mdn) - set TLS_1_3_CIPHER_SUITES.
                                   translate TLS_1_2 n = Inr cs} \<and>
        (\<forall>n\<in>set l2. \<exists>cs. translate SSL_2_0 n = Inr cs) \<and>
        (\<forall>n\<in>set l3. \<exists>cs. translate SSL_3_0 n = Inr cs) \<and>
        (\<forall>n\<in>set l10. \<exists>cs. translate TLS_1_0 n = Inr cs) \<and>
        (\<forall>n\<in>set l11. \<exists>cs. translate TLS_1_1 n = Inr cs) \<and>
        (\<forall>n\<in>(set leg \<union> set mdn) - set TLS_1_3_CIPHER_SUITES. \<exists>cs. translate TLS_1_2 n = Inr cs)) \<and>
     (\<forall>v. v \<in> {SSL_2_0, SSL_3_0, TLS_1_0, TLS_1_1, TLS_1_2} \<longrightarrow>
        (\<exists>m. map_of OPENSSL_TO_RFC_NAMES_MAPPING v = Some m)) \<and>
     (\<forall>cat v. snd (parse_all_cipher_suites eng) = Inr cat \<longrightarrow>
        map_of OPENSSL_TO_RFC_NAMES_MAPPING v = None \<longrightarrow> cat v \<noteq> Some {})"
proof -
  note q = assms(2-7)[folded cipher_string_def]
  have t: "\<forall>v n. (isl (translate v n) \<longleftrightarrow>
         (case map_of OPENSSL_TO_RFC_NAMES_MAPPING v of
            None \<Rightarrow> True
          | Some m \<Rightarrow>
              (case map_of m n of
                 None \<Rightarrow> True
               | Some c \<Rightarrow> map_of RFC_NAME_TO_KEY_SIZE_MAPPING c = None))) \<and>
        (isl (translate v n) \<longleftrightarrow> translate v n = Inl KeyError)"
    using translate_isl translate_isl_KeyError by blast
  have p: "failing \<longleftrightarrow> snd (parse_all_cipher_suites eng) = Inl KeyError"
    unfolding failing_def parse_all_cipher_suites_KeyError(1)[where eng=eng, OF q] ..
  have i: "isl (snd (parse_all_cipher_suites eng)) \<longleftrightarrow> failing"
    unfolding p by (rule parse_all_cipher_suites_KeyError(2)[where eng=eng, OF q])
  have c: "failing \<longleftrightarrow> snd (create_repository eng) = Inl KeyError"
    unfolding p create_repository_snd by (simp split: sum.splits)
  have r: "\<not> failing \<longleftrightarrow> (\<exists>cls. snd (create_repository eng) = Inr cls)"
    unfolding i[symmetric] create_repository_snd by (simp split: sum.splits)
  have s: "\<forall>cat. snd (parse_all_cipher_suites eng) = Inr cat \<longrightarrow>
        cat SSL_2_0 = Some {cs. \<exists>n\<in>set l2. translate SSL_2_0 n = Inr cs} \<and>
        cat SSL_3_0 = Some {cs. \<exists>n\<in>set l3. translate SSL_3_0 n = Inr cs} \<and>
        cat TLS_1_0 = Some {cs. \<exists>n\<in>set l10. translate TLS_1_0 n = Inr cs} \<and>
        cat TLS_1_1 = Some {cs. \<exists>n\<in>set l11. translate TLS_1_1 n = Inr cs} \<and>
        cat TLS_1_2 = Some {cs. \<exists>n\<in>(set leg \<union> set mdn) - set TLS_1_3_CIPHER_SUITES.
                                   translate TLS_1_2 n = Inr cs} \<and>
        (\<forall>n\<in>set l2. \<exists>cs. translate SSL_2_0 n = Inr cs) \<and>
        (\<forall>n\<in>set l3. \<exists>cs. translate SSL_3_0 n = Inr cs) \<and>
        (\<forall>n\<in>set l10. \<exists>cs. translate TLS_1_0 n = Inr cs) \<and>
        (\<forall>n\<in>set l11. \<exists>cs. translate TLS_1_1 n = Inr cs) \<and>
        (\<forall>n\<in>(set leg \<union> set mdn) - set TLS_1_3_CIPHER_SUITES. \<exists>cs. translate TLS_1_2 n = Inr cs)"
  proof (intro allI impI)
    fix cat assume a: "snd (parse_all_cipher_suites eng) = Inr cat"
    from parse_all_cipher_suites_InrD[OF parse_all_cipher_suites_snd[OF a]] q
    have ok: "\<not> (\<exists>n\<in>set l2. isl (translate SSL_2_0 n))"
        "\<not> (\<exists>n\<in>set l3. isl (translate SSL_3_0 n))"
        "\<not> (\<exists>n\<in>set l10. isl (translate TLS_1_0 n))"
        "\<not> (\<exists>n\<in>set l11. isl (translate TLS_1_1 n))"
        "\<not> (\<exists>n\<in>(set leg \<union> set mdn) - set TLS_1_3_CIPHER_SUITES. isl (translate TLS_1_2 n))"
    and cat: "cat SSL_2_0 = Some ((\<lambda>n. projr (translate SSL_2_0 n)) ` set l2)"
        "cat SSL_3_0 = Some ((\<lambda>n. projr (translate SSL_3_0 n)) ` set l3)"
        "cat TLS_1_0 = Some ((\<lambda>n. projr (translate TLS_1_0 n)) ` set l10)"
        "cat TLS_1_1 = Some ((\<lambda>n. projr (translate TLS_1_1 n)) ` set l11)"
        "cat TLS_1_2 = Some ((\<lambda>n. projr (translate TLS_1_2 n)) `
                          ((set leg \<union> set mdn) - set TLS_1_3_CIPHER_SUITES))"
      by auto
    have e: "\<And>v X. \<not> (\<exists>n\<in>X. isl (translate v n)) \<Longrightarrow> \<forall>n\<in>X. \<exists>cs. translate v n = Inr cs"
      by (metis sum.collapse(2))
    show "cat SSL_2_0 = Some {cs. \<exists>n\<in>set l2. translate SSL_2_0 n = Inr cs} \<and>
        cat SSL_3_0 = Some {cs. \<exists>n\<in>set l3. translate SSL_3_0 n = Inr cs} \<and>
        cat TLS_1_0 = Some {cs. \<exists>n\<in>set l10. translate TLS_1_0 n = Inr cs} \<and>
        cat TLS_1_1 = Some {cs. \<exists>n\<in>set l11. translate TLS_1_1 n = Inr cs} \<and>
        cat TLS_1_2 = Some {cs. \<exists>n\<in>(set leg \<union> set mdn) - set TLS_1_3_CIPHER_SUITES.
                                   translate TLS_1_2 n = Inr cs} \<and>
        (\<forall>n\<in>set l2. \<exists>cs. translate SSL_2_0 n = Inr cs) \<and>
        (\<forall>n\<in>set l3. \<exists>cs. translate SSL_3_0 n = Inr cs) \<and>
        (\<forall>n\<in>set l10. \<exists>cs. translate TLS_1_0 n = Inr cs) \<and>
        (\<forall>n\<in>set l11. \<exists>cs. translate TLS_1_1 n = Inr cs) \<and>
        (\<forall>n\<in>(set leg \<union> set mdn) - set TLS_1_3_CIPHER_SUITES. \<exists>cs. translate TLS_1_2 n = Inr cs)"
      using cat[unfolded ok[THEN translated_set]] ok[THEN e]
      by (intro conjI)
  qed
  have tab: "\<forall>v. v \<in> {SSL_2_0, SSL_3_0, TLS_1_0, TLS_1_1, TLS_1_2} \<longrightarrow>
        (\<exists>m. map_of OPENSSL_TO_RFC_NAMES_MAPPING v = Some m)"
    using version_tables(1-5) by (auto simp add: getitem_Inr)
  have ne: "\<forall>cat v. snd (parse_all_cipher_suites eng) = Inr cat \<longrightarrow>
        map_of OPENSSL_TO_RFC_NAMES_MAPPING v = None \<longrightarrow> cat v \<noteq> Some {}"
  proof (intro allI impI)
    fix cat v
    assume a: "snd (parse_all_cipher_suites eng) = Inr cat"
      and n: "map_of OPENSSL_TO_RFC_NAMES_MAPPING v = None"
    from n tab have v: "v = TLS_1_3" by (cases v) auto
    from parse_all_cipher_suites_InrD[OF parse_all_cipher_suites_snd[OF a]]
    have "cat TLS_1_3 = Some (projr (tls_1_3_suites TLS_1_3_CIPHER_SUITES))"
      by (elim exE conjE)
    then show "cat v \<noteq> Some {}"
      unfolding v tls_1_3_suites_value by simp
  qed
  from t p c r s tab ne show ?thesis by (intro conjI)
qed

theorem mapping_error_aborts_build_witness:
  "translate TLS_1_0 ''NO-SUCH-CIPHER'' = Inl KeyError \<and>
   snd (parse_all_cipher_suites (\<lambda>c v s. if v = TLS_1_0 then Inr [''NO-SUCH-CIPHER''] else Inr []))
     = Inl KeyError \<and>
   snd (create_repository (\<lambda>c v s. if v = TLS_1_0 then Inr [''NO-SUCH-CIPHER''] else Inr []))
     = Inl KeyError \<and>
   map_of OPENSSL_TO_RFC_NAMES_MAPPING TLS_1_3 = None \<and>
   snd (parse_all_cipher_suites (\<lambda>c v s. Inr [''NULL-MD5''])) =
     Inr (projr (snd (parse_all_cipher_suites (\<lambda>c v s. Inr [''NULL-MD5''])))) \<and>
   projr (snd (parse_all_cipher_suites (\<lambda>c v s. Inr [''NULL-MD5'']))) TLS_1_3 \<noteq> Some {}"
proof -
  let ?eng = "\<lambda>(c :: ssl_client) v (s :: string).
     if v = TLS_1_0 then Inr [''NO-SUCH-CIPHER''] else (Inr [] :: error + string list)"
  have q: "?eng LegacySslClient SSL_2_0 ''ALL:COMPLEMENTOFALL:-PSK:-SRP'' = Inr []"
    "?eng LegacySslClient SSL_3_0 ''ALL:COMPLEMENTOFALL:-PSK:-SRP'' = Inr []"
    "?eng LegacySslClient TLS_1_0 ''ALL:COMPLEMENTOFALL:-PSK:-SRP'' = Inr [''NO-SUCH-CIPHER'']"
    "?eng LegacySslClient TLS_1_1 ''ALL:COMPLEMENTOFALL:-PSK:-SRP'' = Inr []"
    "?eng LegacySslClient TLS_1_2 ''ALL:COMPLEMENTOFALL:-PSK:-SRP'' = Inr []"
    "?eng SslClient TLS_1_2 ''ALL:COMPLEMENTOFALL:-PSK:-SRP'' = Inr []"
    by simp_all
  from mapping_error_aborts_build[where eng="?eng", OF q] translate_NO_SUCH_CIPHER
  have fails: "translate TLS_1_0 ''NO-SUCH-CIPHER'' = Inl KeyError \<and>
    snd (parse_all_cipher_suites ?eng) = Inl KeyError \<and>
    snd (create_repository ?eng) = Inl KeyError"
    by simp
  let ?ok = "\<lambda>(c :: ssl_client) (v :: TlsVersionEnum) (s :: string).
     (Inr [''NULL-MD5''] :: error + string list)"
  have r: "\<And>c v. ?ok c v ''ALL:COMPLEMENTOFALL:-PSK:-SRP'' = Inr [''NULL-MD5'']"
    by simp
  have none: "map_of OPENSSL_TO_RFC_NAMES_MAPPING TLS_1_3 = None"
    using version_tables(6) by (simp add: getitem_Inl)
  from mapping_error_aborts_build[where eng="?ok", OF r r r r r r]
  have "\<forall>cat v. snd (parse_all_cipher_suites ?ok) = Inr cat \<longrightarrow>
        map_of OPENSSL_TO_RFC_NAMES_MAPPING v = None \<longrightarrow> cat v \<noteq> Some {}"
    by (elim conjE)
  from this[rule_format, OF NULL_MD5_run none]
  have ne: "projr (snd (parse_all_cipher_suites ?ok)) TLS_1_3 \<noteq> Some {}" .
  from fails none NULL_MD5_run ne show ?thesis by (intro conjI) (elim conjE, assumption)+
qed

section \<open>How often each build step runs\<close>

text \<open>
  C8, refuted on the code. The TLS 1.2 and TLS 1.3 parts are indented under the loop over
  the four earlier versions, so they run once per iteration. With an engine that answers
  every query with the empty list, the build succeeds; each of SSL 2.0, SSL 3.0, TLS 1.0
  and TLS 1.1 is queried once, but the legacy and the modern client are each queried four
  times for TLS 1.2, and the TLS 1.2 and TLS 1.3 entries are each assigned four times.
\<close>

theorem tls_1_2_and_tls_1_3_steps_run_in_every_iteration:
  "\<not> isl (snd (parse_all_cipher_suites (\<lambda>c v s. Inr []))) \<and>
   count_list (fst (parse_all_cipher_suites (\<lambda>c v s. Inr [])))
     (GetCipherList LegacySslClient SSL_2_0 ''ALL:COMPLEMENTOFALL:-PSK:-SRP'') = 1 \<and>
   count_list (fst (parse_all_cipher_suites (\<lambda>c v s. Inr [])))
     (GetCipherList LegacySslClient SSL_3_0 ''ALL:COMPLEMENTOFALL:-PSK:-SRP'') = 1 \<and>
   count_list (fst (parse_all_cipher_suites (\<lambda>c v s. Inr [])))
     (GetCipherList LegacySslClient TLS_1_0 ''ALL:COMPLEMENTOFALL:-PSK:-SRP'') = 1 \<and>
   count_list (fst (parse_all_cipher_suites (\<lambda>c v s. Inr [])))
     (GetCipherList LegacySslClient TLS_1_1 ''ALL:COMPLEMENTOFALL:-PSK:-SRP'') = 1 \<and>
   count_list (fst (parse_all_cipher_suites (\<lambda>c v s. Inr [])))
     (GetCipherList LegacySslClient TLS_1_2 ''ALL:COMPLEMENTOFALL:-PSK:-SRP'') = 4 \<and>
   count_list (fst (parse_all_cipher_suites (\<lambda>c v s. Inr [])))
     (GetCipherList SslClient TLS_1_2 ''ALL:COMPLEMENTOFALL:-PSK:-SRP'') = 4 \<and>
   count_list (fst (parse_all_cipher_suites (\<lambda>c v s. Inr []))) (SetItem TLS_1_2) = 4 \<and>
   count_list (fst (parse_all_cipher_suites (\<lambda>c v s. Inr []))) (SetItem TLS_1_3) = 4"
proof -
  have "\<not> isl (snd (parse_all_cipher_suites (\<lambda>c v s. Inr [])))"
    using empty_answers_run by (metis snd_conv sum.disc(2))
  then show ?thesis
    unfolding empty_answers_trace cipher_string_def by simp
qed

section \<open>Idempotence and the cached catalog\<close>

text \<open>
  C9. The build is a function of the engine's answers taken as sets: two engines whose
  answers agree as sets (and in their failures) give the same run and the same
  repository, so a second build with the same engine changes nothing and every lookup
  of a version gives equal sets. After a successful build every version has an entry,
  which \<open>get_all_cipher_suites\<close> returns from the cached catalog without any event.
\<close>

theorem build_is_idempotent:
  assumes "\<forall>c v s. map_sum id set (eng1 c v s) = map_sum id set (eng2 c v s)"
  shows "parse_all_cipher_suites eng1 = parse_all_cipher_suites eng2 \<and>
         create_repository eng1 = create_repository eng2 \<and>
         (\<forall>cls v S. snd (create_repository eng1) = Inr cls \<longrightarrow>
            snd (get_all_cipher_suites cls v) = Inr S \<longrightarrow>
            (\<exists>cls'. snd (create_repository eng2) = Inr cls' \<and>
                    snd (get_all_cipher_suites cls' v) = Inr S)) \<and>
         (\<forall>cls v. snd (create_repository eng1) = Inr cls \<longrightarrow>
            (\<exists>S. ALL_CIPHER_SUITES cls v = Some S \<and> get_all_cipher_suites cls v = ([], Inr S))) \<and>
         (\<forall>cls v. fst (get_all_cipher_suites cls v) = [])"
proof -
  from assms have a: "\<And>c v s. map_sum id set (eng1 c v s) = map_sum id set (eng2 c v s)"
    by blast
  have p: "parse_all_cipher_suites eng1 = parse_all_cipher_suites eng2"
    unfolding parse_all_cipher_suites_def by (rule for_tls_version_set_equal[OF a])
  have c: "create_repository eng1 = create_repository eng2"
    unfolding create_repository_def p ..
  have t: "\<forall>cls v. snd (create_repository eng1) = Inr cls \<longrightarrow>
            (\<exists>S. ALL_CIPHER_SUITES cls v = Some S \<and> get_all_cipher_suites cls v = ([], Inr S))"
  proof (intro allI impI)
    fix cls v assume "snd (create_repository eng1) = Inr cls"
    from catalog_total[OF create_repository_InrD[OF this], of v]
    obtain S where "ALL_CIPHER_SUITES cls v = Some S" ..
    then show "\<exists>S. ALL_CIPHER_SUITES cls v = Some S \<and> get_all_cipher_suites cls v = ([], Inr S)"
      by (simp add: get_all_cipher_suites_def lift_def)
  qed
  have e: "\<forall>cls v. fst (get_all_cipher_suites cls v) = []"
    by (simp add: get_all_cipher_suites_def lift_def)
  from p c t e show ?thesis by simp
qed

theorem build_is_idempotent_witness:
  "create_repository (\<lambda>c v s. Inr [''NULL-MD5'', ''NULL-MD5'']) =
   create_repository (\<lambda>c v s. Inr [''NULL-MD5''])"
proof -
  have "\<forall>c v s. map_sum id set ((\<lambda>(c :: ssl_client) (v :: TlsVersionEnum) (s :: string).
            (Inr [''NULL-MD5'', ''NULL-MD5''] :: error + string list)) c v s) =
        map_sum id set ((\<lambda>c v s. Inr [''NULL-MD5'']) c v s)"
    by simp
  from build_is_idempotent[OF this] show ?thesis by (elim conjE)
qed

section \<open>Key sizes\<close>

text \<open>
  C10. For every protocol version and every suite that \<open>get_all_cipher_suites\<close> serves
  from a built repository, the key size is one of 0, 40, 56, 64, 128, 168 and 256; and
  every value of the key-size table lies in that set.
\<close>

theorem key_size_bits_in_known_set:
  assumes "snd (create_repository eng) = Inr cls"
    and "snd (get_all_cipher_suites cls v) = Inr S"
    and "cs \<in> S"
  shows "key_size cs \<in> {0, 40, 56, 64, 128, 168, 256} \<and>
         (\<forall>(c, b) \<in> set RFC_NAME_TO_KEY_SIZE_MAPPING. b \<in> {0, 40, 56, 64, 128, 168, 256})"
proof
  from catalog_memberD[OF create_repository_InrD[OF assms(1)] get_all_cipher_suites_InrD[OF assms(2)] assms(3)]
  have "map_of RFC_NAME_TO_KEY_SIZE_MAPPING (name cs) = Some (key_size cs)"
    by (auto dest: translate_key_size tls_1_3_suite_fields(4))
  then show "key_size cs \<in> {0, 40, 56, 64, 128, 168, 256}"
    by (rule key_size_valuesD)
next
  show "\<forall>(c, b) \<in> set RFC_NAME_TO_KEY_SIZE_MAPPING. b \<in> {0, 40, 56, 64, 128, 168, 256}"
    using key_size_values unfolding list_all_iff .
qed

theorem key_size_bits_in_known_set_witness:
  "snd (get_all_cipher_suites
          \<lparr> ALL_CIPHER_SUITES = projr (snd (parse_all_cipher_suites (\<lambda>c v s. Inr [''NULL-MD5'']))) \<rparr>
          SSL_2_0) =
     Inr {\<lparr> name = ''TLS_RSA_WITH_NULL_MD5'', openssl_name = ''NULL-MD5'',
             is_anonymous = False, key_size = 0 \<rparr>} \<and>
   key_size \<lparr> name = ''TLS_RSA_WITH_NULL_MD5'', openssl_name = ''NULL-MD5'',
              is_anonymous = False, key_size = 0 \<rparr> \<in> {0, 40, 56, 64, 128, 168, 256}"
proof -
  let ?r = "\<lparr> name = ''TLS_RSA_WITH_NULL_MD5'', openssl_name = ''NULL-MD5'',
              is_anonymous = False, key_size = 0 \<rparr>"
  have g: "snd (get_all_cipher_suites
          \<lparr> ALL_CIPHER_SUITES = projr (snd (parse_all_cipher_suites (\<lambda>c v s. Inr [''NULL-MD5'']))) \<rparr>
          SSL_2_0) = Inr {?r}"
    by (simp add: get_all_cipher_suites_def lift_def NULL_MD5_catalog)
  have m: "?r \<in> {?r}" by simp
  from key_size_bits_in_known_set[OF NULL_MD5_repository g m] g
  show ?thesis by blast
qed

end
